theory Spec2Isabelle
  imports Main "HOL-Library.AList"
begin

section \<open>Python values\<close>

text \<open>
  A Python \<open>str\<close> is a sequence of Unicode code points; it is modelled as a list of
  natural numbers, so that the emoji of the user-facing messages, the \<open>.\<close> of the
  regular expressions and the whitespace classes count what Python counts.  \<open>py\<close>
  turns an ASCII literal into such a string.  A \<open>dict\<close> is an association list
  (insertion ordered, as in Python): \<open>map_of\<close> is the lookup, \<open>AList.update\<close> the
  assignment, \<open>AList.delete\<close> the \<open>del\<close>.  A \<open>datetime\<close> is a number of microseconds.
\<close>

type_synonym str = "nat list"

definition py :: "string \<Rightarrow> str" where
  "py s = map of_char s"

type_synonym datetime = int

definition timedelta_hours :: "int \<Rightarrow> int" where
  "timedelta_hours h = h * 3600000000"

definition has_key :: "('k \<times> 'v) list \<Rightarrow> 'k \<Rightarrow> bool" where
  "has_key d k = (map_of d k \<noteq> None)"

text \<open>\<open>s.startswith(p)\<close> and \<open>sub in s\<close>.\<close>

fun startswith :: "str \<Rightarrow> str \<Rightarrow> bool" where
  "startswith s [] = True"
| "startswith [] (p # ps) = False"
| "startswith (c # cs) (p # ps) = (c = p \<and> startswith cs ps)"

fun py_in :: "str \<Rightarrow> str \<Rightarrow> bool" where
  "py_in sub [] = (sub = [])"
| "py_in sub (c # cs) = (startswith (c # cs) sub \<or> py_in sub cs)"

text \<open>
  \<open>str.isspace\<close> for one code point (the set \<open>str.strip()\<close> removes and the regular
  expression class \<open>\s\<close> matches), and the lower case of a code point below 256: the
  capital letters of the Basic Latin and Latin-1 blocks move by 32, every other code
  point of the two blocks is its own lower case.
\<close>

definition isspace :: "nat \<Rightarrow> bool" where
  "isspace c = ((9 \<le> c \<and> c \<le> 13) \<or> (28 \<le> c \<and> c \<le> 32) \<or> c = 133 \<or> c = 160
     \<or> c = 5760 \<or> (8192 \<le> c \<and> c \<le> 8202) \<or> c = 8232 \<or> c = 8233 \<or> c = 8239
     \<or> c = 8287 \<or> c = 12288)"

definition strip_is_empty :: "str \<Rightarrow> bool" where
  "strip_is_empty s = list_all isspace s"

definition lower_char :: "nat \<Rightarrow> nat" where
  "lower_char c = (if (65 \<le> c \<and> c \<le> 90) \<or> (192 \<le> c \<and> c \<le> 222 \<and> c \<noteq> 215) then c + 32 else c)"

section \<open>Global state\<close>

text \<open>
  One entry of \<open>MODEL_ENDPOINT_MAP\<close>: a JSON object with the keys \<open>current_index\<close>,
  \<open>session_id{n}\<close>, \<open>message_id{n}\<close> (the two families are kept by their number
  \<open>n\<close>), the legacy keys \<open>session_id\<close> and \<open>message_id\<close>, \<open>mode\<close> and
  \<open>battle_target\<close>.  A key that is absent is \<open>None\<close>.  The legacy form in which an
  entry is a list of objects is not part of the model.
\<close>

record model_mapping =
  current_index :: "int option"
  session_id_n :: "(int \<times> str) list"
  message_id_n :: "(int \<times> str) list"
  legacy_session_id :: "str option"
  legacy_message_id :: "str option"
  mode :: "str option"
  battle_target :: "str option"

text \<open>\<open>CONFIG\<close>, the keys of \<open>config.jsonc\<close> that the request path reads.\<close>

record config =
  api_key :: "str option"
  assistant_prefill_enabled :: "bool option"
  tavern_mode_enabled :: "bool option"
  bypass_enabled :: "bool option"
  id_updater_last_mode :: "str option"
  id_updater_battle_target :: "str option"
  use_default_ids_if_mapping_not_found :: "bool option"
  session_id :: "str option"
  message_id :: "str option"
  stream_response_timeout_seconds :: "int option"

definition empty_config :: config where
  "empty_config = \<lparr> api_key = None, assistant_prefill_enabled = None,
     tavern_mode_enabled = None, bypass_enabled = None, id_updater_last_mode = None,
     id_updater_battle_target = None, use_default_ids_if_mapping_not_found = None,
     session_id = None, message_id = None, stream_response_timeout_seconds = None \<rparr>"

text \<open>One record of the API-key registry (\<open>API_KEYS_DATA["api_keys"][key]\<close>).\<close>

record key_data =
  enabled :: "bool option"
  usage_limit :: "int option"
  usage_count :: "int option"
  models :: "str list option"
  last_used :: "datetime option"

text \<open>
  What the browser puts on a request's queue: a string fragment, a list of fragments or
  a control object; the end marker is the string \<open>[DONE]\<close>.
\<close>

record control =
  rate_limit_detected :: bool
  model_id :: "str option"
  original_error :: "str option"
  error :: "str option"

datatype frame = StrFrame str | ListFrame "str list" | DictFrame control

text \<open>What the server sends over the browser socket.\<close>

text \<open>
  The \<open>content\<close> of an OpenAI message: a string, a list of parts, \<open>null\<close>, or no
  such key.  A part is \<open>{type: "text", text}\<close>, \<open>{type: "image_url", image_url:
  {url, detail}}\<close> (\<open>url\<close> and \<open>detail\<close> may be absent) or of another type.
\<close>

datatype part = TextPart str | ImageUrlPart "str option" "str option" | OtherPart

datatype content_field = Text str | Parts "part list" | Null | Missing

record message =
  role :: "str option"
  content :: content_field

record attachment =
  attachment_name :: str
  contentType :: str
  attachment_url :: str

record template =
  template_role :: "str option"
  template_content :: str
  attachments :: "attachment list"
  participantPosition :: "str option"

record payload =
  message_templates :: "template list"
  target_model_id :: str
  payload_session_id :: str
  payload_message_id :: str
  assistant_prefill :: content_field
  is_auto_claude :: bool

datatype ws_message =
    RequestMessage str payload
  | Command str
  | SwitchModel str "str option" "str option" "str option"

type_synonym websocket = nat

record server =
  CONFIG :: config
  API_KEYS_DATA :: "(str \<times> key_data) list"
  browser_ws :: "websocket option"
  response_channels :: "(str \<times> nat) list"
  queues :: "(nat \<times> frame list) list"
  last_activity_time :: "datetime option"
  AUTO_CLAUDE_DISABLED_MODELS :: "(str \<times> datetime) list"
  AUTO_CLAUDE_ACTIVE_REQUESTS :: "(str \<times> str) list"
  MODEL_NAME_TO_ID_MAP :: "(str \<times> str) list"
  MODEL_ENDPOINT_MAP :: "(str \<times> model_mapping) list"
  config_jsonc :: "config option"
  model_endpoint_map_json :: "(str \<times> model_mapping) list"
  api_keys_json :: "(str \<times> key_data) list"
  written :: "string list"
  sent :: "(websocket \<times> ws_message) list"
  entropy :: nat

text \<open>
  \<open>response_channels\<close> maps a request id to its \<open>asyncio.Queue\<close>.  A queue is an
  object that outlives its entry in the table, so the table holds the queue's address
  and \<open>queues\<close> holds, by address, the items put on each queue and not yet taken.

  The last six fields are the world outside the process: the three files (the content
  of \<open>config.jsonc\<close> is \<open>None\<close> when the file is missing or does not parse),
  the log of file writes, the log of the text frames sent over browser sockets, and the
  number of values drawn from \<open>uuid.uuid4()\<close> so far.
\<close>

definition queue_items :: "nat \<Rightarrow> server \<Rightarrow> frame list" where
  "queue_items queue st = (case map_of (queues st) queue of Some items \<Rightarrow> items | None \<Rightarrow> [])"

definition put :: "nat \<Rightarrow> frame \<Rightarrow> server \<Rightarrow> server" where
  "put queue item st = st\<lparr> queues := AList.update queue (queue_items queue st @ [item]) (queues st) \<rparr>"

definition new_queue :: "server \<Rightarrow> nat \<times> server" where
  "new_queue st = (length (queues st), st\<lparr> queues := queues st @ [(length (queues st), [])] \<rparr>)"

section \<open>Credential pool rotation\<close>

definition save_model_endpoint_map :: "server \<Rightarrow> server" where
  "save_model_endpoint_map st =
     st\<lparr> model_endpoint_map_json := MODEL_ENDPOINT_MAP st,
         written := written st @ [''model_endpoint_map.json''] \<rparr>"

definition detect_rate_limit_error :: "str \<Rightarrow> bool" where
  "detect_rate_limit_error content' =
     (py_in (py ''429'') content' \<and> py_in (py ''Too Many Requests'') content')"

definition generate_rotation_message :: "str \<Rightarrow> bool \<Rightarrow> str" where
  "generate_rotation_message model_name rotation_success =
     (if rotation_success then
        [128260] @ py '' **Sistema de Rotaci'' @ [243] @ py ''n Activado**'' @ [10, 10]
        @ py ''He detectado que el endpoint actual ha alcanzado su l'' @ [237]
        @ py ''mite de velocidad para el modelo '' @ [39] @ model_name @ [39]
        @ py ''. He rotado autom'' @ [225] @ py ''ticamente al siguiente endpoint disponible.''
        @ [10, 10] @ py ''**Por favor, reenv'' @ [237]
        @ py ''a tu mensaje anterior para continuar con la conversaci'' @ [243] @ py ''n.**''
        @ [10, 10] @ py ''*Este es un mensaje autom'' @ [225] @ py ''tico del sistema de rotaci''
        @ [243] @ py ''n de Adri, pipipipi.*''
      else
        [9888, 65039] @ py '' **L'' @ [237] @ py ''mite de Velocidad Detectado**'' @ [10, 10]
        @ py ''He detectado un l'' @ [237] @ py ''mite de velocidad para el modelo '' @ [39]
        @ model_name @ [39]
        @ py '', pero no tengo endpoints adicionales configurados para rotar autom'' @ [225]
        @ py ''ticamente.'' @ [10, 10] @ py ''**Recomendaciones:**'' @ [10]
        @ py ''- Espera unos minutos antes de reintentar'' @ [10]
        @ py ''- Considera agregar m'' @ [225] @ py ''s session IDs de respaldo para este modelo''
        @ [10, 10] @ py ''*Este es un mensaje autom'' @ [225]
        @ py ''tico del sistema de adri, kkkkkkkk.*'')"

text \<open>
  \<open>get_available_session_count\<close>: the loop counts the numbers \<open>0, 1, 2, ...\<close> for which
  both \<open>session_id{n}\<close> and \<open>message_id{n}\<close> are keys, and stops at the first gap.
\<close>

function count_sessions :: "model_mapping \<Rightarrow> int \<Rightarrow> int \<Rightarrow> int" where
  "count_sessions model_mapping count index =
     (if has_key (session_id_n model_mapping) index \<and> has_key (message_id_n model_mapping) index
      then count_sessions model_mapping (count + 1) (index + 1)
      else count)"
  by pat_completeness auto
termination
proof (relation "measure (\<lambda>(m, c, i). card {k \<in> fst ` set (session_id_n m). i \<le> k})")
  show "wf (measure (\<lambda>(m, c, i). card {k \<in> fst ` set (session_id_n m). i \<le> k}))"
    by simp
next
  fix model_mapping :: model_mapping and count index :: int
  assume a: "has_key (session_id_n model_mapping) index \<and> has_key (message_id_n model_mapping) index"
  let ?K = "fst ` set (session_id_n model_mapping)"
  from a have mem: "index \<in> ?K"
    by (auto simp: has_key_def dest: map_of_SomeD intro: rev_image_eqI)
  have "index \<in> {k \<in> ?K. index \<le> k}" and "index \<notin> {k \<in> ?K. index + 1 \<le> k}"
    using mem by simp_all
  moreover have "{k \<in> ?K. index + 1 \<le> k} \<subseteq> {k \<in> ?K. index \<le> k}"
    by auto
  ultimately have "{k \<in> ?K. index + 1 \<le> k} \<subset> {k \<in> ?K. index \<le> k}"
    by blast
  moreover have "finite {k \<in> ?K. index \<le> k}"
    by simp
  ultimately have "card {k \<in> ?K. index + 1 \<le> k} < card {k \<in> ?K. index \<le> k}"
    by (rule psubset_card_mono [rotated])
  then show "((model_mapping, count + 1, index + 1), (model_mapping, count, index))
      \<in> measure (\<lambda>(m, c, i). card {k \<in> fst ` set (session_id_n m). i \<le> k})"
    by simp
qed

declare count_sessions.simps [simp del]

definition get_available_session_count :: "model_mapping \<Rightarrow> int" where
  "get_available_session_count model_mapping = count_sessions model_mapping 0 0"

definition rotate_model_session :: "str \<Rightarrow> server \<Rightarrow> bool \<times> server" where
  "rotate_model_session model_name st =
     (case map_of (MODEL_ENDPOINT_MAP st) model_name of
        None \<Rightarrow> (False, st)
      | Some model_mapping \<Rightarrow>
          (case current_index model_mapping of
             None \<Rightarrow> (False, st)
           | Some current_index' \<Rightarrow>
               let available_count = get_available_session_count model_mapping in
               if available_count \<le> 1 then (False, st)
               else
                 let next_index = (current_index' + 1) mod available_count in
                 if \<not> has_key (session_id_n model_mapping) next_index
                    \<or> \<not> has_key (message_id_n model_mapping) next_index
                 then (False, st)
                 else
                   (True, save_model_endpoint_map
                      (st\<lparr> MODEL_ENDPOINT_MAP :=
                          AList.update model_name
                            (model_mapping\<lparr> current_index := Some next_index \<rparr>)
                            (MODEL_ENDPOINT_MAP st) \<rparr>))))"

definition get_current_session_ids ::
  "str \<Rightarrow> server \<Rightarrow> str option \<times> str option \<times> str option \<times> str option" where
  "get_current_session_ids model_name st =
     (case map_of (MODEL_ENDPOINT_MAP st) model_name of
        None \<Rightarrow> (None, None, None, None)
      | Some model_mapping \<Rightarrow>
          (case current_index model_mapping of
             Some current_index' \<Rightarrow>
               (map_of (session_id_n model_mapping) current_index',
                map_of (message_id_n model_mapping) current_index',
                mode model_mapping, battle_target model_mapping)
           | None \<Rightarrow>
               (legacy_session_id model_mapping, legacy_message_id model_mapping,
                mode model_mapping, battle_target model_mapping)))"

section \<open>Automatic model fallback\<close>

definition AUTO_CLAUDE_PRIORITY :: "str list" where
  "AUTO_CLAUDE_PRIORITY =
     [py ''claude-opus-4-1-20250805-thinking-16k'',
      py ''claude-opus-4-1-20250805'',
      py ''claude-opus-4-20250514-thinking-16k'',
      py ''claude-opus-4-20250514'',
      py ''claude-3-7-sonnet-20250219'',
      py ''claude-sonnet-4-20250514'',
      py ''claude-3-5-sonnet-20241022'']"

text \<open>
  The functions read the clock with \<open>datetime.now()\<close>; the reading is the argument
  \<open>now\<close>.  One selection is taken at one instant: the readings of
  \<open>cleanup_expired_auto_claude_disables\<close> and of the availability checks that follow
  it are the same \<open>now\<close>.
\<close>

definition cleanup_expired_auto_claude_disables :: "datetime \<Rightarrow> server \<Rightarrow> server" where
  "cleanup_expired_auto_claude_disables now st =
     (let expired = [model. (model, until) \<leftarrow> AUTO_CLAUDE_DISABLED_MODELS st, now > until]
      in st\<lparr> AUTO_CLAUDE_DISABLED_MODELS :=
               fold AList.delete expired (AUTO_CLAUDE_DISABLED_MODELS st) \<rparr>)"

definition is_model_available_for_auto_claude :: "datetime \<Rightarrow> str \<Rightarrow> server \<Rightarrow> bool \<times> server" where
  "is_model_available_for_auto_claude now model_name st =
     (case map_of (AUTO_CLAUDE_DISABLED_MODELS st) model_name of
        None \<Rightarrow> (True, st)
      | Some until \<Rightarrow>
          if now > until
          then (True, st\<lparr> AUTO_CLAUDE_DISABLED_MODELS :=
                          AList.delete model_name (AUTO_CLAUDE_DISABLED_MODELS st) \<rparr>)
          else (False, st))"

definition disable_model_for_auto_claude :: "datetime \<Rightarrow> str \<Rightarrow> server \<Rightarrow> server" where
  "disable_model_for_auto_claude now model_name st =
     st\<lparr> AUTO_CLAUDE_DISABLED_MODELS :=
          AList.update model_name (now + timedelta_hours 1) (AUTO_CLAUDE_DISABLED_MODELS st) \<rparr>"

text \<open>The \<open>for\<close> loop of \<open>get_best_available_claude_model\<close> over the priority list.\<close>

fun first_available :: "datetime \<Rightarrow> str list \<Rightarrow> server \<Rightarrow> str option \<times> server" where
  "first_available now [] st = (None, st)"
| "first_available now (model # rest) st =
     (case is_model_available_for_auto_claude now model st of
        (available, st') \<Rightarrow>
          if available \<and> has_key (MODEL_NAME_TO_ID_MAP st') model then (Some model, st')
          else first_available now rest st')"

definition get_best_available_claude_model :: "datetime \<Rightarrow> server \<Rightarrow> str \<times> server" where
  "get_best_available_claude_model now st =
     (case first_available now AUTO_CLAUDE_PRIORITY (cleanup_expired_auto_claude_disables now st) of
        (Some model, st') \<Rightarrow> (model, st')
      | (None, st') \<Rightarrow> (last AUTO_CLAUDE_PRIORITY, st'))"

section \<open>Library functions\<close>

text \<open>
  The standard library enters as a parameter.  \<open>loads_string\<close> is \<open>json.loads\<close> on a
  text that starts with a quotation mark (the result is a \<open>str\<close>), \<open>loads_object\<close>
  is \<open>json.loads\<close> on a text that starts with a brace, the values of the object being
  strings; \<open>None\<close> stands for the \<open>JSONDecodeError\<close>.  \<open>guess_extension\<close> is
  \<open>mimetypes.guess_extension\<close> and \<open>uuid4 n\<close> is the text of the \<open>n\<close>-th value
  \<open>uuid.uuid4()\<close> returns.  \<open>str_lower\<close> is \<open>str.lower\<close> on the strings that hold a
  code point above U+00FF, where the lower case follows the tables of the Unicode
  database.
\<close>

record library =
  loads_string :: "str \<Rightarrow> str option"
  loads_object :: "str \<Rightarrow> (str \<times> str) list option"
  guess_extension :: "str \<Rightarrow> str option"
  uuid4 :: "nat \<Rightarrow> str"
  str_lower :: "str \<Rightarrow> str"

text \<open>
  \<open>str.lower\<close>.  On a string of code points below 256 it lowers each code point on
  its own; any other string is handed to the library.
\<close>

definition lower :: "library \<Rightarrow> str \<Rightarrow> str" where
  "lower lib s = (if list_all (\<lambda>c. c < 256) s then map lower_char s else str_lower lib s)"

section \<open>Stream parser\<close>

datatype event = Content str | Finish str | Error str

text \<open>How one run of the parser's generator ends: the \<open>break\<close> at \<open>[DONE]\<close>, a
  \<open>return\<close>, or an exception that leaves the generator.\<close>

datatype outcome = Natural | Returned | Raised

subsection \<open>The regular expressions\<close>

text \<open>
  \<open>text_pattern = [ab]0:"((?:\\.|[^"\\])*)"\<close>.  After the opening quotation mark the
  group is a sequence of escape pairs (a backslash and any character but a newline) and
  of characters other than the quotation mark and the backslash; the two alternatives
  start differently, so a match from a given position is found by one scan.
  \<open>scan_string_body\<close> returns the group and the text after the closing quotation mark.
\<close>

fun scan_string_body :: "str \<Rightarrow> (str \<times> str) option" where
  "scan_string_body [] = None"
| "scan_string_body (c # cs) =
     (if c = 34 then Some ([], cs)
      else if c = 92 then
        (case cs of
           [] \<Rightarrow> None
         | d # ds \<Rightarrow>
             if d = 10 then None
             else map_option (\<lambda>(grp, rest). (c # d # grp, rest)) (scan_string_body ds))
      else map_option (\<lambda>(grp, rest). (c # grp, rest)) (scan_string_body cs))"

definition text_pattern_match :: "str \<Rightarrow> (str \<times> str) option" where
  "text_pattern_match s =
     (case s of
        lane # zero # colon # quote # body \<Rightarrow>
          if (lane = 97 \<or> lane = 98) \<and> zero = 48 \<and> colon = 58 \<and> quote = 34
          then scan_string_body body else None
      | _ \<Rightarrow> None)"

text \<open>\<open>pattern.search(buffer)\<close>: the match at the leftmost position that has one.  The
  result is \<open>(match.group(1), buffer[match.end():])\<close>.\<close>

fun search :: "(str \<Rightarrow> 'a option) \<Rightarrow> str \<Rightarrow> 'a option" where
  "search match_at [] = match_at []"
| "search match_at (c # cs) =
     (case match_at (c # cs) of Some m \<Rightarrow> Some m | None \<Rightarrow> search match_at cs)"

text \<open>
  The lazy \<open>.*?\<close> followed by a literal: the first occurrence of the literal, unless a
  character that \<open>.\<close> does not match (the newline, when \<open>DOTALL\<close> is not set) comes
  before it.  The result is the text matched, the literal included, and the rest.
\<close>

fun lazy_until :: "bool \<Rightarrow> str \<Rightarrow> str \<Rightarrow> (str \<times> str) option" where
  "lazy_until dotall lit [] = (if lit = [] then Some ([], []) else None)"
| "lazy_until dotall lit (c # cs) =
     (if startswith (c # cs) lit then Some (lit, drop (length lit) (c # cs))
      else if c = 10 \<and> \<not> dotall then None
      else map_option (\<lambda>(matched, rest). (c # matched, rest)) (lazy_until dotall lit cs))"

text \<open>\<open>finish_pattern = [ab]d:(\{.*?"finishReason".*?\})\<close>.\<close>

definition finish_pattern_match :: "str \<Rightarrow> (str \<times> str) option" where
  "finish_pattern_match s =
     (case s of
        lane # d # colon # brace # body \<Rightarrow>
          if (lane = 97 \<or> lane = 98) \<and> d = 100 \<and> colon = 58 \<and> brace = 123 then
            (case lazy_until False ([34] @ py ''finishReason'' @ [34]) body of
               None \<Rightarrow> None
             | Some (m1, rest1) \<Rightarrow>
                 (case lazy_until False [125] rest1 of
                    None \<Rightarrow> None
                  | Some (m2, rest2) \<Rightarrow> Some (brace # m1 @ m2, rest2)))
          else None
      | _ \<Rightarrow> None)"

text \<open>\<open>error_pattern = (\{\s*"error".*?\})\<close> with \<open>re.DOTALL\<close>.\<close>

definition error_pattern_match :: "str \<Rightarrow> (str \<times> str) option" where
  "error_pattern_match s =
     (case s of
        brace # body \<Rightarrow>
          if brace = 123 \<and> startswith (dropWhile isspace body) ([34] @ py ''error'' @ [34]) then
            (case lazy_until True [125] (drop 7 (dropWhile isspace body)) of
               None \<Rightarrow> None
             | Some (m, rest) \<Rightarrow>
                 Some (brace # takeWhile isspace body @ [34] @ py ''error'' @ [34] @ m, rest))
          else None
      | _ \<Rightarrow> None)"

text \<open>
  The two \<open>cloudflare_patterns\<close>, searched with \<open>re.IGNORECASE\<close>: in the first the
  three dots are wildcards.  \<open>ignorecase_eq c p\<close> says that the code point \<open>c\<close> matches
  the pattern's Basic Latin character \<open>p\<close> when case is ignored.
\<close>

definition sre_lower :: "nat \<Rightarrow> nat" where
  "sre_lower c = (if 65 \<le> c \<and> c \<le> 90 then c + 32 else if c = 304 then 105
                  else if c = 8490 then 107 else c)"

definition ignorecase_eq :: "nat \<Rightarrow> nat \<Rightarrow> bool" where
  "ignorecase_eq c p =
     (sre_lower c = sre_lower p \<or> (sre_lower p = 105 \<and> c = 305) \<or> (sre_lower p = 115 \<and> c = 383))"

fun ignorecase_startswith :: "str \<Rightarrow> str \<Rightarrow> bool" where
  "ignorecase_startswith s [] = True"
| "ignorecase_startswith [] (p # ps) = False"
| "ignorecase_startswith (c # cs) (p # ps) = (ignorecase_eq c p \<and> ignorecase_startswith cs ps)"

definition just_a_moment_match :: "str \<Rightarrow> bool" where
  "just_a_moment_match s =
     (ignorecase_startswith s (py ''<title>Just a moment'')
      \<and> 3 \<le> length (drop 20 s) \<and> 10 \<notin> set (take 3 (drop 20 s))
      \<and> ignorecase_startswith (drop 23 s) (py ''</title>''))"

definition enable_javascript_match :: "str \<Rightarrow> bool" where
  "enable_javascript_match s =
     ignorecase_startswith s (py ''Enable JavaScript and cookies to continue'')"

fun search_bool :: "(str \<Rightarrow> bool) \<Rightarrow> str \<Rightarrow> bool" where
  "search_bool match_at [] = match_at []"
| "search_bool match_at (c # cs) = (match_at (c # cs) \<or> search_bool match_at cs)"

definition cloudflare_detected :: "str \<Rightarrow> bool" where
  "cloudflare_detected s =
     (search_bool just_a_moment_match s \<or> search_bool enable_javascript_match s)"

subsection \<open>The user-facing notices\<close>

definition rate_limit_fallback_message :: str where
  "rate_limit_fallback_message =
     [128260] @ py '' He detectado un l'' @ [237]
     @ py ''mite de velocidad, pero no pude identificar el modelo espec'' @ [237]
     @ py ''fico para rotar autom'' @ [225]
     @ py ''ticamente. Por favor, reintenta tu solicitud en unos minutos.''"

definition cloudflare_message :: str where
  "cloudflare_message =
     py ''Se detect'' @ [243] @ py '' la p'' @ [225] @ py ''gina de verificaci'' @ [243]
     @ py ''n humana de Cloudflare. Actualice la p'' @ [225]
     @ py ''gina de LMArena en su navegador y complete la verificaci'' @ [243]
     @ py ''n manualmente, luego vuelva a intentar la solicitud.''"

definition attachment_too_large_message :: str where
  "attachment_too_large_message =
     py ''Error de carga: El tama'' @ [241] @ py ''o del adjunto excede el l'' @ [237]
     @ py ''mite del servidor de LMArena (generalmente alrededor de 5 MB). ''
     @ py ''Intente comprimir el archivo o cargar un archivo m'' @ [225] @ py ''s peque'' @ [241]
     @ py ''o.''"

definition browser_disconnected_message :: str where
  "browser_disconnected_message =
     py ''El navegador se desconect'' @ [243] @ py '' durante la operaci'' @ [243] @ py ''n''"

fun str_of_nat :: "nat \<Rightarrow> str" where
  "str_of_nat n = (if n < 10 then [48 + n] else str_of_nat (n div 10) @ [48 + n mod 10])"

declare str_of_nat.simps [simp del]

definition str_of_int :: "int \<Rightarrow> str" where
  "str_of_int i = (if i < 0 then py ''-'' @ str_of_nat (nat (- i)) else str_of_nat (nat i))"

definition timeout_message :: "int \<Rightarrow> str" where
  "timeout_message timeout =
     py ''La respuesta expir'' @ [243] @ py '' despu'' @ [233] @ py ''s de ''
     @ str_of_int timeout @ py '' segundos.''"

definition auto_claude_switch_message :: "str \<Rightarrow> str \<Rightarrow> str" where
  "auto_claude_switch_message current_model next_model =
     [128260] @ py '' **Auto-Claude:** L'' @ [237] @ py ''mite de velocidad detectado para ''
     @ [39] @ current_model @ [39] @ py ''. Cambiando a '' @ [39] @ next_model @ [39]
     @ py ''...''"

subsection \<open>Browser socket\<close>

definition send_text :: "websocket \<Rightarrow> ws_message \<Rightarrow> server \<Rightarrow> server" where
  "send_text ws message st = st\<lparr> sent := sent st @ [(ws, message)] \<rparr>"

subsection \<open>The parser loop\<close>

text \<open>
  The block that the parser runs at each of its three rate-limit detections when it
  knows a model name: rotate, then yield the notice and a \<open>stop\<close> finish.
\<close>

definition rotation_notice :: "str \<Rightarrow> server \<Rightarrow> event list \<times> server" where
  "rotation_notice model_name st =
     (case rotate_model_session model_name st of
        (rotation_success, st') \<Rightarrow>
          ([Content (generate_rotation_message model_name rotation_success),
            Finish (py ''stop'')], st'))"

definition fallback_notice :: "event list" where
  "fallback_notice = [Content rate_limit_fallback_message, Finish (py ''stop'')]"

definition rate_limit_notice :: "str option \<Rightarrow> server \<Rightarrow> event list \<times> server" where
  "rate_limit_notice model_name st =
     (case model_name of
        Some name \<Rightarrow> if name \<noteq> [] then rotation_notice name st else (fallback_notice, st)
      | None \<Rightarrow> (fallback_notice, st))"

text \<open>What one turn of the \<open>while True\<close> loop does next.\<close>

datatype step = Continue str | Break | Return | Raise

text \<open>Step 1.1, the control object with \<open>rate_limit_detected\<close>.\<close>

definition find_model_by_id :: "str \<Rightarrow> (str \<times> str) list \<Rightarrow> str option" where
  "find_model_by_id model_id' catalog =
     map_option fst (find (\<lambda>(model_name, mapped_id). mapped_id = model_id') catalog)"

definition on_rate_limit_signal ::
  "datetime \<Rightarrow> str \<Rightarrow> control \<Rightarrow> server \<Rightarrow> event list \<times> server" where
  "on_rate_limit_signal now request_id raw_data st =
     (case map_of (AUTO_CLAUDE_ACTIVE_REQUESTS st) request_id of
        Some current_model \<Rightarrow>
          if current_model \<noteq> [] then
            (case get_best_available_claude_model now
                    (disable_model_for_auto_claude now current_model st) of
               (next_model, st1) \<Rightarrow>
                 let st2 = st1\<lparr> AUTO_CLAUDE_ACTIVE_REQUESTS :=
                             AList.update request_id next_model (AUTO_CLAUDE_ACTIVE_REQUESTS st1) \<rparr>;
                     switched = Content (auto_claude_switch_message current_model next_model)
                 in (case get_current_session_ids next_model st2 of
                       (new_session_id, new_message_id, _, _) \<Rightarrow>
                         (case browser_ws st2 of
                            Some ws \<Rightarrow>
                              ([switched],
                               send_text ws
                                 (SwitchModel request_id new_session_id new_message_id
                                    (map_of (MODEL_NAME_TO_ID_MAP st2) next_model)) st2)
                          | None \<Rightarrow>
                              ([switched,
                                Error (py ''No se pudo cambiar de modelo autom'' @ [225]
                                  @ py ''ticamente porque el navegador no est'' @ [225]
                                  @ py '' conectado.'')], st2))))
          else
            rate_limit_notice
              (case model_id raw_data of
                 Some i \<Rightarrow> if i \<noteq> [] then find_model_by_id i (MODEL_NAME_TO_ID_MAP st) else None
               | None \<Rightarrow> None) st
      | None \<Rightarrow>
          rate_limit_notice
            (case model_id raw_data of
               Some i \<Rightarrow> if i \<noteq> [] then find_model_by_id i (MODEL_NAME_TO_ID_MAP st) else None
             | None \<Rightarrow> None) st)"

text \<open>Step 1.2, the control object with an \<open>error\<close> key.\<close>

definition on_error_object :: "library \<Rightarrow> str \<Rightarrow> server \<Rightarrow> event list \<times> server" where
  "on_error_object lib error_msg st =
     (if py_in (py ''413'') error_msg \<or> py_in (py ''too large'') (lower lib error_msg)
      then ([Error attachment_too_large_message], st)
      else if cloudflare_detected error_msg
      then ([Error cloudflare_message],
            case browser_ws st of
              Some ws \<Rightarrow> send_text ws (Command (py ''refresh'')) st
            | None \<Rightarrow> st)
      else ([Error error_msg], st))"

text \<open>
  The \<open>while\<close> loop over \<open>text_pattern\<close>.  It yields the decoded fragments and ends
  either with the buffer that is left, or (\<open>None\<close>) at a fragment in which a rate
  limit is detected.
\<close>

lemma scan_string_body_shorter:
  "scan_string_body s = Some (g, rest) \<Longrightarrow> length rest < length s"
proof (induction s arbitrary: g rule: scan_string_body.induct)
  case 1
  then show ?case by simp
next
  case (2 c cs)
  then show ?case
    by (fastforce split: if_splits list.splits)
qed

lemma text_pattern_search_shorter:
  "search text_pattern_match buffer = Some (g, rest) \<Longrightarrow> length rest < length buffer"
proof (induction buffer)
  case Nil
  then show ?case by (simp add: text_pattern_match_def)
next
  case (Cons c cs)
  show ?case
  proof (cases "text_pattern_match (c # cs)")
    case None
    with Cons show ?thesis by simp
  next
    case (Some m)
    with Cons.prems have "text_pattern_match (c # cs) = Some (g, rest)" by simp
    then show ?thesis
      by (auto simp: text_pattern_match_def split: list.splits if_splits
          dest!: scan_string_body_shorter)
  qed
qed

function text_loop :: "library \<Rightarrow> str \<Rightarrow> event list \<times> str option" where
  "text_loop lib buffer =
     (case search text_pattern_match buffer of
        None \<Rightarrow> ([], Some buffer)
      | Some (grp, rest) \<Rightarrow>
          (case loads_string lib ([34] @ grp @ [34]) of
             None \<Rightarrow> text_loop lib rest
           | Some text_content \<Rightarrow>
               if text_content \<noteq> [] then
                 if detect_rate_limit_error text_content then ([], None)
                 else (case text_loop lib rest of
                         (events, final) \<Rightarrow> (Content text_content # events, final))
               else text_loop lib rest))"
  by pat_completeness auto
termination
  by (relation "measure (\<lambda>(lib, buffer). length buffer)")
     (auto dest: text_pattern_search_shorter)

declare text_loop.simps [simp del]

text \<open>The single scan for \<open>finish_pattern\<close> that follows.\<close>

definition finish_scan :: "library \<Rightarrow> str \<Rightarrow> event list \<times> str" where
  "finish_scan lib buffer =
     (case search finish_pattern_match buffer of
        None \<Rightarrow> ([], buffer)
      | Some (grp, rest) \<Rightarrow>
          (case loads_object lib grp of
             None \<Rightarrow> ([], rest)
           | Some finish_data \<Rightarrow>
               ([Finish (case map_of finish_data (py ''finishReason'') of
                           Some reason \<Rightarrow> reason | None \<Rightarrow> py ''stop'')], rest)))"

text \<open>Steps 2 to 8 for a frame that is a string or a list of strings, the buffer
  already extended by it.\<close>

definition scan_buffer ::
  "library \<Rightarrow> str option \<Rightarrow> str \<Rightarrow> server \<Rightarrow> event list \<times> step \<times> server" where
  "scan_buffer lib model_name buffer st =
     (if detect_rate_limit_error buffer then
        (case rate_limit_notice model_name st of (events, st') \<Rightarrow> (events, Return, st'))
      else if cloudflare_detected buffer then
        ([Error cloudflare_message], Return,
         case browser_ws st of
           Some ws \<Rightarrow> send_text ws (Command (py ''refresh'')) st
         | None \<Rightarrow> st)
      else
        (case (case search error_pattern_match buffer of
                 None \<Rightarrow> None
               | Some (grp, rest) \<Rightarrow> loads_object lib grp) of
           Some error_json \<Rightarrow>
             ([Error (case map_of error_json (py ''error'') of
                        Some e \<Rightarrow> e | None \<Rightarrow> py ''Error desconocido de LMArena'')],
              Return, st)
         | None \<Rightarrow>
             (case text_loop lib buffer of
                (contents, None) \<Rightarrow>
                  (case rate_limit_notice model_name st of
                     (events, st') \<Rightarrow> (contents @ events, Return, st'))
              | (contents, Some buffer') \<Rightarrow>
                  (case finish_scan lib buffer' of
                     (finishes, buffer'') \<Rightarrow> (contents @ finishes, Continue buffer'', st)))))"

definition handle_frame ::
  "library \<Rightarrow> datetime \<Rightarrow> str \<Rightarrow> str option \<Rightarrow> str \<Rightarrow> frame \<Rightarrow> server
     \<Rightarrow> event list \<times> step \<times> server" where
  "handle_frame lib now request_id model_name buffer raw_data st =
     (case raw_data of
        DictFrame d \<Rightarrow>
          if rate_limit_detected d then
            (case on_rate_limit_signal now request_id d st of
               (events, st') \<Rightarrow> (events, Return, st'))
          else
            (case error d of
               Some error_msg \<Rightarrow>
                 (case on_error_object lib error_msg st of (events, st') \<Rightarrow> (events, Return, st'))
             | None \<Rightarrow> ([], Raise, st))
      | StrFrame s \<Rightarrow>
          if s = py ''[DONE]'' then ([], Break, st)
          else scan_buffer lib model_name (buffer @ s) st
      | ListFrame items \<Rightarrow> scan_buffer lib model_name (buffer @ concat items) st)"

text \<open>
  The loop over the items the queue yields, \<open>timeout\<close> being the number of seconds
  read from the configuration before the loop.  Each round waits for the next item
  with \<open>asyncio.wait_for\<close>: with a timeout that is not positive the wait is cancelled
  at once, whatever the queue holds; otherwise it times out when the queue yields
  nothing more.  The result holds the events yielded, how the generator ended, and
  the items left on the queue.
\<close>

fun stream_loop ::
  "library \<Rightarrow> datetime \<Rightarrow> str \<Rightarrow> str option \<Rightarrow> int \<Rightarrow> str \<Rightarrow> frame list \<Rightarrow> server
     \<Rightarrow> event list \<times> outcome \<times> frame list \<times> server" where
  "stream_loop lib now request_id model_name timeout buffer [] st =
     ([Error (timeout_message timeout)], Returned, [], st)"
| "stream_loop lib now request_id model_name timeout buffer (raw_data # queue) st =
     (if timeout \<le> 0 then ([Error (timeout_message timeout)], Returned, raw_data # queue, st)
      else
        (case handle_frame lib now request_id model_name buffer raw_data st of
           (events, Continue buffer', st') \<Rightarrow>
             (case stream_loop lib now request_id model_name timeout buffer' queue st' of
                (events', result) \<Rightarrow> (events @ events', result))
         | (events, Break, st') \<Rightarrow> (events, Natural, queue, st')
         | (events, Return, st') \<Rightarrow> (events, Returned, queue, st')
         | (events, Raise, st') \<Rightarrow> (events, Raised, queue, st')))"
text \<open>
  \<open>_process_lmarena_stream\<close>.  The generator looks its queue up once; the \<open>try\<close>
  block then takes the items of that queue in order, and its \<open>finally\<close> clause removes
  the request from the channel table and from the active Auto-Claude requests.
\<close>

definition cleanup_request :: "str \<Rightarrow> server \<Rightarrow> server" where
  "cleanup_request request_id st =
     st\<lparr> response_channels := AList.delete request_id (response_channels st),
         AUTO_CLAUDE_ACTIVE_REQUESTS := AList.delete request_id (AUTO_CLAUDE_ACTIVE_REQUESTS st) \<rparr>"

definition process_queue ::
  "library \<Rightarrow> datetime \<Rightarrow> str \<Rightarrow> str option \<Rightarrow> nat \<Rightarrow> server
     \<Rightarrow> event list \<times> outcome \<times> server" where
  "process_queue lib now request_id model_name queue st =
     (case stream_loop lib now request_id model_name
             (case stream_response_timeout_seconds (CONFIG st) of
                Some timeout \<Rightarrow> timeout | None \<Rightarrow> 360)
             [] (queue_items queue st) st of
        (events, ended, left, st') \<Rightarrow>
          (events, ended,
           cleanup_request request_id (st'\<lparr> queues := AList.update queue left (queues st') \<rparr>)))"

definition process_lmarena_stream ::
  "library \<Rightarrow> datetime \<Rightarrow> str \<Rightarrow> str option \<Rightarrow> server \<Rightarrow> event list \<times> outcome \<times> server" where
  "process_lmarena_stream lib now request_id model_name st =
     (case map_of (response_channels st) request_id of
        None \<Rightarrow>
          ([Error (py ''Error interno del servidor: no se encontr'' @ [243]
                   @ py '' el canal de respuesta.'')], Returned, st)
      | Some queue \<Rightarrow> process_queue lib now request_id model_name queue st)"

section \<open>Responses in the OpenAI format\<close>

text \<open>
  A server-sent event of the streaming response: a content chunk
  (\<open>format_openai_chunk\<close>) with its id, model and delta content, or the finish chunk
  (\<open>format_openai_finish_chunk\<close>), which also carries the \<open>[DONE]\<close> terminator.
\<close>

datatype sse = OpenAIChunk str str content_field | OpenAIFinishChunk str str str

definition format_openai_chunk :: "content_field \<Rightarrow> str \<Rightarrow> str \<Rightarrow> sse" where
  "format_openai_chunk content' model request_id = OpenAIChunk request_id model content'"

definition format_openai_finish_chunk :: "str \<Rightarrow> str \<Rightarrow> str \<Rightarrow> sse" where
  "format_openai_finish_chunk model request_id reason = OpenAIFinishChunk request_id model reason"

definition format_openai_error_chunk :: "str \<Rightarrow> str \<Rightarrow> str \<Rightarrow> sse" where
  "format_openai_error_chunk error_message model request_id =
     format_openai_chunk (Text ([10, 10] @ py ''[Error del Puente LMArena]: '' @ error_message))
       model request_id"

definition content_filter_warning :: str where
  "content_filter_warning =
     [10, 10] @ py ''La respuesta fue terminada, posiblemente debido al l'' @ [237]
     @ py ''mite de contexto o a la censura interna del modelo (muy probable).''"

text \<open>Python's truth value of a message content.\<close>

fun truthy :: "content_field \<Rightarrow> bool" where
  "truthy (Text s) = (s \<noteq> [])"
| "truthy (Parts ps) = (ps \<noteq> [])"
| "truthy Null = False"
| "truthy Missing = False"

text \<open>
  The \<open>async for\<close> loop of \<open>stream_generator\<close> over the parser's events, and the
  finish chunk after it; \<open>reason\<close> is \<open>finish_reason_to_send\<close>.  An exception that
  leaves the parser leaves the loop as well.
\<close>

fun stream_events :: "str \<Rightarrow> str \<Rightarrow> str \<Rightarrow> event list \<Rightarrow> outcome \<Rightarrow> sse list" where
  "stream_events model response_id reason [] ended =
     (if ended = Raised then [] else [format_openai_finish_chunk model response_id reason])"
| "stream_events model response_id reason (Content data # events) ended =
     format_openai_chunk (Text data) model response_id
       # stream_events model response_id reason events ended"
| "stream_events model response_id reason (Finish data # events) ended =
     (if data = py ''content-filter''
      then [format_openai_chunk (Text content_filter_warning) model response_id] else [])
     @ stream_events model response_id data events ended"
| "stream_events model response_id reason (Error data # events) ended =
     [format_openai_error_chunk data model response_id,
      format_openai_finish_chunk model response_id (py ''stop'')]"

definition stream_generator ::
  "library \<Rightarrow> datetime \<Rightarrow> str \<Rightarrow> str \<Rightarrow> content_field \<Rightarrow> server \<Rightarrow> sse list \<times> server" where
  "stream_generator lib now request_id model assistant_prefill' st =
     (let response_id = py ''chatcmpl-'' @ uuid4 lib (entropy st);
          st1 = st\<lparr> entropy := entropy st + 1 \<rparr>
      in case process_lmarena_stream lib now request_id (Some model) st1 of
           (events, ended, st2) \<Rightarrow>
             ((if truthy assistant_prefill'
               then [format_openai_chunk assistant_prefill' model response_id] else [])
              @ stream_events model response_id (py ''stop'') events ended, st2))"

text \<open>
  \<open>non_stream_response\<close>: the aggregated answer, the error response of the first error
  event, or an exception (from the parser, or from joining a prefill that is not a
  string).
\<close>

record chat_completion =
  completion_id :: str
  completion_model :: str
  completion_content :: str
  finish_reason :: str
  completion_tokens :: nat

datatype response =
    StreamingResponse "sse list"
  | JsonResponse chat_completion
  | ErrorResponse nat str str

fun aggregate :: "str list \<Rightarrow> str \<Rightarrow> event list \<Rightarrow> (nat \<times> str \<times> str) + (str list \<times> str)" where
  "aggregate full_content reason [] = Inr (full_content, reason)"
| "aggregate full_content reason (Content data # events) =
     aggregate (full_content @ [data]) reason events"
| "aggregate full_content reason (Finish data # events) =
     aggregate (if data = py ''content-filter'' then full_content @ [content_filter_warning]
                else full_content) data events"
| "aggregate full_content reason (Error data # events) =
     (if py_in (py ''El tama'' @ [241] @ py ''o del adjunto excede'') data
      then Inl (413, py ''[Error del Puente LMArena]: '' @ data, py ''attachment_too_large'')
      else Inl (500, py ''[Error del Puente LMArena]: '' @ data, py ''processing_error''))"

definition non_stream_response ::
  "library \<Rightarrow> datetime \<Rightarrow> str \<Rightarrow> str \<Rightarrow> content_field \<Rightarrow> server
     \<Rightarrow> response option \<times> server" where
  "non_stream_response lib now request_id model assistant_prefill' st =
     (let response_id = py ''chatcmpl-'' @ uuid4 lib (entropy st);
          st1 = st\<lparr> entropy := entropy st + 1 \<rparr>
      in case process_lmarena_stream lib now request_id (Some model) st1 of
           (events, ended, st2) \<Rightarrow>
             (case aggregate [] (py ''stop'') events of
                Inl (status_code, message', code) \<Rightarrow>
                  (Some (ErrorResponse status_code message' code), st2)
              | Inr (full_content, reason) \<Rightarrow>
                  if ended = Raised then (None, st2)
                  else
                    (case assistant_prefill' of
                       Parts ps \<Rightarrow>
                         if ps \<noteq> [] then (None, st2)
                         else (Some (JsonResponse
                                 \<lparr> completion_id = response_id, completion_model = model,
                                   completion_content = concat full_content,
                                   finish_reason = reason,
                                   completion_tokens = length (concat full_content) div 4 \<rparr>), st2)
                     | _ \<Rightarrow>
                         let final_content =
                               (case assistant_prefill' of Text s \<Rightarrow> s | _ \<Rightarrow> []) @ concat full_content
                         in (Some (JsonResponse
                                 \<lparr> completion_id = response_id, completion_model = model,
                                   completion_content = final_content,
                                   finish_reason = reason,
                                   completion_tokens = length final_content div 4 \<rparr>), st2))))"

section \<open>Payload translator\<close>

text \<open>\<open>s.split(sep)\<close> for a separator of one character, and \<open>sep.join(parts)\<close>.\<close>

fun split :: "nat \<Rightarrow> str \<Rightarrow> str list" where
  "split sep [] = [[]]"
| "split sep (c # cs) =
     (if c = sep then [] # split sep cs
      else (case split sep cs of
              first # others \<Rightarrow> (c # first) # others
            | [] \<Rightarrow> [[c]]))"

fun join :: "str \<Rightarrow> str list \<Rightarrow> str" where
  "join sep [] = []"
| "join sep [s] = s"
| "join sep (s # t # ts) = s @ sep @ join sep (t # ts)"

text \<open>
  The body of the \<open>try\<close> block for one \<open>image_url\<close> part whose URL starts with
  \<open>data:\<close>.  \<open>None\<close> is the \<open>IndexError\<close> or \<open>ValueError\<close> that the block catches;
  otherwise the result is the attachment and whether a UUID was drawn for its name.
\<close>

definition data_uri_attachment ::
  "library \<Rightarrow> nat \<Rightarrow> str \<Rightarrow> str option \<Rightarrow> (attachment \<times> bool) option" where
  "data_uri_attachment lib n url' original_filename =
     (case split 58 (hd (split 59 url')) of
        _ # content_type # _ \<Rightarrow>
          (case (case original_filename of Some f \<Rightarrow> f \<noteq> [] | None \<Rightarrow> False) of
             True \<Rightarrow>
               Some (\<lparr> attachment_name = the original_filename, contentType = content_type,
                        attachment_url = url' \<rparr>, False)
           | False \<Rightarrow>
               (case (if 47 \<in> set content_type
                      then (case split 47 content_type of
                              [main_type, sub_type] \<Rightarrow> Some (main_type, sub_type)
                            | _ \<Rightarrow> None)
                      else Some (py ''application'', py ''octet-stream'')) of
                  None \<Rightarrow> None
                | Some (main_type, sub_type) \<Rightarrow>
                    let prefix = (if main_type = py ''image'' then py ''image''
                                  else if main_type = py ''audio'' then py ''audio''
                                  else py ''file'');
                        file_extension =
                          (case guess_extension lib content_type of
                             Some guessed_extension \<Rightarrow>
                               if guessed_extension \<noteq> []
                               then dropWhile (\<lambda>c. c = 46) guessed_extension
                               else if length sub_type < 20 then sub_type else py ''bin''
                           | None \<Rightarrow> if length sub_type < 20 then sub_type else py ''bin'')
                    in Some (\<lparr> attachment_name = prefix @ py ''_'' @ uuid4 lib n @ py ''.''
                                   @ file_extension,
                                 contentType = content_type, attachment_url = url' \<rparr>, True)))
      | _ \<Rightarrow> None)"

text \<open>The loop over the parts of a list-form content; \<open>n\<close> counts the UUIDs drawn.\<close>

fun process_parts ::
  "library \<Rightarrow> part list \<Rightarrow> str list \<Rightarrow> attachment list \<Rightarrow> nat
     \<Rightarrow> str list \<times> attachment list \<times> nat" where
  "process_parts lib [] text_parts atts n = (text_parts, atts, n)"
| "process_parts lib (TextPart t # parts) text_parts atts n =
     process_parts lib parts (text_parts @ [t]) atts n"
| "process_parts lib (ImageUrlPart url' original_filename # parts) text_parts atts n =
     (case (case url' of Some u \<Rightarrow> if u \<noteq> [] \<and> startswith u (py ''data:'') then Some u else None
            | None \<Rightarrow> None) of
        None \<Rightarrow> process_parts lib parts text_parts atts n
      | Some u \<Rightarrow>
          (case data_uri_attachment lib n u original_filename of
             None \<Rightarrow> process_parts lib parts text_parts atts n
           | Some (a, drawn) \<Rightarrow>
               process_parts lib parts text_parts (atts @ [a]) (if drawn then n + 1 else n)))"
| "process_parts lib (OtherPart # parts) text_parts atts n =
     process_parts lib parts text_parts atts n"

definition process_openai_message :: "library \<Rightarrow> message \<Rightarrow> nat \<Rightarrow> template \<times> nat" where
  "process_openai_message lib message' n =
     (case (case content message' of
              Parts parts \<Rightarrow>
                (case process_parts lib parts [] [] n of
                   (text_parts, atts, n') \<Rightarrow> (join [10, 10] text_parts, atts, n'))
            | Text s \<Rightarrow> (s, [], n)
            | _ \<Rightarrow> ([], [], n)) of
        (text_content, atts, n') \<Rightarrow>
          (\<lparr> template_role = role message',
              template_content =
                (if role message' = Some (py ''user'') \<and> strip_is_empty text_content then py '' ''
                 else if role message' = Some (py ''assistant'') \<and> strip_is_empty text_content
                 then [] else text_content),
              attachments = atts, participantPosition = None \<rparr>, n'))"

fun process_messages :: "library \<Rightarrow> message list \<Rightarrow> nat \<Rightarrow> template list \<times> nat" where
  "process_messages lib [] n = ([], n)"
| "process_messages lib (msg # messages) n =
     (case process_openai_message lib msg n of
        (processed, n') \<Rightarrow>
          (case process_messages lib messages n' of
             (rest, n'') \<Rightarrow> (processed # rest, n'')))"

text \<open>The body of an OpenAI chat-completion request: \<open>model\<close>, \<open>messages\<close>, \<open>stream\<close>.\<close>

record openai_request =
  req_model :: "str option"
  req_messages :: "message list"
  req_stream :: "bool option"

definition DEFAULT_MODEL_ID :: str where
  "DEFAULT_MODEL_ID = py ''f44e280a-7914-43ca-a25d-ecfcc5d48d09''"

text \<open>Step 1 of \<open>convert_openai_to_lmarena_payload\<close>: \<open>developer\<close> becomes \<open>system\<close>.\<close>

definition normalize_role :: "message \<Rightarrow> message" where
  "normalize_role msg = (if role msg = Some (py ''developer'') then msg\<lparr> role := Some (py ''system'') \<rparr> else msg)"

text \<open>
  The assistant prefill: the messages that remain and the prefill content.  \<open>None\<close> is
  the \<open>TypeError\<close> of slicing a \<open>null\<close> content for the log line.
\<close>

definition extract_prefill :: "bool \<Rightarrow> message list \<Rightarrow> (message list \<times> content_field) option" where
  "extract_prefill assistant_prefill_enabled' msgs =
     (if assistant_prefill_enabled' \<and> msgs \<noteq> [] \<and> role (last msgs) = Some (py ''assistant'') then
        (case content (last msgs) of
           Null \<Rightarrow> None
         | Missing \<Rightarrow> Some (butlast msgs, Text [])
         | c \<Rightarrow> Some (butlast msgs, c))
      else if \<not> assistant_prefill_enabled' \<and> msgs \<noteq> [] \<and> role (last msgs) = Some (py ''assistant'') then
        Some (butlast msgs @ [(last msgs)\<lparr> role := Some (py ''user'') \<rparr>], Text [])
      else Some (msgs, Text []))"

text \<open>Step 2, Tavern mode.\<close>

definition tavern_mode :: "template list \<Rightarrow> template list" where
  "tavern_mode processed_messages =
     (let system_prompts = [template_content msg. msg \<leftarrow> processed_messages,
                              template_role msg = Some (py ''system'')];
          other_messages = [msg. msg \<leftarrow> processed_messages,
                              template_role msg \<noteq> Some (py ''system'')];
          merged_system_prompt = join [10, 10] system_prompts
      in (if merged_system_prompt \<noteq> []
          then [\<lparr> template_role = Some (py ''system''), template_content = merged_system_prompt,
                   attachments = [], participantPosition = None \<rparr>]
          else [])
         @ other_messages)"

text \<open>Step 6, the participant position of one message template.\<close>

definition set_position :: "str \<Rightarrow> str \<Rightarrow> template \<Rightarrow> template" where
  "set_position mode' target_participant msg =
     (if template_role msg = Some (py ''system'') then
        (if mode' = py ''battle'' then msg\<lparr> participantPosition := Some target_participant \<rparr>
         else msg\<lparr> participantPosition := Some (py ''b'') \<rparr>)
      else if mode' = py ''battle'' then msg\<lparr> participantPosition := Some target_participant \<rparr>
      else msg\<lparr> participantPosition := Some (py ''a'') \<rparr>)"

definition bypass_message :: template where
  "bypass_message = \<lparr> template_role = Some (py ''user''), template_content = py '' '',
     attachments = [], participantPosition = Some (py ''a'') \<rparr>"

text \<open>\<open>x or y\<close> for an optional string \<open>x\<close>.\<close>

definition or_else :: "str option \<Rightarrow> str \<Rightarrow> str" where
  "or_else x y = (case x of Some s \<Rightarrow> if s \<noteq> [] then s else y | None \<Rightarrow> y)"

definition convert_openai_to_lmarena_payload ::
  "library \<Rightarrow> openai_request \<Rightarrow> str \<Rightarrow> str \<Rightarrow> str option \<Rightarrow> str option \<Rightarrow> bool \<Rightarrow> server
     \<Rightarrow> payload option \<times> server" where
  "convert_openai_to_lmarena_payload lib openai_data session_id' message_id' mode_override
       battle_target_override is_auto_claude' st =
     (case extract_prefill
             (case assistant_prefill_enabled (CONFIG st) of Some b \<Rightarrow> b | None \<Rightarrow> True)
             (map normalize_role (req_messages openai_data)) of
        None \<Rightarrow> (None, st)
      | Some (msgs, assistant_prefill_content) \<Rightarrow>
          (case process_messages lib msgs (entropy st) of
             (processed_messages, n) \<Rightarrow>
               let processed_messages' =
                     (if tavern_mode_enabled (CONFIG st) = Some True
                      then tavern_mode processed_messages else processed_messages);
                   model_name = (case req_model openai_data of Some m \<Rightarrow> m
                                 | None \<Rightarrow> py ''claude-3-5-sonnet-20241022'');
                   target_model_id' =
                     (case map_of (MODEL_NAME_TO_ID_MAP st) model_name of
                        Some i \<Rightarrow> i | None \<Rightarrow> DEFAULT_MODEL_ID);
                   message_templates' =
                     processed_messages'
                     @ (if bypass_enabled (CONFIG st) = Some True then [bypass_message] else []);
                   mode' = or_else mode_override
                             (case id_updater_last_mode (CONFIG st) of
                                Some m \<Rightarrow> m | None \<Rightarrow> py ''direct_chat'');
                   target_participant =
                     lower lib (or_else battle_target_override
                              (case id_updater_battle_target (CONFIG st) of
                                 Some t \<Rightarrow> t | None \<Rightarrow> py ''A''))
               in (Some \<lparr> message_templates = map (set_position mode' target_participant) message_templates',
                          target_model_id = target_model_id',
                          payload_session_id = session_id',
                          payload_message_id = message_id',
                          assistant_prefill = assistant_prefill_content,
                          is_auto_claude = is_auto_claude' \<rparr>,
                   st\<lparr> entropy := n \<rparr>)))"

section \<open>API keys\<close>

definition save_api_keys :: "server \<Rightarrow> server" where
  "save_api_keys st =
     st\<lparr> api_keys_json := API_KEYS_DATA st, written := written st @ [''api_keys.json''] \<rparr>"

text \<open>The global key of the configuration, when one is set and not empty.\<close>

definition is_global_key :: "str \<Rightarrow> server \<Rightarrow> bool" where
  "is_global_key api_key' st =
     (case api_key (CONFIG st) of Some config_api_key \<Rightarrow> config_api_key \<noteq> [] \<and> api_key' = config_api_key
      | None \<Rightarrow> False)"

text \<open>
  \<open>validate_api_key\<close> returns \<open>(valid, key_data, error)\<close>; here the error message
  (\<open>Inl\<close>) or the key's data (\<open>Inr\<close>, \<open>None\<close> standing for the record made up for the
  global key, which gives access to every model).
\<close>

definition validate_api_key :: "str \<Rightarrow> str option \<Rightarrow> server \<Rightarrow> str + key_data option" where
  "validate_api_key api_key' model_name st =
     (if api_key' = [] then Inl (py ''API key requerida'')
      else if is_global_key api_key' st then Inr None
      else
        (case map_of (API_KEYS_DATA st) api_key' of
           None \<Rightarrow> Inl (py ''API key inv'' @ [225] @ py ''lida'')
         | Some key_data' \<Rightarrow>
             if enabled key_data' = Some False then Inl (py ''API key deshabilitada'')
             else if (case usage_limit key_data' of
                        Some limit \<Rightarrow>
                          (case usage_count key_data' of Some n \<Rightarrow> n | None \<Rightarrow> 0) \<ge> limit
                      | None \<Rightarrow> False)
             then Inl (py ''L'' @ [237] @ py ''mite de usos excedido'')
             else
               (case model_name of
                  Some name \<Rightarrow>
                    if name \<noteq> [] \<and>
                       (case models key_data' of
                          Some allowed_models \<Rightarrow> allowed_models \<noteq> [] \<and> name \<notin> set allowed_models
                        | None \<Rightarrow> False)
                    then Inl (py ''Modelo '' @ [39] @ name @ [39]
                              @ py '' no permitido para esta API key'')
                    else Inr (Some key_data')
                | None \<Rightarrow> Inr (Some key_data'))))"

definition increment_api_key_usage :: "datetime \<Rightarrow> str \<Rightarrow> server \<Rightarrow> server" where
  "increment_api_key_usage now api_key' st =
     (if is_global_key api_key' st then st
      else
        (case map_of (API_KEYS_DATA st) api_key' of
           None \<Rightarrow> st
         | Some key_data' \<Rightarrow>
             save_api_keys
               (st\<lparr> API_KEYS_DATA :=
                      AList.update api_key'
                        (key_data'\<lparr> usage_count :=
                                      Some ((case usage_count key_data' of Some n \<Rightarrow> n | None \<Rightarrow> 0) + 1),
                                    last_used := Some now \<rparr>)
                        (API_KEYS_DATA st) \<rparr>)))"

definition get_models_for_api_key :: "str \<Rightarrow> server \<Rightarrow> str list" where
  "get_models_for_api_key api_key' st =
     (case validate_api_key api_key' None st of
        Inl _ \<Rightarrow> []
      | Inr None \<Rightarrow> map fst (MODEL_NAME_TO_ID_MAP st)
      | Inr (Some key_data') \<Rightarrow>
          (case models key_data' of
             None \<Rightarrow> map fst (MODEL_NAME_TO_ID_MAP st)
           | Some allowed_models \<Rightarrow>
               if allowed_models = [] then map fst (MODEL_NAME_TO_ID_MAP st)
               else [m. m \<leftarrow> allowed_models, has_key (MODEL_NAME_TO_ID_MAP st) m]))"

section \<open>Multiplexer\<close>

text \<open>
  \<open>websocket_endpoint\<close>, the handler of one browser socket, in its three parts: the
  connection is accepted and stored; each message received is dispatched; and the
  \<open>finally\<close> clause runs when the socket disconnects or the handler fails.  An inbound
  message is \<open>{request_id, data}\<close>, either of which may be absent.
\<close>

definition websocket_connect :: "websocket \<Rightarrow> server \<Rightarrow> server" where
  "websocket_connect websocket' st = st\<lparr> browser_ws := Some websocket' \<rparr>"

definition websocket_receive :: "str option \<times> frame option \<Rightarrow> server \<Rightarrow> server" where
  "websocket_receive message' st =
     (case message' of
        (Some request_id, Some data) \<Rightarrow>
          if request_id = [] then st
          else (case map_of (response_channels st) request_id of
                  Some queue \<Rightarrow> put queue data st
                | None \<Rightarrow> st)
      | _ \<Rightarrow> st)"

definition disconnect_sentinel :: frame where
  "disconnect_sentinel =
     DictFrame \<lparr> rate_limit_detected = False, model_id = None, original_error = None,
                 error = Some browser_disconnected_message \<rparr>"

definition broadcast_disconnect :: "server \<Rightarrow> server" where
  "broadcast_disconnect st =
     fold (\<lambda>queue. put queue disconnect_sentinel) (map snd (response_channels st)) st"

definition websocket_finally :: "server \<Rightarrow> server" where
  "websocket_finally st =
     (broadcast_disconnect (st\<lparr> browser_ws := None \<rparr>))\<lparr> response_channels := [] \<rparr>"

definition websocket_endpoint ::
  "websocket \<Rightarrow> (str option \<times> frame option) list \<Rightarrow> server \<Rightarrow> server" where
  "websocket_endpoint websocket' received st =
     websocket_finally (fold websocket_receive received (websocket_connect websocket' st))"

section \<open>HTTP endpoints\<close>

datatype http_exception = HTTPException nat str

text \<open>
  A request: its \<open>Authorization\<close> header and what \<open>request.json()\<close> makes of the
  body.  \<open>InvalidJson\<close> is the \<open>JSONDecodeError\<close> for a text that is not JSON;
  \<open>OtherError\<close> is any other exception of the call, such as the
  \<open>UnicodeDecodeError\<close> for bytes that are no text in UTF-8, UTF-16 or UTF-32, or the
  \<open>RecursionError\<close> for a text nested too deeply; \<open>NotAnObject\<close> is a JSON value
  that is not an object.
\<close>

datatype body = InvalidJson | OtherError | NotAnObject | Object openai_request

record request =
  authorization :: "str option"
  json_body :: body

definition get_api_key_from_header :: "request \<Rightarrow> http_exception + str" where
  "get_api_key_from_header request' =
     (case authorization request' of
        None \<Rightarrow> Inl (HTTPException 401 (py ''API key requerida en header Authorization''))
      | Some auth_header \<Rightarrow>
          if auth_header = [] \<or> \<not> startswith auth_header (py ''Bearer '')
          then Inl (HTTPException 401 (py ''API key requerida en header Authorization''))
          else Inr (split 32 auth_header ! 1))"

definition load_config :: "server \<Rightarrow> server" where
  "load_config st =
     st\<lparr> CONFIG := (case config_jsonc st of Some c \<Rightarrow> c | None \<Rightarrow> empty_config) \<rparr>"

text \<open>\<open>GET /v1/models\<close>: the names of the models listed, or the error.\<close>

definition get_models :: "request \<Rightarrow> server \<Rightarrow> (http_exception + str list) \<times> server" where
  "get_models request' st =
     (if MODEL_NAME_TO_ID_MAP st = [] then
        (Inl (HTTPException 404
               (py ''La lista de modelos est'' @ [225] @ py '' vac'' @ [237]
                @ py ''a o no se encontr'' @ [243] @ py '' '' @ [39] @ py ''models.json'' @ [39]
                @ py ''.'')), st)
      else if (case api_key (CONFIG st) of Some k \<Rightarrow> k \<noteq> [] | None \<Rightarrow> False)
              \<or> API_KEYS_DATA st \<noteq> [] then
        (case get_api_key_from_header request' of
           Inl _ \<Rightarrow>
             (Inl (HTTPException 401
                    (py ''API key requerida para acceder a la lista de modelos.'')), st)
         | Inr api_key' \<Rightarrow>
             if api_key' \<noteq> [] then
               (if get_models_for_api_key api_key' st = [] then
                  (case validate_api_key api_key' None st of
                     Inl err \<Rightarrow> (Inl (HTTPException 401 err), st)
                   | Inr _ \<Rightarrow> (Inr [], st))
                else (Inr (get_models_for_api_key api_key' st), st))
             else (Inr (map fst (MODEL_NAME_TO_ID_MAP st)), st))
      else (Inr (map fst (MODEL_NAME_TO_ID_MAP st)), st))"

text \<open>
  \<open>POST /v1/chat/completions\<close>, up to the point where the response object is made.
  A streaming call returns the response whose body \<open>stream_generator\<close> will produce; a
  non-streaming call goes on to await \<open>non_stream_response\<close>.  The result here is the
  HTTP error raised, or the request id, the model name and the prefill handed to the
  one or the other.  The handler catches the \<open>JSONDecodeError\<close> only: any other
  exception of \<open>request.json()\<close> leaves it, and a body that is JSON but not an object
  makes the first \<open>openai_req.get\<close> fail; the framework answers both with status 500.
\<close>

datatype dispatched = Streaming str str content_field | NonStreaming str str content_field

definition no_api_key_detail :: str where
  "no_api_key_detail =
     py ''No se proporcion'' @ [243] @ py '' una clave de API. Por favor, proporci'' @ [243]
     @ py ''nela en la cabecera de Autorizaci'' @ [243] @ py ''n en formato '' @ [39]
     @ py ''Bearer SU_CLAVE'' @ [39] @ py ''.''"

definition not_connected_detail :: str where
  "not_connected_detail =
     py ''El cliente del script de Tampermonkey no est'' @ [225] @ py '' conectado. Aseg''
     @ [250] @ py ''rese de que la p'' @ [225] @ py ''gina de LMArena est'' @ [233]
     @ py '' abierta y el script activado.''"

definition no_mapping_detail :: "str option \<Rightarrow> str" where
  "no_mapping_detail model_name =
     py ''El modelo '' @ [39] @ (case model_name of Some m \<Rightarrow> m | None \<Rightarrow> py ''None'') @ [39]
     @ py '' no tiene un ID de sesi'' @ [243]
     @ py ''n independiente configurado. Agregue un mapeo v'' @ [225] @ py ''lido en '' @ [39]
     @ py ''model_endpoint_map.json'' @ [39] @ py '' o habilite '' @ [39]
     @ py ''use_default_ids_if_mapping_not_found'' @ [39] @ py '' en '' @ [39]
     @ py ''config.jsonc'' @ [39] @ py ''.''"

definition invalid_ids_detail :: str where
  "invalid_ids_detail =
     py ''El ID de sesi'' @ [243] @ py ''n o el ID de mensaje finalmente determinados son inv''
     @ [225] @ py ''lidos. Verifique la configuraci'' @ [243] @ py ''n en '' @ [39]
     @ py ''model_endpoint_map.json'' @ [39] @ py '' y '' @ [39] @ py ''config.jsonc'' @ [39]
     @ py '', o ejecute '' @ [96] @ py ''id_updater.py'' @ [96]
     @ py '' para actualizar los valores por defecto.''"

text \<open>The API key check of \<open>chat_completions\<close>; it runs when a key is configured.\<close>

definition check_api_key ::
  "datetime \<Rightarrow> request \<Rightarrow> openai_request \<Rightarrow> server \<Rightarrow> http_exception option \<times> server" where
  "check_api_key now request' openai_req st =
     (if (case api_key (CONFIG st) of Some k \<Rightarrow> k \<noteq> [] | None \<Rightarrow> False)
         \<or> API_KEYS_DATA st \<noteq> [] then
        (case get_api_key_from_header request' of
           Inl _ \<Rightarrow> (Some (HTTPException 401 no_api_key_detail), st)
         | Inr provided_key \<Rightarrow>
             (case validate_api_key provided_key (req_model openai_req) st of
                Inl err \<Rightarrow> (Some (HTTPException 401 err), st)
              | Inr _ \<Rightarrow> (None, increment_api_key_usage now provided_key st)))
      else (None, st))"

text \<open>The session and message ids of the request, or the HTTP error.\<close>

definition resolve_session ::
  "str option \<Rightarrow> server \<Rightarrow> http_exception + (str \<times> str \<times> str option \<times> str option)" where
  "resolve_session model_name st =
     (case (case model_name of Some m \<Rightarrow> get_current_session_ids m st
            | None \<Rightarrow> (None, None, None, None)) of
        (session_id', message_id', mode_override, battle_target_override) \<Rightarrow>
          (case (if (case session_id' of Some s \<Rightarrow> s \<noteq> [] | None \<Rightarrow> False)
                 then Inr (session_id', message_id', mode_override, battle_target_override)
                 else if use_default_ids_if_mapping_not_found (CONFIG st) \<noteq> Some False
                 then Inr (session_id (CONFIG st), message_id (CONFIG st), None, None)
                 else Inl (HTTPException 400 (no_mapping_detail model_name))) of
             Inl e \<Rightarrow> Inl e
           | Inr (Some s, Some m, mode_override', battle_target_override') \<Rightarrow>
               if s = [] \<or> m = [] \<or> py_in (py ''YOUR_'') s \<or> py_in (py ''YOUR_'') m
               then Inl (HTTPException 400 invalid_ids_detail)
               else Inr (s, m, mode_override', battle_target_override')
           | Inr _ \<Rightarrow> Inl (HTTPException 400 invalid_ids_detail)))"

text \<open>The model a request runs on: for \<open>auto-claude\<close> the best available model,
  recorded as the request's current model.\<close>

definition select_model ::
  "datetime \<Rightarrow> openai_request \<Rightarrow> str \<Rightarrow> server \<Rightarrow> str option \<times> server" where
  "select_model now openai_req request_id st =
     (if req_model openai_req = Some (py ''auto-claude'') then
        (case get_best_available_claude_model now st of
           (m, s) \<Rightarrow>
             (Some m, s\<lparr> AUTO_CLAUDE_ACTIVE_REQUESTS :=
                          AList.update request_id m (AUTO_CLAUDE_ACTIVE_REQUESTS s) \<rparr>))
      else (req_model openai_req, st))"

text \<open>The part of \<open>chat_completions\<close> that follows the connection check.\<close>

definition dispatch ::
  "library \<Rightarrow> datetime \<Rightarrow> openai_request \<Rightarrow> server \<Rightarrow> (http_exception + dispatched) \<times> server" where
  "dispatch lib now openai_req st1 =
     (let request_id = uuid4 lib (entropy st1);
          is_auto_claude' = (req_model openai_req = Some (py ''auto-claude''))
      in case select_model now openai_req request_id (st1\<lparr> entropy := entropy st1 + 1 \<rparr>) of
           (model_name, st3) \<Rightarrow>
             (case resolve_session model_name st3 of
                Inl e \<Rightarrow> (Inl e, st3)
              | Inr (session_id', message_id', mode_override, battle_target_override) \<Rightarrow>
                  (case new_queue st3 of
                     (queue, st4) \<Rightarrow>
                       (case convert_openai_to_lmarena_payload lib openai_req session_id'
                               message_id' mode_override battle_target_override is_auto_claude'
                               (st4\<lparr> response_channels :=
                                      AList.update request_id queue (response_channels st4) \<rparr>) of
                          (None, st6) \<Rightarrow>
                            (Inl (HTTPException 500
                                   ([39] @ py ''NoneType'' @ [39]
                                    @ py '' object is not subscriptable'')),
                             st6\<lparr> response_channels :=
                                    AList.delete request_id (response_channels st6) \<rparr>)
                        | (Some lmarena_payload, st6) \<Rightarrow>
                            (Inr ((if req_stream openai_req \<noteq> Some False
                                   then Streaming else NonStreaming)
                                    request_id (or_else model_name (py ''default_model''))
                                    (assistant_prefill lmarena_payload)),
                             send_text (the (browser_ws st6))
                               (RequestMessage request_id lmarena_payload) st6)))))"

definition chat_completions ::
  "library \<Rightarrow> datetime \<Rightarrow> request \<Rightarrow> server \<Rightarrow> (http_exception + dispatched) \<times> server" where
  "chat_completions lib now request' st0 =
     (let st = load_config (st0\<lparr> last_activity_time := Some now \<rparr>) in
      case json_body request' of
        InvalidJson \<Rightarrow>
          (Inl (HTTPException 400 (py ''Cuerpo de la solicitud JSON inv'' @ [225] @ py ''lido'')), st)
      | OtherError \<Rightarrow> (Inl (HTTPException 500 (py ''Internal Server Error'')), st)
      | NotAnObject \<Rightarrow>
          (if (case api_key (CONFIG st) of Some k \<Rightarrow> k \<noteq> [] | None \<Rightarrow> False)
              \<or> API_KEYS_DATA st \<noteq> [] then
             (case get_api_key_from_header request' of
                Inl _ \<Rightarrow> (Inl (HTTPException 401 no_api_key_detail), st)
              | Inr _ \<Rightarrow> (Inl (HTTPException 500 (py ''Internal Server Error'')), st))
           else if browser_ws st = None then (Inl (HTTPException 503 not_connected_detail), st)
           else (Inl (HTTPException 500 (py ''Internal Server Error'')), st))
      | Object openai_req \<Rightarrow>
          (case check_api_key now request' openai_req st of
             (Some e, st1) \<Rightarrow> (Inl e, st1)
           | (None, st1) \<Rightarrow>
               if browser_ws st1 = None then (Inl (HTTPException 503 not_connected_detail), st1)
               else dispatch lib now openai_req st1))"

section \<open>Predicates of the properties\<close>

definition dict_ok :: "('k \<times> 'v) list \<Rightarrow> bool" where
  "dict_ok d = distinct (map fst d)"

definition eligible :: "datetime \<Rightarrow> server \<Rightarrow> str \<Rightarrow> bool" where
  "eligible now st model =
     ((case map_of (AUTO_CLAUDE_DISABLED_MODELS st) model of None \<Rightarrow> True | Some until \<Rightarrow> now > until)
      \<and> has_key (MODEL_NAME_TO_ID_MAP st) model)"

definition no_expired :: "datetime \<Rightarrow> server \<Rightarrow> bool" where
  "no_expired now st = (\<forall>k u. map_of (AUTO_CLAUDE_DISABLED_MODELS st) k = Some u \<longrightarrow> \<not> now > u)"

definition keys_configured :: "server \<Rightarrow> bool" where
  "keys_configured st =
     ((case api_key (CONFIG st) of Some k \<Rightarrow> k \<noteq> [] | None \<Rightarrow> False) \<or> API_KEYS_DATA st \<noteq> [])"

definition passes_key_check :: "request \<Rightarrow> openai_request \<Rightarrow> server \<Rightarrow> bool" where
  "passes_key_check request' openai_req st =
     (if keys_configured st then
        (case get_api_key_from_header request' of
           Inl _ \<Rightarrow> False
         | Inr provided_key \<Rightarrow> \<not> isl (validate_api_key provided_key (req_model openai_req) st))
      else True)"

definition received :: "datetime \<Rightarrow> server \<Rightarrow> server" where
  "received now st = load_config (st\<lparr> last_activity_time := Some now \<rparr>)"

fun is_error :: "event \<Rightarrow> bool" where
  "is_error (Error data) = True"
| "is_error _ = False"

fun is_content :: "event \<Rightarrow> bool" where
  "is_content (Content data) = True"
| "is_content _ = False"

fun last_finish :: "str \<Rightarrow> event list \<Rightarrow> str" where
  "last_finish reason [] = reason"
| "last_finish reason (Finish data # events) = last_finish data events"
| "last_finish reason (Content data # events) = last_finish reason events"
| "last_finish reason (Error data # events) = last_finish reason events"

text \<open>The prefill a dispatched call hands to its response.\<close>

fun prefill_of :: "dispatched \<Rightarrow> content_field" where
  "prefill_of (Streaming request_id model_name prefill) = prefill"
| "prefill_of (NonStreaming request_id model_name prefill) = prefill"

text \<open>\<open>CONFIG.get("assistant_prefill_enabled", True)\<close>.\<close>

definition prefill_enabled :: "server \<Rightarrow> bool" where
  "prefill_enabled st = (case assistant_prefill_enabled (CONFIG st) of Some b \<Rightarrow> b | None \<Rightarrow> True)"

text \<open>
  The message templates of \<open>convert_openai_to_lmarena_payload\<close> before the positions
  are set: the processed messages, merged in Tavern mode, and the bypass sentinel.
\<close>

definition translated :: "library \<Rightarrow> config \<Rightarrow> nat \<Rightarrow> message list \<Rightarrow> template list" where
  "translated lib c n msgs =
     (if tavern_mode_enabled c = Some True
      then tavern_mode (fst (process_messages lib msgs n))
      else fst (process_messages lib msgs n))
     @ (if bypass_enabled c = Some True then [bypass_message] else [])"

section \<open>Example states\<close>

definition initial_server :: server where
  "initial_server = \<lparr> CONFIG = empty_config, API_KEYS_DATA = [], browser_ws = None,
     response_channels = [], queues = [], last_activity_time = None, AUTO_CLAUDE_DISABLED_MODELS = [],
     AUTO_CLAUDE_ACTIVE_REQUESTS = [], MODEL_NAME_TO_ID_MAP = [], MODEL_ENDPOINT_MAP = [],
     config_jsonc = None, model_endpoint_map_json = [], api_keys_json = [], written = [],
     sent = [], entropy = 0 \<rparr>"

definition cooldown_example :: server where
  "cooldown_example = initial_server
     \<lparr> AUTO_CLAUDE_DISABLED_MODELS :=
         [(py ''claude-opus-4-1-20250805-thinking-16k'', 100), (py ''claude-opus-4-1-20250805'', 5)],
       MODEL_NAME_TO_ID_MAP :=
         [(py ''claude-opus-4-1-20250805-thinking-16k'', py ''id-1''),
          (py ''claude-opus-4-1-20250805'', py ''id-2''),
          (py ''claude-3-5-sonnet-20241022'', py ''id-7'')] \<rparr>"

definition all_cooled_down :: server where
  "all_cooled_down = initial_server
     \<lparr> AUTO_CLAUDE_DISABLED_MODELS := map (\<lambda>model. (model, 100)) AUTO_CLAUDE_PRIORITY,
       MODEL_NAME_TO_ID_MAP := map (\<lambda>model. (model, py ''id'')) AUTO_CLAUDE_PRIORITY \<rparr>"

text \<open>
  A library for the examples: \<open>json.loads\<close> on string literals without escapes and
  on objects with one string member, written without whitespace; no extension is
  guessed, and the \<open>n\<close>-th UUID is \<open>uuid-n\<close>.  The examples hold no code point above
  U+00FF, so that its \<open>str_lower\<close> is never consulted.
\<close>

definition plain :: "str \<Rightarrow> bool" where
  "plain s = list_all (\<lambda>c. c \<noteq> 34 \<and> c \<noteq> 92 \<and> 32 \<le> c) s"

definition plain_string :: "str \<Rightarrow> str option" where
  "plain_string s =
     (case s of
        q # rest \<Rightarrow>
          if q = 34 \<and> rest \<noteq> [] \<and> last rest = 34 \<and> plain (butlast rest)
          then Some (butlast rest) else None
      | [] \<Rightarrow> None)"

definition plain_object :: "str \<Rightarrow> (str \<times> str) list option" where
  "plain_object s =
     (case s of
        b # q # rest \<Rightarrow>
          if b = 123 \<and> q = 34 then
            (case dropWhile (\<lambda>c. c \<noteq> 34) rest of
               q2 # c # q3 # rest2 \<Rightarrow>
                 if c = 58 \<and> q3 = 34
                    \<and> dropWhile (\<lambda>c. c \<noteq> 34) rest2 = [34, 125]
                    \<and> plain (takeWhile (\<lambda>c. c \<noteq> 34) rest)
                    \<and> plain (takeWhile (\<lambda>c. c \<noteq> 34) rest2)
                 then Some [(takeWhile (\<lambda>c. c \<noteq> 34) rest, takeWhile (\<lambda>c. c \<noteq> 34) rest2)]
                 else None
             | _ \<Rightarrow> None)
          else None
      | _ \<Rightarrow> None)"

definition example_library :: library where
  "example_library = \<lparr> loads_string = plain_string, loads_object = plain_object,
     guess_extension = (\<lambda>content_type. None), uuid4 = (\<lambda>n. py ''uuid-'' @ str_of_nat n),
     str_lower = map lower_char \<rparr>"

definition two_pairs :: model_mapping where
  "two_pairs = \<lparr> current_index = Some 1,
     session_id_n = [(0, py ''session-a''), (1, py ''session-b'')],
     message_id_n = [(0, py ''message-a''), (1, py ''message-b'')],
     legacy_session_id = None, legacy_message_id = None, mode = None, battle_target = None \<rparr>"

definition one_pair :: model_mapping where
  "one_pair = \<lparr> current_index = Some 0,
     session_id_n = [(0, py ''session-a'')], message_id_n = [(0, py ''message-a'')],
     legacy_session_id = None, legacy_message_id = None, mode = None, battle_target = None \<rparr>"

definition pool_example :: server where
  "pool_example = initial_server
     \<lparr> MODEL_ENDPOINT_MAP := [(py ''model-2'', two_pairs), (py ''model-1'', one_pair)] \<rparr>"

definition hi_request :: openai_request where
  "hi_request = \<lparr> req_model = Some (py ''model-2''),
     req_messages = [\<lparr> role = Some (py ''user''), content = Text (py ''hi'') \<rparr>],
     req_stream = None \<rparr>"

definition bypass_server :: server where
  "bypass_server = initial_server\<lparr> CONFIG := empty_config\<lparr> bypass_enabled := Some True \<rparr> \<rparr>"

definition connected_example :: server where
  "connected_example = initial_server
     \<lparr> browser_ws := Some 1,
       response_channels := [(py ''r1'', 0), (py ''r2'', 1)],
       queues := [(0, [StrFrame (py ''partial'')]), (1, [])] \<rparr>"

definition key_1 :: key_data where
  "key_1 = \<lparr> enabled = Some True, usage_limit = Some 2, usage_count = Some 1,
     models = None, last_used = None \<rparr>"

definition key_used_up :: key_data where
  "key_used_up = \<lparr> enabled = Some True, usage_limit = Some 2, usage_count = Some 2,
     models = None, last_used = None \<rparr>"

definition keyed_server :: server where
  "keyed_server = initial_server
     \<lparr> API_KEYS_DATA := [(py ''sk-1'', key_1), (py ''sk-used-up'', key_used_up)] \<rparr>"

definition bearer :: "string \<Rightarrow> body \<Rightarrow> request" where
  "bearer k b = \<lparr> authorization = Some (py ''Bearer '' @ py k), json_body = b \<rparr>"

definition anonymous :: "body \<Rightarrow> request" where
  "anonymous b = \<lparr> authorization = None, json_body = b \<rparr>"

definition serving_example :: server where
  "serving_example = keyed_server
     \<lparr> browser_ws := Some 1, MODEL_ENDPOINT_MAP := [(py ''model-2'', two_pairs)] \<rparr>"

definition content_frame :: "string \<Rightarrow> frame" where
  "content_frame t = StrFrame (py ''a0:'' @ [34] @ py t @ [34])"

definition finish_text :: "string \<Rightarrow> str" where
  "finish_text r = py ''ad:{'' @ [34] @ py ''finishReason'' @ [34] @ py '':'' @ [34] @ py r @ [34] @ py ''}''"

definition finish_frame :: "string \<Rightarrow> frame" where
  "finish_frame r = StrFrame (finish_text r)"

definition done_frame :: frame where
  "done_frame = StrFrame (py ''[DONE]'')"

definition error_frame :: "string \<Rightarrow> frame" where
  "error_frame e = DictFrame \<lparr> rate_limit_detected = False, model_id = None,
     original_error = None, error = Some (py e) \<rparr>"

definition with_queue :: "frame list \<Rightarrow> server" where
  "with_queue items = serving_example
     \<lparr> response_channels := [(py ''r1'', 0)], queues := [(0, items)] \<rparr>"

definition basic_frames :: "frame list" where
  "basic_frames = [content_frame ''Hel'', content_frame ''lo'', finish_frame ''length'', done_frame]"

text \<open>A request that ends with an assistant message, a server whose configuration
  file turns the prefill off, the state after the request is dispatched, and the state
  after the browser has answered it with one content frame and \<open>[DONE]\<close>.\<close>

definition prefill_request :: "string \<Rightarrow> openai_request" where
  "prefill_request s = \<lparr> req_model = Some (py ''model-2''),
     req_messages = [\<lparr> role = Some (py ''user''), content = Text (py ''hi'') \<rparr>,
                     \<lparr> role = Some (py ''assistant''), content = Text (py s) \<rparr>],
     req_stream = None \<rparr>"

definition no_prefill_server :: server where
  "no_prefill_server = serving_example
     \<lparr> config_jsonc := Some (empty_config\<lparr> assistant_prefill_enabled := Some False \<rparr>) \<rparr>"

definition after_dispatch :: "string \<Rightarrow> server" where
  "after_dispatch s =
     snd (chat_completions example_library 7 (bearer ''sk-1'' (Object (prefill_request s)))
            serving_example)"

definition after_reply :: "string \<Rightarrow> server" where
  "after_reply s =
     fold websocket_receive
       [(Some (py ''uuid-0''), Some (content_frame ''Hel'')),
        (Some (py ''uuid-0''), Some done_frame)]
       (after_dispatch s)"

section \<open>Properties\<close>

subsection \<open>Automatic model fallback\<close>

lemma map_of_fold_delete:
  "map_of (fold AList.delete ks d) k = (if k \<in> set ks then None else map_of d k)"
  by (induction ks arbitrary: d) (auto simp: delete_conv')

lemma distinct_fold_delete: "distinct (map fst d) \<Longrightarrow> distinct (map fst (fold AList.delete ks d))"
  by (induction ks arbitrary: d) (auto simp: distinct_delete)

lemma expired_set:
  "distinct (map fst d) \<Longrightarrow>
   k \<in> set [model. (model, until) \<leftarrow> d, now > until] \<longleftrightarrow> (\<exists>u. map_of d k = Some u \<and> now > u)"
  by (induction d) (auto simp: rev_image_eqI dest: map_of_SomeD)

lemma cleanup_lookup:
  assumes "dict_ok (AUTO_CLAUDE_DISABLED_MODELS st)"
  shows "map_of (AUTO_CLAUDE_DISABLED_MODELS (cleanup_expired_auto_claude_disables now st)) k =
     (case map_of (AUTO_CLAUDE_DISABLED_MODELS st) k of None \<Rightarrow> None
      | Some u \<Rightarrow> if now > u then None else Some u)"
proof -
  let ?d = "AUTO_CLAUDE_DISABLED_MODELS st"
  have e: "k \<in> set [model. (model, until) \<leftarrow> ?d, now > until] \<longleftrightarrow> (\<exists>u. map_of ?d k = Some u \<and> now > u)"
    using assms by (simp only: dict_ok_def expired_set)
  show ?thesis
  proof (cases "map_of ?d k")
    case None
    then show ?thesis
      by (simp add: cleanup_expired_auto_claude_disables_def Let_def map_of_fold_delete)
  next
    case (Some u)
    then show ?thesis
      using e by (simp add: cleanup_expired_auto_claude_disables_def Let_def map_of_fold_delete)
  qed
qed

lemma cleanup_other:
  "MODEL_NAME_TO_ID_MAP (cleanup_expired_auto_claude_disables now st) = MODEL_NAME_TO_ID_MAP st"
  by (simp add: cleanup_expired_auto_claude_disables_def Let_def)

lemma first_available_catalog:
  "first_available now ms st = (r, st') \<Longrightarrow> MODEL_NAME_TO_ID_MAP st' = MODEL_NAME_TO_ID_MAP st"
  by (induction ms arbitrary: st) (auto simp: is_model_available_for_auto_claude_def split: option.splits if_splits prod.splits)

text \<open>After the cleanup no entry is expired, so the walk changes nothing.\<close>

lemma is_available_no_expired:
  "no_expired now st \<Longrightarrow>
     is_model_available_for_auto_claude now m st =
       (case map_of (AUTO_CLAUDE_DISABLED_MODELS st) m of None \<Rightarrow> True | Some until \<Rightarrow> now > until, st)"
  by (auto simp: no_expired_def is_model_available_for_auto_claude_def split: option.splits)

lemma first_available_no_expired:
  "no_expired now st \<Longrightarrow> first_available now ms st = (find (eligible now st) ms, st)"
  by (induction ms) (simp_all add: is_available_no_expired eligible_def)

lemma no_expired_cleanup:
  "dict_ok (AUTO_CLAUDE_DISABLED_MODELS st) \<Longrightarrow> no_expired now (cleanup_expired_auto_claude_disables now st)"
  by (auto simp: no_expired_def cleanup_lookup split: option.splits if_splits)

text \<open>
  C5, as amended.  A selection at the instant \<open>now\<close> returns the first model of the
  priority list that is in the catalog and whose cooldown entry is absent or expired
  (\<open>now > until\<close>); when there is none it returns the last entry of the list.  So a model
  whose expiry has not passed is returned only as this forced fallback.  The selection
  removes every entry whose expiry has passed, after which the model is available again,
  and keeps the others.
\<close>

theorem auto_claude_selection:
  assumes "dict_ok (AUTO_CLAUDE_DISABLED_MODELS st)"
  shows "fst (get_best_available_claude_model now st) =
           (case find (eligible now st) AUTO_CLAUDE_PRIORITY of
              Some model \<Rightarrow> model | None \<Rightarrow> last AUTO_CLAUDE_PRIORITY)
       \<and> (\<forall>model until. map_of (AUTO_CLAUDE_DISABLED_MODELS st) model = Some until \<and> \<not> now > until
             \<and> fst (get_best_available_claude_model now st) = model \<longrightarrow>
             model = last AUTO_CLAUDE_PRIORITY \<and> (\<forall>m \<in> set AUTO_CLAUDE_PRIORITY. \<not> eligible now st m))
       \<and> (\<forall>model until. map_of (AUTO_CLAUDE_DISABLED_MODELS st) model = Some until \<longrightarrow>
             map_of (AUTO_CLAUDE_DISABLED_MODELS (snd (get_best_available_claude_model now st))) model
               = (if now > until then None else Some until)
             \<and> (now > until \<longrightarrow>
                  fst (is_model_available_for_auto_claude now model
                         (snd (get_best_available_claude_model now st)))))"
proof -
  let ?c = "cleanup_expired_auto_claude_disables now st"
  have ne: "no_expired now ?c"
    using assms by (rule no_expired_cleanup)
  have el: "eligible now ?c = eligible now st"
    using assms by (auto simp: eligible_def fun_eq_iff cleanup_lookup cleanup_other split: option.splits)
  have fa: "first_available now AUTO_CLAUDE_PRIORITY ?c = (find (eligible now st) AUTO_CLAUDE_PRIORITY, ?c)"
    using first_available_no_expired [OF ne] el by simp
  have r: "fst (get_best_available_claude_model now st) =
      (case find (eligible now st) AUTO_CLAUDE_PRIORITY of
         Some model \<Rightarrow> model | None \<Rightarrow> last AUTO_CLAUDE_PRIORITY)"
    and s: "snd (get_best_available_claude_model now st) = ?c"
    by (simp_all add: get_best_available_claude_model_def fa split: option.splits)
  have two: "model = last AUTO_CLAUDE_PRIORITY \<and> (\<forall>m \<in> set AUTO_CLAUDE_PRIORITY. \<not> eligible now st m)"
    if "map_of (AUTO_CLAUDE_DISABLED_MODELS st) model = Some until" "\<not> now > until"
       "fst (get_best_available_claude_model now st) = model" for model until
  proof (cases "find (eligible now st) AUTO_CLAUDE_PRIORITY")
    case None
    then have "\<forall>m \<in> set AUTO_CLAUDE_PRIORITY. \<not> eligible now st m"
      by (simp add: find_None_iff)
    moreover from None have "model = last AUTO_CLAUDE_PRIORITY"
      using that(3) r by simp
    ultimately show ?thesis by simp
  next
    case (Some m)
    then have "m = model" using that r by simp
    moreover from Some have "eligible now st m" by (auto simp: find_Some_iff)
    ultimately show ?thesis using that by (simp add: eligible_def)
  qed
  have three: "map_of (AUTO_CLAUDE_DISABLED_MODELS ?c) model = (if now > until then None else Some until)
      \<and> (now > until \<longrightarrow> fst (is_model_available_for_auto_claude now model ?c))"
    if "map_of (AUTO_CLAUDE_DISABLED_MODELS st) model = Some until" for model until
    using that assms by (simp add: cleanup_lookup is_model_available_for_auto_claude_def)
  show ?thesis
    using r two three unfolding s by blast
qed

lemma cooldown_example_eval:
  "AUTO_CLAUDE_DISABLED_MODELS cooldown_example =
         [(py ''claude-opus-4-1-20250805-thinking-16k'', 100), (py ''claude-opus-4-1-20250805'', 5)]"
  "MODEL_NAME_TO_ID_MAP cooldown_example =
         [(py ''claude-opus-4-1-20250805-thinking-16k'', py ''id-1''),
          (py ''claude-opus-4-1-20250805'', py ''id-2''),
          (py ''claude-3-5-sonnet-20241022'', py ''id-7'')]"
  by (simp_all add: cooldown_example_def initial_server_def)

text \<open>At time 10 the head of the list is cooled down until 100 and the second model's
  cooldown expired at 5: the second model is selected and its entry is gone.\<close>

theorem auto_claude_selection_witness:
  "dict_ok (AUTO_CLAUDE_DISABLED_MODELS cooldown_example)
   \<and> fst (get_best_available_claude_model 10 cooldown_example) = py ''claude-opus-4-1-20250805''
   \<and> map_of (AUTO_CLAUDE_DISABLED_MODELS (snd (get_best_available_claude_model 10 cooldown_example)))
         (py ''claude-opus-4-1-20250805'') = None
   \<and> map_of (AUTO_CLAUDE_DISABLED_MODELS (snd (get_best_available_claude_model 10 cooldown_example)))
         (py ''claude-opus-4-1-20250805-thinking-16k'') = Some 100"
proof -
  have d: "dict_ok (AUTO_CLAUDE_DISABLED_MODELS cooldown_example)"
    by (simp add: dict_ok_def cooldown_example_eval py_def)
  have f: "find (eligible 10 cooldown_example) AUTO_CLAUDE_PRIORITY = Some (py ''claude-opus-4-1-20250805'')"
    by (simp add: eligible_def cooldown_example_eval AUTO_CLAUDE_PRIORITY_def has_key_def py_def)
  have m: "map_of (AUTO_CLAUDE_DISABLED_MODELS cooldown_example) (py ''claude-opus-4-1-20250805'') = Some 5"
    "map_of (AUTO_CLAUDE_DISABLED_MODELS cooldown_example) (py ''claude-opus-4-1-20250805-thinking-16k'') = Some 100"
    by (simp_all add: cooldown_example_eval py_def)
  from auto_claude_selection [OF d, of 10] show ?thesis
    using d f m by simp
qed

text \<open>
  C5 as stated fails when every model is cooled down: the selection returns the last
  model of the list although its expiry, 100, is in the future at time 10.
\<close>

theorem cooled_down_model_selected:
  "map_of (AUTO_CLAUDE_DISABLED_MODELS all_cooled_down) (py ''claude-3-5-sonnet-20241022'') = Some 100
   \<and> (10 :: datetime) < 100
   \<and> fst (get_best_available_claude_model 10 all_cooled_down) = py ''claude-3-5-sonnet-20241022''"
  by (simp add: all_cooled_down_def initial_server_def AUTO_CLAUDE_PRIORITY_def
      get_best_available_claude_model_def cleanup_expired_auto_claude_disables_def
      is_model_available_for_auto_claude_def py_def)

subsection \<open>Credential rotation\<close>

lemma count_sessions_run:
  assumes "\<forall>i. idx \<le> i \<and> i < idx + int n \<longrightarrow>
             has_key (session_id_n mm) i \<and> has_key (message_id_n mm) i"
      and "\<not> (has_key (session_id_n mm) (idx + int n) \<and> has_key (message_id_n mm) (idx + int n))"
  shows "count_sessions mm c idx = c + int n"
  using assms
proof (induction n arbitrary: c idx)
  case 0
  then show ?case by (subst count_sessions.simps) auto
next
  case (Suc n)
  have here: "has_key (session_id_n mm) idx \<and> has_key (message_id_n mm) idx"
    using Suc.prems(1) by simp
  have "count_sessions mm (c + 1) (idx + 1) = (c + 1) + int n"
  proof (rule Suc.IH)
    show "\<forall>i. idx + 1 \<le> i \<and> i < idx + 1 + int n \<longrightarrow>
             has_key (session_id_n mm) i \<and> has_key (message_id_n mm) i"
      using Suc.prems(1) by simp
    show "\<not> (has_key (session_id_n mm) (idx + 1 + int n) \<and> has_key (message_id_n mm) (idx + 1 + int n))"
      using Suc.prems(2) by (simp add: add.commute add.left_commute)
  qed
  with here show ?case by (subst count_sessions.simps) simp
qed

lemma available_count:
  assumes "\<forall>i. 0 \<le> i \<and> i < N \<longrightarrow> has_key (session_id_n mm) i \<and> has_key (message_id_n mm) i"
      and "\<not> (has_key (session_id_n mm) N \<and> has_key (message_id_n mm) N)"
      and "0 \<le> N"
  shows "get_available_session_count mm = N"
proof -
  from \<open>0 \<le> N\<close> obtain n where n: "N = int n"
    using nonneg_int_cases by blast
  show ?thesis
    unfolding get_available_session_count_def
    using count_sessions_run [of 0 n mm 0] assms(1,2) by (simp add: n)
qed

lemma py_in_startswith_append: "startswith s sub \<Longrightarrow> startswith (s @ t) sub"
  by (induction s sub rule: startswith.induct) auto

lemma py_in_append_right: "py_in sub s \<Longrightarrow> py_in sub (s @ t)"
proof (induction s)
  case Nil
  then show ?case by (cases t) auto
next
  case (Cons c cs)
  then show ?case
    using py_in_startswith_append [of "c # cs" sub t] by auto
qed

lemma py_in_append_left: "py_in sub t \<Longrightarrow> py_in sub (s @ t)"
proof (induction s)
  case Nil
  then show ?case by simp
next
  case (Cons c cs)
  then show ?case by simp
qed

text \<open>
  C1.  Let the pool entry of a model have a \<open>current_index\<close> and \<open>N\<close> numbered pairs
  (\<open>session_id{i}\<close> and \<open>message_id{i}\<close> for \<open>0 \<le> i < N\<close>, and no pair \<open>N\<close>).  A
  rate limit detected in the buffer makes the parser run the rotation for the request's
  model and return.  With \<open>N \<ge> 2\<close> the rotation sets \<open>current_index\<close> to
  \<open>(old + 1) mod N\<close> and writes the pool to \<open>model_endpoint_map.json\<close>; with
  \<open>N \<le> 1\<close> nothing changes and nothing is written, and the notice yielded is the one
  that recommends adding more session ids.
\<close>

theorem rotation_on_rate_limit:
  assumes "map_of (MODEL_ENDPOINT_MAP st) model_name = Some mm"
      and "current_index mm = Some old"
      and "\<forall>i. 0 \<le> i \<and> i < N \<longrightarrow> has_key (session_id_n mm) i \<and> has_key (message_id_n mm) i"
      and "\<not> (has_key (session_id_n mm) N \<and> has_key (message_id_n mm) N)"
      and "0 \<le> N"
  shows "(detect_rate_limit_error (buffer @ s) \<and> s \<noteq> py ''[DONE]'' \<and> model_name \<noteq> [] \<longrightarrow>
            handle_frame lib now request_id (Some model_name) buffer (StrFrame s) st =
              (fst (rotation_notice model_name st), Return, snd (rotation_notice model_name st)))
       \<and> (2 \<le> N \<longrightarrow>
            fst (rotation_notice model_name st) =
              [Content (generate_rotation_message model_name True), Finish (py ''stop'')]
            \<and> map_of (MODEL_ENDPOINT_MAP (snd (rotation_notice model_name st))) model_name =
                Some (mm\<lparr> current_index := Some ((old + 1) mod N) \<rparr>)
            \<and> model_endpoint_map_json (snd (rotation_notice model_name st)) =
                MODEL_ENDPOINT_MAP (snd (rotation_notice model_name st))
            \<and> written (snd (rotation_notice model_name st)) = written st @ [''model_endpoint_map.json''])
       \<and> (N \<le> 1 \<longrightarrow>
            rotation_notice model_name st =
              ([Content (generate_rotation_message model_name False), Finish (py ''stop'')], st)
            \<and> py_in (py ''Considera agregar m'' @ [225] @ py ''s session IDs de respaldo'')
                 (generate_rotation_message model_name False))"
proof -
  have cnt: "get_available_session_count mm = N"
    using assms(3-5) by (rule available_count)
  have one: "handle_frame lib now request_id (Some model_name) buffer (StrFrame s) st =
              (fst (rotation_notice model_name st), Return, snd (rotation_notice model_name st))"
    if "detect_rate_limit_error (buffer @ s)" "s \<noteq> py ''[DONE]''" "model_name \<noteq> []"
    using that by (simp add: handle_frame_def scan_buffer_def rate_limit_notice_def split: prod.splits)
  have nxt: "has_key (session_id_n mm) ((old + 1) mod N) \<and> has_key (message_id_n mm) ((old + 1) mod N)"
    if "2 \<le> N"
    using that assms(3) by simp
  have two: "rotate_model_session model_name st =
      (True, save_model_endpoint_map (st\<lparr> MODEL_ENDPOINT_MAP :=
          AList.update model_name (mm\<lparr> current_index := Some ((old + 1) mod N) \<rparr>)
            (MODEL_ENDPOINT_MAP st) \<rparr>))"
    if "2 \<le> N"
    using that nxt assms(1,2) by (simp add: rotate_model_session_def cnt Let_def)
  have three: "rotate_model_session model_name st = (False, st)" if "N \<le> 1"
    using that assms(1,2) by (simp add: rotate_model_session_def cnt Let_def)
  have tail: "py_in (py ''Considera agregar m'' @ [225] @ py ''s session IDs de respaldo'')
      ([39] @ py '', pero no tengo endpoints adicionales configurados para rotar autom'' @ [225]
        @ py ''ticamente.'' @ [10, 10] @ py ''**Recomendaciones:**'' @ [10]
        @ py ''- Espera unos minutos antes de reintentar'' @ [10]
        @ py ''- Considera agregar m'' @ [225] @ py ''s session IDs de respaldo para este modelo''
        @ [10, 10] @ py ''*Este es un mensaje autom'' @ [225]
        @ py ''tico del sistema de adri, kkkkkkkk.*'')"
    by (simp add: py_def)
  have hint: "py_in (py ''Considera agregar m'' @ [225] @ py ''s session IDs de respaldo'')
                 (generate_rotation_message model_name False)"
    unfolding generate_rotation_message_def if_False
    apply (rule py_in_append_left)
    apply (rule py_in_append_left)
    apply (rule py_in_append_left)
    apply (rule py_in_append_left)
    apply (rule py_in_append_left)
    apply (rule py_in_append_left)
    apply (rule py_in_append_left)
    apply (rule py_in_append_left)
    apply (rule py_in_append_left)
    apply (rule py_in_append_left)
    apply (rule tail)
    done
  have r2: "rotation_notice model_name st =
      ([Content (generate_rotation_message model_name True), Finish (py ''stop'')],
       save_model_endpoint_map (st\<lparr> MODEL_ENDPOINT_MAP :=
          AList.update model_name (mm\<lparr> current_index := Some ((old + 1) mod N) \<rparr>)
            (MODEL_ENDPOINT_MAP st) \<rparr>))"
    if "2 \<le> N"
    using two [OF that] by (simp add: rotation_notice_def)
  have r3: "rotation_notice model_name st =
      ([Content (generate_rotation_message model_name False), Finish (py ''stop'')], st)"
    if "N \<le> 1"
    using three [OF that] by (simp add: rotation_notice_def)
  show ?thesis
  proof (intro conjI impI)
    assume "detect_rate_limit_error (buffer @ s) \<and> s \<noteq> py ''[DONE]'' \<and> model_name \<noteq> []"
    then show "handle_frame lib now request_id (Some model_name) buffer (StrFrame s) st =
              (fst (rotation_notice model_name st), Return, snd (rotation_notice model_name st))"
      using one by blast
  next
    assume "2 \<le> N"
    then show "fst (rotation_notice model_name st) =
              [Content (generate_rotation_message model_name True), Finish (py ''stop'')]"
      by (simp add: r2)
  next
    assume "2 \<le> N"
    then show "map_of (MODEL_ENDPOINT_MAP (snd (rotation_notice model_name st))) model_name =
                Some (mm\<lparr> current_index := Some ((old + 1) mod N) \<rparr>)"
      by (simp add: r2 save_model_endpoint_map_def update_conv')
  next
    assume "2 \<le> N"
    then show "model_endpoint_map_json (snd (rotation_notice model_name st)) =
                MODEL_ENDPOINT_MAP (snd (rotation_notice model_name st))"
      by (simp add: r2 save_model_endpoint_map_def)
  next
    assume "2 \<le> N"
    then show "written (snd (rotation_notice model_name st)) = written st @ [''model_endpoint_map.json'']"
      by (simp add: r2 save_model_endpoint_map_def)
  next
    assume "N \<le> 1"
    then show "rotation_notice model_name st =
              ([Content (generate_rotation_message model_name False), Finish (py ''stop'')], st)"
      by (rule r3)
  next
    show "py_in (py ''Considera agregar m'' @ [225] @ py ''s session IDs de respaldo'')
                 (generate_rotation_message model_name False)"
      by (rule hint)
  qed
qed

text \<open>A pool of two pairs at index 1 wraps around to index 0; a pool of one pair stays.\<close>

theorem rotation_on_rate_limit_witness:
  "handle_frame example_library 0 (py ''r1'') (Some (py ''model-2'')) []
       (StrFrame (py ''HTTP 429 Too Many Requests'')) pool_example =
     (fst (rotation_notice (py ''model-2'') pool_example), Return,
      snd (rotation_notice (py ''model-2'') pool_example))
   \<and> fst (rotation_notice (py ''model-2'') pool_example) =
       [Content (generate_rotation_message (py ''model-2'') True), Finish (py ''stop'')]
   \<and> map_of (MODEL_ENDPOINT_MAP (snd (rotation_notice (py ''model-2'') pool_example))) (py ''model-2'')
       = Some (two_pairs\<lparr> current_index := Some 0 \<rparr>)
   \<and> model_endpoint_map_json (snd (rotation_notice (py ''model-2'') pool_example))
       = MODEL_ENDPOINT_MAP (snd (rotation_notice (py ''model-2'') pool_example))
   \<and> written (snd (rotation_notice (py ''model-2'') pool_example)) = [''model_endpoint_map.json'']
   \<and> rotation_notice (py ''model-1'') pool_example =
       ([Content (generate_rotation_message (py ''model-1'') False), Finish (py ''stop'')], pool_example)"
proof -
  have m2: "map_of (MODEL_ENDPOINT_MAP pool_example) (py ''model-2'') = Some two_pairs"
    and m1: "map_of (MODEL_ENDPOINT_MAP pool_example) (py ''model-1'') = Some one_pair"
    and w: "written pool_example = []"
    by (simp_all add: pool_example_def initial_server_def py_def)
  have d: "detect_rate_limit_error ([] @ py ''HTTP 429 Too Many Requests'')"
    by (simp add: detect_rate_limit_error_def py_def)
  have ne: "py ''HTTP 429 Too Many Requests'' \<noteq> py ''[DONE]''" "py ''model-2'' \<noteq> []"
    by (simp_all add: py_def)
  have two: "\<forall>i. 0 \<le> i \<and> i < 2 \<longrightarrow>
      has_key (session_id_n two_pairs) i \<and> has_key (message_id_n two_pairs) i"
  proof (intro allI impI)
    fix i :: int
    assume "0 \<le> i \<and> i < 2"
    then have "i = 0 \<or> i = 1" by auto
    then show "has_key (session_id_n two_pairs) i \<and> has_key (message_id_n two_pairs) i"
      by (auto simp: two_pairs_def has_key_def)
  qed
  have two_end: "\<not> (has_key (session_id_n two_pairs) 2 \<and> has_key (message_id_n two_pairs) 2)"
    by (simp add: two_pairs_def has_key_def)
  have one: "\<forall>i. 0 \<le> i \<and> i < 1 \<longrightarrow>
      has_key (session_id_n one_pair) i \<and> has_key (message_id_n one_pair) i"
  proof (intro allI impI)
    fix i :: int
    assume "0 \<le> i \<and> i < 1"
    then have "i = 0" by auto
    then show "has_key (session_id_n one_pair) i \<and> has_key (message_id_n one_pair) i"
      by (simp add: one_pair_def has_key_def)
  qed
  have one_end: "\<not> (has_key (session_id_n one_pair) 1 \<and> has_key (message_id_n one_pair) 1)"
    by (simp add: one_pair_def has_key_def)
  have c2: "current_index two_pairs = Some 1" and c1: "current_index one_pair = Some 0"
    by (simp_all add: two_pairs_def one_pair_def)
  note a = rotation_on_rate_limit [OF m2 c2 two two_end, of "[]" "py ''HTTP 429 Too Many Requests''"
      example_library 0 "py ''r1''"]
  note b = rotation_on_rate_limit [OF m1 c1 one one_end, of "[]" "py ''HTTP 429 Too Many Requests''"
      example_library 0 "py ''r1''"]
  from a b d ne w show ?thesis by simp
qed

subsection \<open>Bypass mode\<close>

lemma bypass_sentinel_last:
  assumes "bypass_enabled (CONFIG st) = Some True"
      and "convert_openai_to_lmarena_payload lib openai_data s m mode_override
             battle_target_override auto st = (Some p, st')"
  shows "message_templates p \<noteq> []
       \<and> last (message_templates p) =
           set_position
             (or_else mode_override
                (case id_updater_last_mode (CONFIG st) of Some x \<Rightarrow> x | None \<Rightarrow> py ''direct_chat''))
             (lower lib (or_else battle_target_override
                (case id_updater_battle_target (CONFIG st) of Some t \<Rightarrow> t | None \<Rightarrow> py ''A'')))
             bypass_message"
  using assms
  by (auto simp: convert_openai_to_lmarena_payload_def Let_def last_map
      split: option.splits prod.splits)

text \<open>
  C8.  With bypass mode on, the sentinel user turn is the last message template, but in
  battle mode with target \<open>B\<close> the position loop, which runs after the sentinel is
  appended, overwrites its position: the sentinel leaves with position \<open>b\<close>.
\<close>

theorem bypass_sentinel_battle_b:
  "map_option (\<lambda>p. last (message_templates p))
     (fst (convert_openai_to_lmarena_payload example_library hi_request (py ''session-a'')
            (py ''message-a'') (Some (py ''battle'')) (Some (py ''B'')) False bypass_server))
   = Some \<lparr> template_role = Some (py ''user''), template_content = py '' '',
            attachments = [], participantPosition = Some (py ''b'') \<rparr>"
  by (simp add: convert_openai_to_lmarena_payload_def bypass_server_def initial_server_def
      empty_config_def hi_request_def extract_prefill_def normalize_role_def
      process_openai_message_def strip_is_empty_def isspace_def or_else_def lower_def
      lower_char_def set_position_def bypass_message_def example_library_def Let_def py_def)

subsection \<open>Multiplexer\<close>

lemma queue_items_put:
  "queue_items q (put q' x st) = (if q = q' then queue_items q st @ [x] else queue_items q st)"
  by (simp add: queue_items_def put_def update_conv')

lemma put_frame:
  "response_channels (put q x st) = response_channels st"
  "browser_ws (put q x st) = browser_ws st"
  by (simp_all add: put_def)

lemma fold_put_frame:
  "response_channels (fold (\<lambda>q. put q x) qs st) = response_channels st"
  "browser_ws (fold (\<lambda>q. put q x) qs st) = browser_ws st"
  by (induction qs arbitrary: st) (simp_all add: put_frame)

lemma queue_items_fold_put:
  "queue_items q (fold (\<lambda>q. put q x) qs st) = queue_items q st @ replicate (count_list qs q) x"
proof (induction qs arbitrary: st)
  case Nil
  then show ?case by simp
next
  case (Cons a qs)
  show ?case
    by (simp add: Cons queue_items_put replicate_append_same)
qed

lemma queue_items_channels_update:
  "queue_items q (st\<lparr> response_channels := c \<rparr>) = queue_items q st"
  "queue_items q (st\<lparr> browser_ws := w \<rparr>) = queue_items q st"
  by (simp_all add: queue_items_def)

lemma sentinel_is_error:
  "handle_frame lib now request_id model_name buffer disconnect_sentinel st =
     ([Error browser_disconnected_message], Return, st)"
proof -
  have "\<not> py_in (py ''413'') browser_disconnected_message"
    and "\<not> py_in (py ''too large'') (lower lib browser_disconnected_message)"
    by (simp_all add: browser_disconnected_message_def lower_def lower_char_def py_def)
  moreover have "\<not> cloudflare_detected browser_disconnected_message"
    by (simp add: browser_disconnected_message_def cloudflare_detected_def
        just_a_moment_match_def enable_javascript_match_def ignorecase_eq_def sre_lower_def py_def)
  ultimately show ?thesis
    by (simp add: handle_frame_def disconnect_sentinel_def on_error_object_def)
qed

text \<open>
  C9, as amended.  When the handler of a browser socket ends, its \<open>finally\<close> clause
  clears the connection slot, puts the disconnect sentinel on the queue of every entry
  of the channel table (the broadcast leaves the table as it is) and only then clears
  the table; a parser that takes the sentinel from its queue yields the disconnect
  error and returns.  A new connection only overwrites the slot.
\<close>

theorem disconnect_notifies_every_channel:
  "browser_ws (websocket_finally st) = None
   \<and> response_channels (websocket_finally st) = []
   \<and> websocket_finally st =
       (broadcast_disconnect (st\<lparr> browser_ws := None \<rparr>))\<lparr> response_channels := [] \<rparr>
   \<and> response_channels (broadcast_disconnect (st\<lparr> browser_ws := None \<rparr>)) = response_channels st
   \<and> (\<forall>(request_id, queue) \<in> set (response_channels st).
         \<exists>n \<ge> 1. queue_items queue (broadcast_disconnect (st\<lparr> browser_ws := None \<rparr>)) =
                   queue_items queue st @ replicate n disconnect_sentinel
               \<and> queue_items queue (websocket_finally st) =
                   queue_items queue st @ replicate n disconnect_sentinel)
   \<and> handle_frame lib now request_id model_name buffer disconnect_sentinel st' =
       ([Error browser_disconnected_message], Return, st')
   \<and> websocket_connect websocket' st = st\<lparr> browser_ws := Some websocket' \<rparr>"
proof -
  have "\<exists>n \<ge> 1. queue_items queue (broadcast_disconnect (st\<lparr> browser_ws := None \<rparr>)) =
                   queue_items queue st @ replicate n disconnect_sentinel
               \<and> queue_items queue (websocket_finally st) =
                   queue_items queue st @ replicate n disconnect_sentinel"
    if "(rid, queue) \<in> set (response_channels st)" for rid queue
  proof (intro exI conjI)
    from that have "queue \<in> set (map snd (response_channels st))"
      by force
    then have "count_list (map snd (response_channels st)) queue \<noteq> 0"
      by (simp only: count_list_0_iff not_not)
    then show "1 \<le> count_list (map snd (response_channels st)) queue"
      by simp
    show "queue_items queue (broadcast_disconnect (st\<lparr> browser_ws := None \<rparr>)) =
        queue_items queue st @ replicate (count_list (map snd (response_channels st)) queue) disconnect_sentinel"
      by (simp add: broadcast_disconnect_def queue_items_fold_put queue_items_channels_update)
    then show "queue_items queue (websocket_finally st) =
        queue_items queue st @ replicate (count_list (map snd (response_channels st)) queue) disconnect_sentinel"
      by (simp add: websocket_finally_def queue_items_channels_update)
  qed
  then show ?thesis
    by (auto simp: websocket_finally_def broadcast_disconnect_def fold_put_frame
        websocket_connect_def sentinel_is_error)
qed

theorem disconnect_notifies_every_channel_witness:
  "(py ''r1'', 0) \<in> set (response_channels connected_example)
   \<and> browser_ws (websocket_finally connected_example) = None
   \<and> response_channels (websocket_finally connected_example) = []
   \<and> queue_items 0 (websocket_finally connected_example) =
       [StrFrame (py ''partial''), disconnect_sentinel]
   \<and> queue_items 1 (websocket_finally connected_example) = [disconnect_sentinel]"
proof -
  have m: "(py ''r1'', 0) \<in> set (response_channels connected_example)"
    by (simp add: connected_example_def initial_server_def)
  have q: "queue_items 0 (websocket_finally connected_example) =
       [StrFrame (py ''partial''), disconnect_sentinel]"
    "queue_items 1 (websocket_finally connected_example) = [disconnect_sentinel]"
    by (simp_all add: websocket_finally_def broadcast_disconnect_def connected_example_def
        initial_server_def put_def queue_items_def py_def)
  note t = disconnect_notifies_every_channel [of connected_example]
  from t have a: "browser_ws (websocket_finally connected_example) = None"
    by (rule conjunct1)
  from t have b: "response_channels (websocket_finally connected_example) = []"
    by (rule conjunct2 [THEN conjunct1])
  from m a b q show ?thesis
    by (intro conjI)
qed

text \<open>
  C9 as stated fails for a replacement: a second socket connects while a request is
  outstanding.  The slot then holds the new socket, the request keeps its table entry
  and nothing is put on its queue.
\<close>

theorem replacement_notifies_nobody:
  "browser_ws connected_example = Some 1
   \<and> browser_ws (websocket_connect 2 connected_example) = Some 2
   \<and> response_channels (websocket_connect 2 connected_example) = [(py ''r1'', 0), (py ''r2'', 1)]
   \<and> queue_items 0 (websocket_connect 2 connected_example) = [StrFrame (py ''partial'')]
   \<and> queue_items 1 (websocket_connect 2 connected_example) = []"
  by (simp add: websocket_connect_def connected_example_def initial_server_def queue_items_def py_def)

subsection \<open>Order of the checks of a chat completion\<close>

lemma received_frame:
  "browser_ws (received now st) = browser_ws st"
  "API_KEYS_DATA (received now st) = API_KEYS_DATA st"
  by (simp_all add: received_def load_config_def)

lemma increment_frame:
  "browser_ws (increment_api_key_usage now k st) = browser_ws st"
  by (simp add: increment_api_key_usage_def save_api_keys_def split: option.splits)

lemma check_api_key_result:
  "fst (check_api_key now request' openai_req st) =
     (if passes_key_check request' openai_req st then None
      else Some (HTTPException 401
             (case get_api_key_from_header request' of
                Inl _ \<Rightarrow> no_api_key_detail
              | Inr provided_key \<Rightarrow>
                  (case validate_api_key provided_key (req_model openai_req) st of
                     Inl err \<Rightarrow> err | Inr _ \<Rightarrow> []))))"
  by (auto simp: check_api_key_def passes_key_check_def keys_configured_def
      split: sum.splits option.splits)

lemma check_api_key_frame:
  "browser_ws (snd (check_api_key now request' openai_req st)) = browser_ws st"
  by (simp add: check_api_key_def increment_frame split: sum.splits)

lemma not_connected_object:
  assumes "browser_ws st = None" and "json_body request' = Object openai_req"
  shows "(passes_key_check request' openai_req (received now st) \<longrightarrow>
            fst (chat_completions lib now request' st) = Inl (HTTPException 503 not_connected_detail))
       \<and> (\<not> passes_key_check request' openai_req (received now st) \<longrightarrow>
            (\<exists>detail. fst (chat_completions lib now request' st) = Inl (HTTPException 401 detail)))"
proof -
  let ?st = "received now st"
  have b: "browser_ws (snd (check_api_key now request' openai_req ?st)) = None"
    using assms(1) by (simp add: check_api_key_frame received_frame)
  show ?thesis
  proof (cases "passes_key_check request' openai_req ?st")
    case True
    then have "fst (check_api_key now request' openai_req ?st) = None"
      by (simp add: check_api_key_result)
    then obtain st1 where c: "check_api_key now request' openai_req ?st = (None, st1)"
      by (cases "check_api_key now request' openai_req ?st") auto
    with b have "browser_ws st1 = None" by simp
    with c True show ?thesis
      using assms(2) by (simp add: chat_completions_def received_def)
  next
    case False
    then obtain e where "fst (check_api_key now request' openai_req ?st) = Some (HTTPException 401 e)"
      by (simp add: check_api_key_result)
    then obtain st1 where c: "check_api_key now request' openai_req ?st = (Some (HTTPException 401 e), st1)"
      by (cases "check_api_key now request' openai_req ?st") auto
    with False show ?thesis
      using assms(2) by (simp add: chat_completions_def received_def)
  qed
qed

lemma not_connected_other_bodies:
  assumes "browser_ws st = None"
  shows "json_body request' = InvalidJson \<Longrightarrow>
           fst (chat_completions lib now request' st) =
             Inl (HTTPException 400 (py ''Cuerpo de la solicitud JSON inv'' @ [225] @ py ''lido''))"
    and "json_body request' = OtherError \<Longrightarrow>
           fst (chat_completions lib now request' st) =
             Inl (HTTPException 500 (py ''Internal Server Error''))"
    and "json_body request' = NotAnObject \<Longrightarrow>
           fst (chat_completions lib now request' st) =
             Inl (if keys_configured (received now st) then
                    if isl (get_api_key_from_header request')
                    then HTTPException 401 no_api_key_detail
                    else HTTPException 500 (py ''Internal Server Error'')
                  else HTTPException 503 not_connected_detail)"
  using assms
  by (auto simp: chat_completions_def keys_configured_def received_def [symmetric]
      received_frame Let_def split: sum.splits)

text \<open>
  C6, as amended.  While the browser slot is empty, the API key check comes before the
  connection check: a chat completion whose body is a JSON object is answered 401 when
  an API key is configured and the bearer token is missing or does not validate, and
  503 in every other case.  A body on which \<open>request.json()\<close> fails is answered before
  both checks, 400 for the \<open>JSONDecodeError\<close> and 500 for any other exception, such as
  that of a body that is not UTF-8 text.  A JSON body that is not an object is answered
  401 when a key is configured and the header holds no bearer token, 500 when a key is
  configured and the header holds one, and 503 when no key is configured.
\<close>

theorem not_connected_after_key_check:
  assumes "browser_ws st = None"
  shows "(json_body request' = InvalidJson \<longrightarrow>
            fst (chat_completions lib now request' st) =
              Inl (HTTPException 400 (py ''Cuerpo de la solicitud JSON inv'' @ [225] @ py ''lido'')))
       \<and> (json_body request' = OtherError \<longrightarrow>
            fst (chat_completions lib now request' st) =
              Inl (HTTPException 500 (py ''Internal Server Error'')))
       \<and> (json_body request' = NotAnObject \<longrightarrow>
            fst (chat_completions lib now request' st) =
              Inl (if keys_configured (received now st) then
                     if isl (get_api_key_from_header request')
                     then HTTPException 401 no_api_key_detail
                     else HTTPException 500 (py ''Internal Server Error'')
                   else HTTPException 503 not_connected_detail))
       \<and> (\<forall>openai_req. json_body request' = Object openai_req \<longrightarrow>
            (passes_key_check request' openai_req (received now st) \<longrightarrow>
               fst (chat_completions lib now request' st) = Inl (HTTPException 503 not_connected_detail))
          \<and> (\<not> passes_key_check request' openai_req (received now st) \<longrightarrow>
               (\<exists>detail. fst (chat_completions lib now request' st) = Inl (HTTPException 401 detail))))"
proof (intro conjI allI impI)
  assume "json_body request' = InvalidJson"
  then show "fst (chat_completions lib now request' st) =
      Inl (HTTPException 400 (py ''Cuerpo de la solicitud JSON inv'' @ [225] @ py ''lido''))"
    by (rule not_connected_other_bodies [OF assms])
next
  assume "json_body request' = OtherError"
  then show "fst (chat_completions lib now request' st) =
      Inl (HTTPException 500 (py ''Internal Server Error''))"
    by (rule not_connected_other_bodies [OF assms])
next
  assume "json_body request' = NotAnObject"
  then show "fst (chat_completions lib now request' st) =
      Inl (if keys_configured (received now st) then
             if isl (get_api_key_from_header request')
             then HTTPException 401 no_api_key_detail
             else HTTPException 500 (py ''Internal Server Error'')
           else HTTPException 503 not_connected_detail)"
    by (rule not_connected_other_bodies [OF assms])
next
  fix openai_req
  assume "json_body request' = Object openai_req"
    and "passes_key_check request' openai_req (received now st)"
  then show "fst (chat_completions lib now request' st) = Inl (HTTPException 503 not_connected_detail)"
    using not_connected_object [OF assms] by blast
next
  fix openai_req
  assume "json_body request' = Object openai_req"
    and "\<not> passes_key_check request' openai_req (received now st)"
  then show "\<exists>detail. fst (chat_completions lib now request' st) = Inl (HTTPException 401 detail)"
    using not_connected_object [OF assms] by blast
qed

lemma keyed_server_eval:
  "browser_ws keyed_server = None"
  "CONFIG (received now keyed_server) = empty_config"
  "API_KEYS_DATA (received now keyed_server) = [(py ''sk-1'', key_1), (py ''sk-used-up'', key_used_up)]"
  "API_KEYS_DATA keyed_server = [(py ''sk-1'', key_1), (py ''sk-used-up'', key_used_up)]"
  by (simp_all add: keyed_server_def initial_server_def received_def load_config_def)

lemma header_eval:
  "get_api_key_from_header (bearer ''sk-1'' b) = Inr (py ''sk-1'')"
  "get_api_key_from_header (bearer ''sk-used-up'' b) = Inr (py ''sk-used-up'')"
  "get_api_key_from_header (anonymous b) =
     Inl (HTTPException 401 (py ''API key requerida en header Authorization''))"
  by (simp_all add: get_api_key_from_header_def bearer_def anonymous_def py_def)

text \<open>With a registry of two keys and no browser: a valid key gets 503, a request
  without a key gets 401; a body that is not JSON gets 400, a body that cannot be
  decoded gets 500, and a JSON array gets 401 without a key and 500 with one.\<close>

theorem not_connected_after_key_check_witness:
  "browser_ws keyed_server = None
   \<and> json_body (bearer ''sk-1'' (Object hi_request)) = Object hi_request
   \<and> passes_key_check (bearer ''sk-1'' (Object hi_request)) hi_request (received 0 keyed_server)
   \<and> fst (chat_completions example_library 0 (bearer ''sk-1'' (Object hi_request)) keyed_server)
       = Inl (HTTPException 503 not_connected_detail)
   \<and> json_body (anonymous (Object hi_request)) = Object hi_request
   \<and> \<not> passes_key_check (anonymous (Object hi_request)) hi_request (received 0 keyed_server)
   \<and> (\<exists>detail. fst (chat_completions example_library 0 (anonymous (Object hi_request)) keyed_server)
         = Inl (HTTPException 401 detail))
   \<and> json_body (bearer ''sk-1'' InvalidJson) = InvalidJson
   \<and> fst (chat_completions example_library 0 (bearer ''sk-1'' InvalidJson) keyed_server)
       = Inl (HTTPException 400 (py ''Cuerpo de la solicitud JSON inv'' @ [225] @ py ''lido''))
   \<and> json_body (bearer ''sk-1'' OtherError) = OtherError
   \<and> fst (chat_completions example_library 0 (bearer ''sk-1'' OtherError) keyed_server)
       = Inl (HTTPException 500 (py ''Internal Server Error''))
   \<and> json_body (anonymous NotAnObject) = NotAnObject
   \<and> fst (chat_completions example_library 0 (anonymous NotAnObject) keyed_server)
       = Inl (HTTPException 401 no_api_key_detail)
   \<and> json_body (bearer ''sk-1'' NotAnObject) = NotAnObject
   \<and> fst (chat_completions example_library 0 (bearer ''sk-1'' NotAnObject) keyed_server)
       = Inl (HTTPException 500 (py ''Internal Server Error''))"
proof -
  have b: "browser_ws keyed_server = None"
    by (rule keyed_server_eval)
  have p: "passes_key_check (bearer ''sk-1'' (Object hi_request)) hi_request (received 0 keyed_server)"
    by (simp add: passes_key_check_def keys_configured_def keyed_server_eval header_eval
        validate_api_key_def is_global_key_def empty_config_def key_1_def hi_request_def py_def)
  have n: "\<not> passes_key_check (anonymous (Object hi_request)) hi_request (received 0 keyed_server)"
    by (simp add: passes_key_check_def keys_configured_def keyed_server_eval header_eval)
  have k: "keys_configured (received 0 keyed_server)"
    by (simp add: keys_configured_def keyed_server_eval)
  have j: "json_body (bearer ''sk-1'' (Object hi_request)) = Object hi_request"
    "json_body (anonymous (Object hi_request)) = Object hi_request"
    "json_body (bearer ''sk-1'' InvalidJson) = InvalidJson"
    "json_body (bearer ''sk-1'' OtherError) = OtherError"
    "json_body (anonymous NotAnObject) = NotAnObject"
    "json_body (bearer ''sk-1'' NotAnObject) = NotAnObject"
    by (simp_all add: bearer_def anonymous_def)
  note t1 = not_connected_after_key_check
    [where st = keyed_server and request' = "bearer ''sk-1'' (Object hi_request)"
       and lib = example_library and now = 0, OF b]
  note t2 = not_connected_after_key_check
    [where st = keyed_server and request' = "anonymous (Object hi_request)"
       and lib = example_library and now = 0, OF b]
  note t3 = not_connected_after_key_check
    [where st = keyed_server and request' = "bearer ''sk-1'' InvalidJson"
       and lib = example_library and now = 0, OF b]
  note t4 = not_connected_after_key_check
    [where st = keyed_server and request' = "bearer ''sk-1'' OtherError"
       and lib = example_library and now = 0, OF b]
  note t5 = not_connected_after_key_check
    [where st = keyed_server and request' = "anonymous NotAnObject"
       and lib = example_library and now = 0, OF b]
  note t6 = not_connected_after_key_check
    [where st = keyed_server and request' = "bearer ''sk-1'' NotAnObject"
       and lib = example_library and now = 0, OF b]
  from t1 j p have r1: "fst (chat_completions example_library 0 (bearer ''sk-1'' (Object hi_request)) keyed_server)
       = Inl (HTTPException 503 not_connected_detail)"
    by blast
  from t2 j n have r2: "\<exists>detail. fst (chat_completions example_library 0 (anonymous (Object hi_request)) keyed_server)
         = Inl (HTTPException 401 detail)"
    by blast
  from t3 j have r3: "fst (chat_completions example_library 0 (bearer ''sk-1'' InvalidJson) keyed_server)
       = Inl (HTTPException 400 (py ''Cuerpo de la solicitud JSON inv'' @ [225] @ py ''lido''))"
    by blast
  from t4 j have r4: "fst (chat_completions example_library 0 (bearer ''sk-1'' OtherError) keyed_server)
       = Inl (HTTPException 500 (py ''Internal Server Error''))"
    by blast
  from t5 [THEN conjunct2, THEN conjunct2, THEN conjunct1] j k
  have r5: "fst (chat_completions example_library 0 (anonymous NotAnObject) keyed_server)
       = Inl (HTTPException 401 no_api_key_detail)"
    by (simp add: header_eval)
  from t6 [THEN conjunct2, THEN conjunct2, THEN conjunct1] j k
  have r6: "fst (chat_completions example_library 0 (bearer ''sk-1'' NotAnObject) keyed_server)
       = Inl (HTTPException 500 (py ''Internal Server Error''))"
    by (simp add: header_eval)
  from b j p n r1 r2 r3 r4 r5 r6 show ?thesis
    by (intro conjI)
qed

text \<open>
  C6 as stated fails: with no browser connected, a request without a bearer token is
  answered 401, not 503.
\<close>

theorem unauthenticated_gets_401_not_503:
  "browser_ws keyed_server = None
   \<and> fst (chat_completions example_library 0 (anonymous (Object hi_request)) keyed_server)
       = Inl (HTTPException 401 no_api_key_detail)"
proof -
  have c: "check_api_key 0 (anonymous (Object hi_request)) hi_request (received 0 keyed_server)
      = (Some (HTTPException 401 no_api_key_detail), received 0 keyed_server)"
    by (simp add: check_api_key_def keyed_server_eval header_eval)
  have j: "json_body (anonymous (Object hi_request)) = Object hi_request"
    by (simp add: anonymous_def)
  have "fst (chat_completions example_library 0 (anonymous (Object hi_request)) keyed_server)
       = Inl (HTTPException 401 no_api_key_detail)"
    unfolding chat_completions_def received_def [symmetric] Let_def j
    by (simp add: c)
  then show ?thesis
    by (simp add: keyed_server_eval)
qed

subsection \<open>API key usage\<close>

lemma first_available_keys:
  "API_KEYS_DATA (snd (first_available now ms st)) = API_KEYS_DATA st
   \<and> browser_ws (snd (first_available now ms st)) = browser_ws st
   \<and> written (snd (first_available now ms st)) = written st"
  by (induction ms arbitrary: st)
     (auto simp: is_model_available_for_auto_claude_def split: option.splits prod.splits)

lemma get_best_keys:
  "API_KEYS_DATA (snd (get_best_available_claude_model now st)) = API_KEYS_DATA st"
  "browser_ws (snd (get_best_available_claude_model now st)) = browser_ws st"
  "written (snd (get_best_available_claude_model now st)) = written st"
proof -
  let ?c = "cleanup_expired_auto_claude_disables now st"
  have c: "API_KEYS_DATA ?c = API_KEYS_DATA st" "browser_ws ?c = browser_ws st"
    "written ?c = written st"
    by (simp_all add: cleanup_expired_auto_claude_disables_def Let_def)
  have s: "snd (get_best_available_claude_model now st) = snd (first_available now AUTO_CLAUDE_PRIORITY ?c)"
    by (simp add: get_best_available_claude_model_def split: prod.splits option.splits)
  show "API_KEYS_DATA (snd (get_best_available_claude_model now st)) = API_KEYS_DATA st"
    "browser_ws (snd (get_best_available_claude_model now st)) = browser_ws st"
    "written (snd (get_best_available_claude_model now st)) = written st"
    using first_available_keys [of now AUTO_CLAUDE_PRIORITY ?c] c by (simp_all add: s)
qed

lemma convert_keys:
  "API_KEYS_DATA (snd (convert_openai_to_lmarena_payload lib d s m mo bo a st)) = API_KEYS_DATA st"
  "browser_ws (snd (convert_openai_to_lmarena_payload lib d s m mo bo a st)) = browser_ws st"
  "written (snd (convert_openai_to_lmarena_payload lib d s m mo bo a st)) = written st"
  by (simp_all add: convert_openai_to_lmarena_payload_def Let_def split: option.splits prod.splits)

lemma new_queue_keys:
  "API_KEYS_DATA (snd (new_queue st)) = API_KEYS_DATA st"
  "browser_ws (snd (new_queue st)) = browser_ws st"
  "written (snd (new_queue st)) = written st"
  by (simp_all add: new_queue_def)

lemma send_text_keys:
  "API_KEYS_DATA (send_text ws msg st) = API_KEYS_DATA st"
  "written (send_text ws msg st) = written st"
  by (simp_all add: send_text_def)

lemma chat_completions_keys:
  assumes "json_body request' = Object openai_req"
  shows "API_KEYS_DATA (snd (chat_completions lib now request' st)) =
         API_KEYS_DATA (snd (check_api_key now request' openai_req (received now st)))"
    and "written (snd (chat_completions lib now request' st)) =
         written (snd (check_api_key now request' openai_req (received now st)))"
  unfolding chat_completions_def received_def [symmetric] Let_def assms
  by (simp_all add: case_prod_unfold dispatch_def select_model_def Let_def get_best_keys
      convert_keys new_queue_keys send_text_keys split: option.splits sum.splits)

lemma chat_completions_other_bodies:
  assumes "\<forall>r. json_body request' \<noteq> Object r"
  shows "API_KEYS_DATA (snd (chat_completions lib now request' st)) = API_KEYS_DATA st"
  using assms
  by (cases "json_body request'")
     (simp_all add: chat_completions_def load_config_def Let_def split: sum.splits)

lemma received_written:
  "written (received now st) = written st"
  by (simp add: received_def load_config_def)

lemma check_api_key_registered:
  assumes "get_api_key_from_header request' = Inr k"
      and "map_of (API_KEYS_DATA st) k = Some kd"
      and "\<not> is_global_key k (received now st)"
  shows "check_api_key now request' openai_req (received now st) =
     (case validate_api_key k (req_model openai_req) (received now st) of
        Inl err \<Rightarrow> (Some (HTTPException 401 err), received now st)
      | Inr _ \<Rightarrow>
          (None, save_api_keys
             ((received now st)\<lparr> API_KEYS_DATA :=
                AList.update k
                  (kd\<lparr> usage_count := Some ((case usage_count kd of Some n \<Rightarrow> n | None \<Rightarrow> 0) + 1),
                      last_used := Some now \<rparr>)
                  (API_KEYS_DATA st) \<rparr>)))"
proof -
  from assms(2) have "API_KEYS_DATA st \<noteq> []" by auto
  then show ?thesis
    using assms
    by (simp add: check_api_key_def received_frame increment_api_key_usage_def split: sum.splits)
qed

lemma registered_key_effect:
  assumes "json_body request' = Object openai_req"
      and "get_api_key_from_header request' = Inr k"
      and "map_of (API_KEYS_DATA st) k = Some kd"
      and "\<not> is_global_key k (received now st)"
  shows "(\<forall>d. fst (chat_completions lib now request' st) = Inr d \<longrightarrow>
            \<not> isl (validate_api_key k (req_model openai_req) (received now st)))
       \<and> (\<not> isl (validate_api_key k (req_model openai_req) (received now st)) \<longrightarrow>
            map_of (API_KEYS_DATA (snd (chat_completions lib now request' st))) k =
              Some (kd\<lparr> usage_count := Some ((case usage_count kd of Some n \<Rightarrow> n | None \<Rightarrow> 0) + 1),
                       last_used := Some now \<rparr>)
            \<and> (\<forall>k'. k' \<noteq> k \<longrightarrow>
                   map_of (API_KEYS_DATA (snd (chat_completions lib now request' st))) k' =
                   map_of (API_KEYS_DATA st) k')
            \<and> written (snd (chat_completions lib now request' st)) = written st @ [''api_keys.json''])
       \<and> (isl (validate_api_key k (req_model openai_req) (received now st)) \<longrightarrow>
            API_KEYS_DATA (snd (chat_completions lib now request' st)) = API_KEYS_DATA st
            \<and> written (snd (chat_completions lib now request' st)) = written st
            \<and> (\<exists>detail. fst (chat_completions lib now request' st) = Inl (HTTPException 401 detail)))"
proof -
  let ?S = "received now st"
  let ?v = "validate_api_key k (req_model openai_req) ?S"
  note c = check_api_key_registered [OF assms(2,3,4), of openai_req]
  note f = chat_completions_keys [OF assms(1), of lib now st]
  have bad: "API_KEYS_DATA (snd (chat_completions lib now request' st)) = API_KEYS_DATA st
            \<and> written (snd (chat_completions lib now request' st)) = written st
            \<and> (\<exists>detail. fst (chat_completions lib now request' st) = Inl (HTTPException 401 detail))"
    if "isl ?v"
  proof -
    from that obtain err where v: "?v = Inl err" by (cases ?v) auto
    with c have c': "check_api_key now request' openai_req ?S = (Some (HTTPException 401 err), ?S)"
      by simp
    have "fst (chat_completions lib now request' st) = Inl (HTTPException 401 err)"
      unfolding chat_completions_def received_def [symmetric] Let_def assms(1)
      by (simp add: c')
    then show ?thesis
      using f c' by (simp add: received_frame received_written)
  qed
  have good: "map_of (API_KEYS_DATA (snd (chat_completions lib now request' st))) k =
              Some (kd\<lparr> usage_count := Some ((case usage_count kd of Some n \<Rightarrow> n | None \<Rightarrow> 0) + 1),
                       last_used := Some now \<rparr>)
            \<and> (\<forall>k'. k' \<noteq> k \<longrightarrow>
                   map_of (API_KEYS_DATA (snd (chat_completions lib now request' st))) k' =
                   map_of (API_KEYS_DATA st) k')
            \<and> written (snd (chat_completions lib now request' st)) = written st @ [''api_keys.json'']"
    if "\<not> isl ?v"
  proof -
    from that obtain r where v: "?v = Inr r" by (cases ?v) auto
    show ?thesis
      using f by (simp add: c v save_api_keys_def update_conv' received_written)
  qed
  have disp: "\<not> isl ?v" if "fst (chat_completions lib now request' st) = Inr d" for d
    using bad that by auto
  from bad good disp show ?thesis
    by blast
qed

lemma serving_example_eval:
  "API_KEYS_DATA serving_example = [(py ''sk-1'', key_1), (py ''sk-used-up'', key_used_up)]"
  "written serving_example = []"
  "CONFIG (received now serving_example) = empty_config"
  "API_KEYS_DATA (received now serving_example) = [(py ''sk-1'', key_1), (py ''sk-used-up'', key_used_up)]"
  "browser_ws (received now serving_example) = Some 1"
  "entropy (received now serving_example) = 0"
  "MODEL_ENDPOINT_MAP (received now serving_example) = [(py ''model-2'', two_pairs)]"
  by (simp_all add: serving_example_def keyed_server_def initial_server_def received_def load_config_def)

lemma validate_examples:
  "validate_api_key (py ''sk-1'') (req_model hi_request) (received now serving_example) = Inr (Some key_1)"
  "isl (validate_api_key (py ''sk-used-up'') model_name (received now serving_example))"
  by (simp_all add: validate_api_key_def is_global_key_def serving_example_eval empty_config_def
      key_1_def key_used_up_def hi_request_def py_def split: option.splits)

lemma hi_dispatched:
  "fst (chat_completions example_library 7 (bearer ''sk-1'' (Object hi_request)) serving_example)
     = Inr (Streaming (py ''uuid-0'') (py ''model-2'') (Text []))"
  by code_simp

text \<open>
  C7.  Take a chat completion whose body is a JSON object and whose bearer token is a
  registered key \<open>k\<close> (not the global key).  If the call is dispatched, the key has
  passed validation.  If the key passes validation, then whatever the call does next
  (the connection check, the credential lookup, the translation, the dispatch) the final
  registry holds the key's record with \<open>usage_count\<close> one higher and \<open>last_used\<close> set,
  every other key as before, and the registry file was written once.  If the key fails
  validation the call is answered 401 and the registry is unchanged and not written.
  \<open>GET /v1/models\<close> never changes the state.
\<close>

theorem usage_counted_once:
  assumes "json_body request' = Object openai_req"
      and "get_api_key_from_header request' = Inr k"
      and "map_of (API_KEYS_DATA st) k = Some kd"
      and "\<not> is_global_key k (received now st)"
  shows "(\<forall>d. fst (chat_completions lib now request' st) = Inr d \<longrightarrow>
            \<not> isl (validate_api_key k (req_model openai_req) (received now st)))
       \<and> (\<not> isl (validate_api_key k (req_model openai_req) (received now st)) \<longrightarrow>
            map_of (API_KEYS_DATA (snd (chat_completions lib now request' st))) k =
              Some (kd\<lparr> usage_count := Some ((case usage_count kd of Some n \<Rightarrow> n | None \<Rightarrow> 0) + 1),
                       last_used := Some now \<rparr>)
            \<and> (\<forall>k'. k' \<noteq> k \<longrightarrow>
                   map_of (API_KEYS_DATA (snd (chat_completions lib now request' st))) k' =
                   map_of (API_KEYS_DATA st) k')
            \<and> written (snd (chat_completions lib now request' st)) = written st @ [''api_keys.json''])
       \<and> (isl (validate_api_key k (req_model openai_req) (received now st)) \<longrightarrow>
            API_KEYS_DATA (snd (chat_completions lib now request' st)) = API_KEYS_DATA st
            \<and> written (snd (chat_completions lib now request' st)) = written st
            \<and> (\<exists>detail. fst (chat_completions lib now request' st) = Inl (HTTPException 401 detail)))
       \<and> snd (get_models request'' st'') = st''"
proof -
  have "snd (get_models request'' st'') = st''"
    by (simp add: get_models_def split: sum.splits)
  with registered_key_effect [OF assms, of lib] show ?thesis
    by blast
qed

text \<open>A dispatched call with the key \<open>sk-1\<close> (one use so far, at time 7), and a
  rejected call with a key that is used up.\<close>

theorem usage_counted_once_witness:
  "fst (chat_completions example_library 7 (bearer ''sk-1'' (Object hi_request)) serving_example)
     = Inr (Streaming (py ''uuid-0'') (py ''model-2'') (Text []))
   \<and> map_of (API_KEYS_DATA (snd (chat_completions example_library 7
            (bearer ''sk-1'' (Object hi_request)) serving_example))) (py ''sk-1'')
       = Some (key_1\<lparr> usage_count := Some 2, last_used := Some 7 \<rparr>)
   \<and> map_of (API_KEYS_DATA (snd (chat_completions example_library 7
            (bearer ''sk-1'' (Object hi_request)) serving_example))) (py ''sk-used-up'')
       = Some key_used_up
   \<and> written (snd (chat_completions example_library 7
            (bearer ''sk-1'' (Object hi_request)) serving_example)) = [''api_keys.json'']
   \<and> isl (validate_api_key (py ''sk-used-up'') (req_model hi_request) (received 7 serving_example))
   \<and> API_KEYS_DATA (snd (chat_completions example_library 7
            (bearer ''sk-used-up'' (Object hi_request)) serving_example))
       = API_KEYS_DATA serving_example"
proof -
  have j: "json_body (bearer ''sk-1'' (Object hi_request)) = Object hi_request"
    "json_body (bearer ''sk-used-up'' (Object hi_request)) = Object hi_request"
    by (simp_all add: bearer_def)
  have m: "map_of (API_KEYS_DATA serving_example) (py ''sk-1'') = Some key_1"
    "map_of (API_KEYS_DATA serving_example) (py ''sk-used-up'') = Some key_used_up"
    by (simp_all add: serving_example_eval py_def)
  have g: "\<not> is_global_key (py ''sk-1'') (received 7 serving_example)"
    "\<not> is_global_key (py ''sk-used-up'') (received 7 serving_example)"
    by (simp_all add: is_global_key_def serving_example_eval empty_config_def)
  have v: "\<not> isl (validate_api_key (py ''sk-1'') (req_model hi_request) (received 7 serving_example))"
    by (simp add: validate_examples)
  have u: "isl (validate_api_key (py ''sk-used-up'') (req_model hi_request) (received 7 serving_example))"
    by (rule validate_examples)
  have ne: "py ''sk-used-up'' \<noteq> py ''sk-1''"
    by (simp add: py_def)
  have c: "usage_count key_1 = Some 1"
    by (simp add: key_1_def)
  note a = usage_counted_once [OF j(1) header_eval(1) m(1) g(1), of example_library]
  note b = usage_counted_once [OF j(2) header_eval(2) m(2) g(2), of example_library]
  from a v have a1: "map_of (API_KEYS_DATA (snd (chat_completions example_library 7
            (bearer ''sk-1'' (Object hi_request)) serving_example))) (py ''sk-1'')
       = Some (key_1\<lparr> usage_count := Some 2, last_used := Some 7 \<rparr>)"
    by (simp add: c)
  from a v ne have a2: "map_of (API_KEYS_DATA (snd (chat_completions example_library 7
            (bearer ''sk-1'' (Object hi_request)) serving_example))) (py ''sk-used-up'')
       = Some key_used_up"
    by (simp add: m)
  from a v have a3: "written (snd (chat_completions example_library 7
            (bearer ''sk-1'' (Object hi_request)) serving_example)) = [''api_keys.json'']"
    by (simp add: serving_example_eval)
  from b u have b1: "API_KEYS_DATA (snd (chat_completions example_library 7
            (bearer ''sk-used-up'' (Object hi_request)) serving_example))
       = API_KEYS_DATA serving_example"
    by blast
  from hi_dispatched a1 a2 a3 u b1 show ?thesis
    by (intro conjI)
qed

text \<open>
  C10.  A registered key (not the global key) whose \<open>usage_count\<close> has reached its
  \<open>usage_limit\<close> fails validation, for every model asked for.  A chat-completion
  request (a call whose body is a JSON object) that bears the key is answered 401, and
  whatever the body of the call is, the registry, and with it the key's counter, is
  left as it was.
\<close>

theorem exhausted_key_rejected:
  assumes "get_api_key_from_header request' = Inr k"
      and "map_of (API_KEYS_DATA st) k = Some kd"
      and "\<not> is_global_key k (received now st)"
      and "usage_limit kd = Some limit"
      and "limit \<le> (case usage_count kd of Some n \<Rightarrow> n | None \<Rightarrow> 0)"
  shows "isl (validate_api_key k model_name (received now st))
       \<and> (\<forall>openai_req. json_body request' = Object openai_req \<longrightarrow>
            (\<exists>detail. fst (chat_completions lib now request' st) = Inl (HTTPException 401 detail)))
       \<and> API_KEYS_DATA (snd (chat_completions lib now request' st)) = API_KEYS_DATA st"
proof -
  have v: "isl (validate_api_key k model_name' (received now st))" for model_name'
    using assms(2-5)
    by (simp add: validate_api_key_def received_frame split: option.splits)
  have obj: "(\<exists>detail. fst (chat_completions lib now request' st) = Inl (HTTPException 401 detail))
      \<and> API_KEYS_DATA (snd (chat_completions lib now request' st)) = API_KEYS_DATA st"
    if "json_body request' = Object openai_req" for openai_req
    using registered_key_effect [OF that assms(1,2,3), of lib] v [of "req_model openai_req"]
    by blast
  have keys: "API_KEYS_DATA (snd (chat_completions lib now request' st)) = API_KEYS_DATA st"
  proof (cases "json_body request'")
    case (Object r)
    then show ?thesis using obj by blast
  qed (simp_all add: chat_completions_other_bodies)
  from v obj keys show ?thesis
    by blast
qed

text \<open>The key \<open>sk-used-up\<close> has limit 2 and count 2: the request that bears it is
  answered 401 with the detail of the usage limit, and the registry stays as it was.\<close>

theorem exhausted_key_rejected_witness:
  "isl (validate_api_key (py ''sk-used-up'') (Some (py ''model-2'')) (received 7 serving_example))
   \<and> json_body (bearer ''sk-used-up'' (Object hi_request)) = Object hi_request
   \<and> fst (chat_completions example_library 7 (bearer ''sk-used-up'' (Object hi_request)) serving_example)
       = Inl (HTTPException 401 (py ''L'' @ [237] @ py ''mite de usos excedido''))
   \<and> API_KEYS_DATA (snd (chat_completions example_library 7
         (bearer ''sk-used-up'' (Object hi_request)) serving_example)) = API_KEYS_DATA serving_example
   \<and> map_of (API_KEYS_DATA serving_example) (py ''sk-used-up'') = Some key_used_up
   \<and> usage_count key_used_up = Some 2"
proof -
  have m: "map_of (API_KEYS_DATA serving_example) (py ''sk-used-up'') = Some key_used_up"
    by (simp add: serving_example_eval py_def)
  have g: "\<not> is_global_key (py ''sk-used-up'') (received 7 serving_example)"
    by (simp add: is_global_key_def serving_example_eval empty_config_def)
  have l: "usage_limit key_used_up = Some 2"
    "2 \<le> (case usage_count key_used_up of Some n \<Rightarrow> n | None \<Rightarrow> 0)"
    by (simp_all add: key_used_up_def)
  have c: "usage_count key_used_up = Some 2"
    by (simp add: key_used_up_def)
  have h: "get_api_key_from_header (bearer ''sk-used-up'' (Object hi_request)) = Inr (py ''sk-used-up'')"
    by (rule header_eval)
  have j: "json_body (bearer ''sk-used-up'' (Object hi_request)) = Object hi_request"
    by (simp add: bearer_def)
  note t = exhausted_key_rejected [where model_name = "Some (py ''model-2'')"
      and lib = example_library and request' = "bearer ''sk-used-up'' (Object hi_request)",
      OF h m g l]
  have e: "fst (chat_completions example_library 7 (bearer ''sk-used-up'' (Object hi_request)) serving_example)
       = Inl (HTTPException 401 (py ''L'' @ [237] @ py ''mite de usos excedido''))"
    by code_simp
  from t j have "\<exists>detail. fst (chat_completions example_library 7
      (bearer ''sk-used-up'' (Object hi_request)) serving_example) = Inl (HTTPException 401 detail)"
    by blast
  from t have v: "isl (validate_api_key (py ''sk-used-up'')
      (Some (py ''model-2'')) (received 7 serving_example))"
    and k: "API_KEYS_DATA (snd (chat_completions example_library 7
         (bearer ''sk-used-up'' (Object hi_request)) serving_example)) = API_KEYS_DATA serving_example"
    by blast+
  from v j e k m c show ?thesis
    by (intro conjI)
qed
subsection \<open>Finish frames and the end of a stream\<close>

lemma scan_buffer_steps:
  "scan_buffer lib model_name b st = (events, step, st') \<Longrightarrow> step = Return \<or> (\<exists>b'. step = Continue b')"
  by (auto simp: scan_buffer_def split: if_splits prod.splits option.splits)

lemma handle_frame_break:
  "handle_frame lib now request_id model_name buffer raw_data st = (events, Break, st')
     \<Longrightarrow> raw_data = StrFrame (py ''[DONE]'')"
  by (cases raw_data)
     (auto simp: handle_frame_def split: if_splits prod.splits option.splits
       dest: scan_buffer_steps)

lemma natural_ends_at_done:
  "stream_loop lib now request_id model_name timeout buffer queue st = (events, Natural, left, st')
     \<Longrightarrow> \<exists>taken. queue = taken @ StrFrame (py ''[DONE]'') # left"
proof (induction queue arbitrary: buffer st events)
  case Nil
  then show ?case by simp
next
  case (Cons raw_data queue)
  from Cons.prems have t: "\<not> timeout \<le> 0"
    by (auto split: if_splits)
  obtain ev step st1 where h:
    "handle_frame lib now request_id model_name buffer raw_data st = (ev, step, st1)"
    by (cases "handle_frame lib now request_id model_name buffer raw_data st") auto
  show ?case
  proof (cases step)
    case (Continue b')
    obtain ev' res where r:
      "stream_loop lib now request_id model_name timeout b' queue st1 = (ev', res)"
      by (cases "stream_loop lib now request_id model_name timeout b' queue st1") auto
    with h Continue t Cons.prems have "res = (Natural, left, st')"
      by simp
    with r Cons.IH obtain taken where "queue = taken @ StrFrame (py ''[DONE]'') # left"
      by blast
    then have "raw_data # queue = (raw_data # taken) @ StrFrame (py ''[DONE]'') # left"
      by simp
    then show ?thesis by blast
  next
    case Break
    with h have "raw_data = StrFrame (py ''[DONE]'')"
      using handle_frame_break by simp
    moreover from h Break t Cons.prems have "left = queue"
      by simp
    ultimately have "raw_data # queue = [] @ StrFrame (py ''[DONE]'') # left"
      by simp
    then show ?thesis by blast
  next
    case Return
    with h t Cons.prems show ?thesis by simp
  next
    case Raise
    with h t Cons.prems show ?thesis by simp
  qed
qed

lemma text_loop_contents:
  "list_all is_content (fst (text_loop lib buffer))"
proof (induction lib buffer rule: text_loop.induct)
  case (1 lib buffer)
  show ?case
    by (subst text_loop.simps) (use 1 in \<open>auto split: option.splits prod.splits\<close>)
qed

lemma rate_limit_notice_shape:
  "\<exists>message. fst (rate_limit_notice name st) = [Content message, Finish (py ''stop'')]"
  by (auto simp: rate_limit_notice_def rotation_notice_def fallback_notice_def
      split: option.splits prod.splits)

lemma rate_limit_notice_finish:
  "Finish r \<in> set (fst (rate_limit_notice name st)) \<Longrightarrow> r = py ''stop''"
  using rate_limit_notice_shape [of name st] by auto

lemma scan_buffer_finish:
  assumes "scan_buffer lib model_name b st = (events, step, st')"
      and "Finish r \<in> set events"
  shows "(\<exists>b' contents. step = Continue b' \<and> events = contents @ [Finish r]
            \<and> list_all is_content contents)
       \<or> (step = Return \<and> r = py ''stop''
            \<and> (\<exists>contents name. events = contents @ fst (rate_limit_notice name st)
                  \<and> list_all is_content contents))"
proof -
  have nc: "Finish r \<notin> set contents" if "list_all is_content contents" for contents
    using that by (auto simp: list_all_iff)
  consider (rate) "detect_rate_limit_error b"
    | (cloud) "\<not> detect_rate_limit_error b" "cloudflare_detected b"
    | (err) error_json where "\<not> detect_rate_limit_error b" "\<not> cloudflare_detected b"
        "(case search error_pattern_match b of None \<Rightarrow> None
          | Some (grp, rest) \<Rightarrow> loads_object lib grp) = Some error_json"
    | (limited) contents where "\<not> detect_rate_limit_error b" "\<not> cloudflare_detected b"
        "(case search error_pattern_match b of None \<Rightarrow> None
          | Some (grp, rest) \<Rightarrow> loads_object lib grp) = None"
        "text_loop lib b = (contents, None)"
    | (scanned) contents b' where "\<not> detect_rate_limit_error b" "\<not> cloudflare_detected b"
        "(case search error_pattern_match b of None \<Rightarrow> None
          | Some (grp, rest) \<Rightarrow> loads_object lib grp) = None"
        "text_loop lib b = (contents, Some b')"
  proof -
    obtain contents final where "text_loop lib b = (contents, final)"
      by (cases "text_loop lib b") auto
    then show ?thesis
      using that
      by (cases "case search error_pattern_match b of None \<Rightarrow> None
                 | Some (grp, rest) \<Rightarrow> loads_object lib grp"; cases final) blast+
  qed
  then show ?thesis
  proof cases
    case rate
    with assms(1) have e: "events = [] @ fst (rate_limit_notice model_name st)" "step = Return"
      by (auto simp: scan_buffer_def split: prod.splits)
    with assms(2) have "r = py ''stop''"
      using rate_limit_notice_finish by simp
    moreover have "list_all is_content []"
      by simp
    ultimately show ?thesis
      using e by blast
  next
    case cloud
    with assms show ?thesis
      by (auto simp: scan_buffer_def)
  next
    case err
    with assms show ?thesis
      by (auto simp: scan_buffer_def)
  next
    case limited
    have c: "list_all is_content contents"
      using text_loop_contents [of lib b] limited(4) by simp
    from limited assms(1)
    have e: "events = contents @ fst (rate_limit_notice model_name st)" "step = Return"
      by (auto simp: scan_buffer_def split: prod.splits)
    with assms(2) nc [OF c] have "r = py ''stop''"
      using rate_limit_notice_finish by auto
    with e c show ?thesis
      by blast
  next
    case scanned
    have c: "list_all is_content contents"
      using text_loop_contents [of lib b] scanned(4) by simp
    from scanned assms(1)
    have e: "events = contents @ fst (finish_scan lib b')" "step = Continue (snd (finish_scan lib b'))"
      by (auto simp: scan_buffer_def split: prod.splits)
    with assms(2) nc [OF c] have "Finish r \<in> set (fst (finish_scan lib b'))"
      by auto
    then have "fst (finish_scan lib b') = [Finish r]"
      by (auto simp: finish_scan_def split: option.splits prod.splits)
    with e c show ?thesis
      by blast
  qed
qed

lemma handle_frame_finish:
  assumes "handle_frame lib now request_id model_name buffer raw_data st = (events, step, st')"
      and "Finish r \<in> set events"
  shows "(\<exists>b' contents. step = Continue b' \<and> events = contents @ [Finish r]
            \<and> list_all is_content contents)
       \<or> (step = Return \<and> r = py ''stop''
            \<and> (\<exists>contents name. events = contents @ fst (rate_limit_notice name st)
                  \<and> list_all is_content contents))"
proof (cases raw_data)
  case (StrFrame s)
  with assms show ?thesis
    using scan_buffer_finish [of lib model_name "buffer @ s" st events step st' r]
    by (auto simp: handle_frame_def split: if_splits)
next
  case (ListFrame items)
  with assms show ?thesis
    using scan_buffer_finish [of lib model_name "buffer @ concat items" st events step st' r]
    by (simp add: handle_frame_def)
next
  case (DictFrame d)
  show ?thesis
  proof (cases "rate_limit_detected d")
    case False
    with DictFrame assms show ?thesis
      by (auto simp: handle_frame_def on_error_object_def split: option.splits prod.splits if_splits)
  next
    case True
    with DictFrame assms(1)
    have e: "events = fst (on_rate_limit_signal now request_id d st)" "step = Return"
      by (auto simp: handle_frame_def split: prod.splits)
    with assms(2) obtain name where n: "events = [] @ fst (rate_limit_notice name st)"
      by (auto simp: on_rate_limit_signal_def Let_def split: option.splits prod.splits if_splits)
    with assms(2) have "r = py ''stop''"
      using rate_limit_notice_finish by simp
    moreover have "list_all is_content []"
      by simp
    ultimately show ?thesis
      using e n by blast
  qed
qed

lemma stream_events_last:
  "\<not> list_ex is_error events \<Longrightarrow> ended \<noteq> Raised \<Longrightarrow>
     stream_events model response_id reason events ended \<noteq> []
     \<and> last (stream_events model response_id reason events ended) =
         format_openai_finish_chunk model response_id (last_finish reason events)"
proof (induction events arbitrary: reason)
  case Nil
  then show ?case by simp
next
  case (Cons e events)
  then show ?case by (cases e) simp_all
qed

lemma stream_events_error:
  "list_ex is_error events \<Longrightarrow>
     stream_events model response_id reason events ended \<noteq> []
     \<and> last (stream_events model response_id reason events ended) =
         format_openai_finish_chunk model response_id (py ''stop'')"
proof (induction events arbitrary: reason)
  case Nil
  then show ?case by simp
next
  case (Cons e events)
  then show ?case by (cases e) auto
qed

lemma ignorecase_startswith_nth:
  "ignorecase_startswith s lit \<Longrightarrow> i < length lit \<Longrightarrow>
     i < length s \<and> ignorecase_eq (s ! i) (lit ! i)"
proof (induction s lit arbitrary: i rule: ignorecase_startswith.induct)
  case (3 c cs p ps)
  then show ?case by (cases i) auto
qed simp_all

lemma search_bool_suffix:
  "search_bool match_at s \<Longrightarrow> \<exists>pre post. s = pre @ post \<and> match_at post"
proof (induction s)
  case Nil
  then show ?case by simp
next
  case (Cons c cs)
  show ?case
  proof (cases "match_at (c # cs)")
    case True
    then have "c # cs = [] @ (c # cs) \<and> match_at (c # cs)" by simp
    then show ?thesis by blast
  next
    case False
    with Cons obtain pre post where "cs = pre @ post" "match_at post" by auto
    then have "c # cs = (c # pre) @ post \<and> match_at post" by simp
    then show ?thesis by blast
  qed
qed

lemma no_cloudflare:
  assumes "60 \<notin> set s" and "74 \<notin> set s" and "106 \<notin> set s"
  shows "\<not> cloudflare_detected s"
proof
  assume "cloudflare_detected s"
  then consider "search_bool just_a_moment_match s" | "search_bool enable_javascript_match s"
    by (auto simp: cloudflare_detected_def)
  then show False
  proof cases
    case 1
    then obtain pre post where p: "s = pre @ post" "just_a_moment_match post"
      using search_bool_suffix by blast
    then have "ignorecase_startswith post (py ''<title>Just a moment'')"
      by (simp add: just_a_moment_match_def)
    from ignorecase_startswith_nth [OF this, of 0]
    have "0 < length post" "ignorecase_eq (post ! 0) 60"
      by (simp_all add: py_def)
    then have "post ! 0 = 60"
      by (auto simp: ignorecase_eq_def sre_lower_def split: if_splits)
    with \<open>0 < length post\<close> have "60 \<in> set post"
      by (metis nth_mem)
    with p assms show False by simp
  next
    case 2
    then obtain pre post where p: "s = pre @ post" "enable_javascript_match post"
      using search_bool_suffix by blast
    then have "ignorecase_startswith post (py ''Enable JavaScript and cookies to continue'')"
      by (simp add: enable_javascript_match_def)
    from ignorecase_startswith_nth [OF this, of 7]
    have "7 < length post" "ignorecase_eq (post ! 7) 74"
      by (simp_all add: py_def)
    then have "post ! 7 = 74 \<or> post ! 7 = 106"
      by (auto simp: ignorecase_eq_def sre_lower_def split: if_splits)
    with \<open>7 < length post\<close> have "74 \<in> set post \<or> 106 \<in> set post"
      by (metis nth_mem)
    with p assms show False by auto
  qed
qed


lemmas parser_eval =
  handle_frame_def scan_buffer_def detect_rate_limit_error_def text_loop.simps
  text_pattern_match_def error_pattern_match_def finish_scan_def finish_pattern_match_def
  on_error_object_def no_cloudflare lower_def lower_char_def isspace_def
  content_frame_def finish_frame_def finish_text_def done_frame_def error_frame_def
  example_library_def plain_string_def plain_object_def plain_def py_def

lemmas generator_eval =
  stream_generator_def process_lmarena_stream_def process_queue_def queue_items_def
  cleanup_request_def format_openai_chunk_def format_openai_finish_chunk_def
  format_openai_error_chunk_def str_of_nat.simps empty_config_def

lemma with_queue_eval:
  "CONFIG (with_queue items) = empty_config"
  "map_of (response_channels (with_queue items)) (py ''r1'') = Some 0"
  "queues (with_queue items) = [(0, items)]"
  "entropy (with_queue items) = 0"
  "browser_ws (with_queue items) = Some 1"
  by (simp_all add: with_queue_def serving_example_def connected_example_def keyed_server_def
      initial_server_def py_def)

lemma example_frames:
  "handle_frame example_library now request_id model_name [] (content_frame ''Hel'') st
     = ([Content (py ''Hel'')], Continue [], st)"
  "handle_frame example_library now request_id model_name [] (content_frame ''lo'') st
     = ([Content (py ''lo'')], Continue [], st)"
  "handle_frame example_library now request_id model_name [] (content_frame ''more'') st
     = ([Content (py ''more'')], Continue [], st)"
  "handle_frame example_library now request_id model_name [] (finish_frame ''length'') st
     = ([Finish (py ''length'')], Continue [], st)"
  "handle_frame example_library now request_id model_name [] done_frame st = ([], Break, st)"
  "handle_frame example_library now request_id model_name [] (error_frame ''boom'') st
     = ([Error (py ''boom'')], Return, st)"
  by (simp_all add: parser_eval)

text \<open>
  The content scan cuts the buffer behind each match, and with it the text before the
  match.  A finish line that is followed by a content line in the same buffer is
  therefore gone when the finish scan runs: the frame yields the content only.
\<close>

lemma finish_before_content_is_dropped:
  "handle_frame example_library now request_id model_name []
     (StrFrame (finish_text ''length'' @ py ''a0:'' @ [34] @ py ''x'' @ [34])) st
     = ([Content (py ''x'')], Continue [], st)"
  by (simp add: parser_eval)

text \<open>
  C3, as amended.  A finish event never ends the parsing.  Whenever the handling of a
  frame yields a finish event, either that event comes from the finish scan, it is the
  last event of the frame after the content events, and the run goes on with the frames
  behind it; or it is the \<open>stop\<close> that closes a rate-limit notice of the parser, after
  which the parser returns.  A run that ends naturally has taken the queue up to a
  \<open>[DONE]\<close> frame and has left what is behind it.  Whenever the parser ends without an
  exception the last chunk of the streaming response is the finish chunk; it carries
  the last finish reason yielded (\<open>stop\<close> when none was) if no error event occurred,
  and \<open>stop\<close> after an error event.
\<close>

theorem finish_frame_does_not_end_the_stream:
  "(0 < timeout
      \<and> handle_frame lib now request_id model_name buffer raw_data st = (events, step, st')
      \<and> Finish r \<in> set events \<longrightarrow>
      (\<exists>b' contents. step = Continue b' \<and> events = contents @ [Finish r]
          \<and> list_all is_content contents
          \<and> stream_loop lib now request_id model_name timeout buffer (raw_data # queue) st =
              (events @ fst (stream_loop lib now request_id model_name timeout b' queue st'),
               snd (stream_loop lib now request_id model_name timeout b' queue st')))
      \<or> (step = Return \<and> r = py ''stop''
          \<and> (\<exists>contents name. events = contents @ fst (rate_limit_notice name st)
                \<and> list_all is_content contents)))
   \<and> (stream_loop lib now request_id model_name timeout buffer queue st
         = (run_events, Natural, left, st_end)
        \<longrightarrow> (\<exists>taken. queue = taken @ StrFrame (py ''[DONE]'') # left))
   \<and> (process_lmarena_stream lib now request_id (Some model) (st\<lparr> entropy := entropy st + 1 \<rparr>)
         = (events', ended, st'') \<and> ended \<noteq> Raised \<longrightarrow>
        fst (stream_generator lib now request_id model prefill st) \<noteq> []
        \<and> last (fst (stream_generator lib now request_id model prefill st)) =
            format_openai_finish_chunk model (py ''chatcmpl-'' @ uuid4 lib (entropy st))
              (if list_ex is_error events' then py ''stop'' else last_finish (py ''stop'') events'))"
proof (intro conjI impI)
  assume a: "0 < timeout
      \<and> handle_frame lib now request_id model_name buffer raw_data st = (events, step, st')
      \<and> Finish r \<in> set events"
  then have h: "handle_frame lib now request_id model_name buffer raw_data st = (events, step, st')"
    and t: "\<not> timeout \<le> 0"
    by simp_all
  have l: "stream_loop lib now request_id model_name timeout buffer (raw_data # queue) st =
      (events @ fst (stream_loop lib now request_id model_name timeout b' queue st'),
       snd (stream_loop lib now request_id model_name timeout b' queue st'))"
    if "step = Continue b'" for b'
    using that h t by (simp split: prod.splits)
  from handle_frame_finish [of lib now request_id model_name buffer raw_data st events step st' r] a l
  show "(\<exists>b' contents. step = Continue b' \<and> events = contents @ [Finish r]
          \<and> list_all is_content contents
          \<and> stream_loop lib now request_id model_name timeout buffer (raw_data # queue) st =
              (events @ fst (stream_loop lib now request_id model_name timeout b' queue st'),
               snd (stream_loop lib now request_id model_name timeout b' queue st')))
      \<or> (step = Return \<and> r = py ''stop''
          \<and> (\<exists>contents name. events = contents @ fst (rate_limit_notice name st)
                \<and> list_all is_content contents))"
    by blast
next
  assume "stream_loop lib now request_id model_name timeout buffer queue st
         = (run_events, Natural, left, st_end)"
  then show "\<exists>taken. queue = taken @ StrFrame (py ''[DONE]'') # left"
    by (rule natural_ends_at_done)
next
  assume a: "process_lmarena_stream lib now request_id (Some model) (st\<lparr> entropy := entropy st + 1 \<rparr>)
         = (events', ended, st'') \<and> ended \<noteq> Raised"
  then show "fst (stream_generator lib now request_id model prefill st) \<noteq> []"
    using stream_events_last [of events' ended model _ "py ''stop''"]
      stream_events_error [of events' model _ "py ''stop''" ended]
    by (auto simp: stream_generator_def Let_def)
  from a show "last (fst (stream_generator lib now request_id model prefill st)) =
            format_openai_finish_chunk model (py ''chatcmpl-'' @ uuid4 lib (entropy st))
              (if list_ex is_error events' then py ''stop'' else last_finish (py ''stop'') events')"
    using stream_events_last [of events' ended model _ "py ''stop''"]
      stream_events_error [of events' model _ "py ''stop''" ended]
    by (auto simp: stream_generator_def Let_def)
qed

text \<open>A finish frame with reason \<open>length\<close> is followed by more content, and a stream
  that ends at \<open>[DONE]\<close> closes with the reason \<open>length\<close>.\<close>

theorem finish_frame_does_not_end_the_stream_witness:
  "handle_frame example_library 0 (py ''r1'') (Some (py ''model-2'')) [] (finish_frame ''length'')
       (with_queue basic_frames)
     = ([Finish (py ''length'')], Continue [], with_queue basic_frames)
   \<and> stream_loop example_library 0 (py ''r1'') (Some (py ''model-2'')) 360 []
         [finish_frame ''length'', content_frame ''more'', done_frame] (with_queue basic_frames)
       = ([Finish (py ''length''), Content (py ''more'')], Natural, [], with_queue basic_frames)
   \<and> stream_loop example_library 0 (py ''r1'') (Some (py ''model-2'')) 360 [] basic_frames
         (with_queue basic_frames)
       = ([Content (py ''Hel''), Content (py ''lo''), Finish (py ''length'')], Natural, [],
          with_queue basic_frames)
   \<and> (\<exists>taken. basic_frames = taken @ [StrFrame (py ''[DONE]'')])
   \<and> last (fst (stream_generator example_library 0 (py ''r1'') (py ''model-2'') (Text [])
              (with_queue basic_frames)))
       = OpenAIFinishChunk (py ''chatcmpl-uuid-0'') (py ''model-2'') (py ''length'')"
proof -
  let ?st = "with_queue basic_frames"
  have h: "handle_frame example_library 0 (py ''r1'') (Some (py ''model-2'')) []
      (finish_frame ''length'') ?st = ([Finish (py ''length'')], Continue [], ?st)"
    by (rule example_frames)
  have l: "stream_loop example_library 0 (py ''r1'') (Some (py ''model-2'')) 360 []
      [content_frame ''more'', done_frame] ?st = ([Content (py ''more'')], Natural, [], ?st)"
    by (simp add: example_frames)
  have n: "stream_loop example_library 0 (py ''r1'') (Some (py ''model-2'')) 360 [] basic_frames ?st
      = ([Content (py ''Hel''), Content (py ''lo''), Finish (py ''length'')], Natural, [], ?st)"
    by (simp add: basic_frames_def example_frames)
  have p: "process_lmarena_stream example_library 0 (py ''r1'') (Some (py ''model-2''))
        (?st\<lparr> entropy := entropy ?st + 1 \<rparr>)
      = ([Content (py ''Hel''), Content (py ''lo''), Finish (py ''length'')], Natural,
         snd (snd (process_lmarena_stream example_library 0 (py ''r1'') (Some (py ''model-2''))
           (?st\<lparr> entropy := entropy ?st + 1 \<rparr>))))
      \<and> Natural \<noteq> Raised"
    by (simp add: generator_eval with_queue_eval example_frames basic_frames_def)
  have u: "uuid4 example_library (entropy ?st) = py ''uuid-0''"
    by (simp add: with_queue_eval example_library_def str_of_nat.simps py_def)
  note t = finish_frame_does_not_end_the_stream [where lib = example_library and st = ?st
      and timeout = 360 and model_name = "Some (py ''model-2'')"
      and now = 0 and request_id = "py ''r1''" and buffer = "[]"
      and raw_data = "finish_frame ''length''" and events = "[Finish (py ''length'')]"
      and step = "Continue []" and r = "py ''length''"
      and st' = ?st and model = "py ''model-2''" and prefill = "Text []"
      and events' = "[Content (py ''Hel''), Content (py ''lo''), Finish (py ''length'')]"
      and ended = Natural
      and run_events = "[Content (py ''Hel''), Content (py ''lo''), Finish (py ''length'')]"
      and left = "[]" and st_end = ?st]
  from t [where queue = "[content_frame ''more'', done_frame]", THEN conjunct1] h l
  have c2: "stream_loop example_library 0 (py ''r1'') (Some (py ''model-2'')) 360 []
         [finish_frame ''length'', content_frame ''more'', done_frame] ?st
       = ([Finish (py ''length''), Content (py ''more'')], Natural, [], ?st)"
    by simp
  from t [where queue = basic_frames, THEN conjunct2, THEN conjunct1] n
  have c3: "\<exists>taken. basic_frames = taken @ [StrFrame (py ''[DONE]'')]"
    by blast
  from t [where queue = basic_frames, THEN conjunct2, THEN conjunct2] p
  have c4: "last (fst (stream_generator example_library 0 (py ''r1'') (py ''model-2'') (Text []) ?st))
       = OpenAIFinishChunk (py ''chatcmpl-uuid-0'') (py ''model-2'') (py ''length'')"
    by (simp add: u format_openai_finish_chunk_def py_def)
  from h c2 n c3 c4 show ?thesis
    by (intro conjI)
qed

text \<open>
  C3 as stated fails when an error follows a finish frame: the reason recorded is
  \<open>length\<close>, but the finish chunk sent after the error chunk carries \<open>stop\<close>.
\<close>

theorem error_after_finish_sends_stop:
  "fst (process_lmarena_stream example_library 0 (py ''r1'') (Some (py ''model-2''))
         (with_queue [finish_frame ''length'', error_frame ''boom'']))
     = [Finish (py ''length''), Error (py ''boom'')]
   \<and> fst (stream_generator example_library 0 (py ''r1'') (py ''model-2'') (Text [])
         (with_queue [finish_frame ''length'', error_frame ''boom'']))
     = [OpenAIChunk (py ''chatcmpl-uuid-0'') (py ''model-2'')
          (Text ([10, 10] @ py ''[Error del Puente LMArena]: boom'')),
        OpenAIFinishChunk (py ''chatcmpl-uuid-0'') (py ''model-2'') (py ''stop'')]"
  by (simp add: generator_eval with_queue_eval example_frames)
     (simp add: example_library_def py_def Let_def str_of_nat.simps)

subsection \<open>Assistant prefill\<close>

lemma first_available_io:
  "CONFIG (snd (first_available now ms st)) = CONFIG st
   \<and> sent (snd (first_available now ms st)) = sent st
   \<and> browser_ws (snd (first_available now ms st)) = browser_ws st"
  by (induction ms arbitrary: st)
     (auto simp: is_model_available_for_auto_claude_def split: option.splits prod.splits)

lemma get_best_io:
  "CONFIG (snd (get_best_available_claude_model now st)) = CONFIG st
   \<and> sent (snd (get_best_available_claude_model now st)) = sent st
   \<and> browser_ws (snd (get_best_available_claude_model now st)) = browser_ws st"
proof -
  let ?c = "cleanup_expired_auto_claude_disables now st"
  have c: "CONFIG ?c = CONFIG st" "sent ?c = sent st" "browser_ws ?c = browser_ws st"
    by (simp_all add: cleanup_expired_auto_claude_disables_def Let_def)
  have s: "snd (get_best_available_claude_model now st) = snd (first_available now AUTO_CLAUDE_PRIORITY ?c)"
    by (simp add: get_best_available_claude_model_def split: prod.splits option.splits)
  show ?thesis
    using first_available_io [of now AUTO_CLAUDE_PRIORITY ?c] c by (simp add: s)
qed

lemma select_model_io:
  "CONFIG (snd (select_model now openai_req request_id st)) = CONFIG st
   \<and> sent (snd (select_model now openai_req request_id st)) = sent st
   \<and> browser_ws (snd (select_model now openai_req request_id st)) = browser_ws st"
  using get_best_io [of now st]
  by (auto simp: select_model_def split: prod.splits)

lemma check_api_key_io:
  "CONFIG (snd (check_api_key now request' openai_req st)) = CONFIG st
   \<and> sent (snd (check_api_key now request' openai_req st)) = sent st
   \<and> browser_ws (snd (check_api_key now request' openai_req st)) = browser_ws st
   \<and> entropy (snd (check_api_key now request' openai_req st)) = entropy st"
  by (simp add: check_api_key_def increment_api_key_usage_def save_api_keys_def
      split: sum.splits option.splits)

lemma received_io:
  "sent (received now st) = sent st"
  "entropy (received now st) = entropy st"
  by (simp_all add: received_def load_config_def)

lemma convert_result:
  assumes "convert_openai_to_lmarena_payload lib openai_data s m mo bo a st = (Some p, st')"
  shows "\<exists>msgs mode' target.
           extract_prefill (prefill_enabled st) (map normalize_role (req_messages openai_data))
             = Some (msgs, assistant_prefill p)
           \<and> message_templates p =
               map (set_position mode' target) (translated lib (CONFIG st) (entropy st) msgs)"
    and "sent st' = sent st" and "browser_ws st' = browser_ws st"
proof -
  let ?e = "extract_prefill (prefill_enabled st) (map normalize_role (req_messages openai_data))"
  from assms obtain msgs c where x: "?e = Some (msgs, c)"
    by (cases ?e) (auto simp: convert_openai_to_lmarena_payload_def prefill_enabled_def)
  obtain processed n where pm: "process_messages lib msgs (entropy st) = (processed, n)"
    by (cases "process_messages lib msgs (entropy st)") auto
  from assms x pm have r: "assistant_prefill p = c"
    "message_templates p =
       map (set_position
              (or_else mo (case id_updater_last_mode (CONFIG st) of
                             Some m \<Rightarrow> m | None \<Rightarrow> py ''direct_chat''))
              (lower lib (or_else bo (case id_updater_battle_target (CONFIG st) of
                                        Some t \<Rightarrow> t | None \<Rightarrow> py ''A''))))
         (translated lib (CONFIG st) (entropy st) msgs)"
    "st' = st\<lparr> entropy := n \<rparr>"
    unfolding convert_openai_to_lmarena_payload_def prefill_enabled_def [symmetric] Let_def
      translated_def
    by auto
  from x r(1,2) show "\<exists>msgs mode' target.
           extract_prefill (prefill_enabled st) (map normalize_role (req_messages openai_data))
             = Some (msgs, assistant_prefill p)
           \<and> message_templates p =
               map (set_position mode' target) (translated lib (CONFIG st) (entropy st) msgs)"
    by blast
  from r(3) show "sent st' = sent st" and "browser_ws st' = browser_ws st"
    by simp_all
qed

lemma dispatch_payload:
  assumes "fst (dispatch lib now openai_req st) = Inr d"
  shows "\<exists>p msgs mode' target n.
           sent (snd (dispatch lib now openai_req st)) =
             sent st @ [(the (browser_ws st), RequestMessage (uuid4 lib (entropy st)) p)]
           \<and> prefill_of d = assistant_prefill p
           \<and> extract_prefill (prefill_enabled st) (map normalize_role (req_messages openai_req))
               = Some (msgs, assistant_prefill p)
           \<and> message_templates p = map (set_position mode' target) (translated lib (CONFIG st) n msgs)"
proof -
  let ?rid = "uuid4 lib (entropy st)"
  let ?auto = "req_model openai_req = Some (py ''auto-claude'')"
  obtain model_name st3 where
    ms: "select_model now openai_req ?rid (st\<lparr> entropy := entropy st + 1 \<rparr>) = (model_name, st3)"
    by (cases "select_model now openai_req ?rid (st\<lparr> entropy := entropy st + 1 \<rparr>)") auto
  have c3: "CONFIG st3 = CONFIG st" "sent st3 = sent st" "browser_ws st3 = browser_ws st"
    using select_model_io [of now openai_req ?rid "st\<lparr> entropy := entropy st + 1 \<rparr>"] ms
    by simp_all
  from assms ms obtain session_id' message_id' mode_override battle_target_override
    where r: "resolve_session model_name st3 =
               Inr (session_id', message_id', mode_override, battle_target_override)"
    by (auto simp: dispatch_def Let_def split: sum.splits)
  obtain queue st4 where q: "new_queue st3 = (queue, st4)"
    by (cases "new_queue st3") auto
  let ?st5 = "st4\<lparr> response_channels := AList.update ?rid queue (response_channels st4) \<rparr>"
  have c5: "CONFIG ?st5 = CONFIG st" "sent ?st5 = sent st" "browser_ws ?st5 = browser_ws st"
    using c3 q by (auto simp: new_queue_def)
  obtain r6 st6 where cv: "convert_openai_to_lmarena_payload lib openai_req session_id' message_id'
              mode_override battle_target_override ?auto ?st5 = (r6, st6)"
    by (cases "convert_openai_to_lmarena_payload lib openai_req session_id' message_id'
              mode_override battle_target_override ?auto ?st5") auto
  from assms ms r q cv obtain p where p: "r6 = Some p" and d: "prefill_of d = assistant_prefill p"
    by (auto simp: dispatch_def Let_def split: option.splits if_splits)
  note cr = convert_result [OF cv [unfolded p]]
  from cr(1) obtain msgs mode' target where
    x: "extract_prefill (prefill_enabled ?st5) (map normalize_role (req_messages openai_req))
          = Some (msgs, assistant_prefill p)"
    and t: "message_templates p =
          map (set_position mode' target) (translated lib (CONFIG ?st5) (entropy ?st5) msgs)"
    by blast
  have e: "prefill_enabled ?st5 = prefill_enabled st"
    using c5(1) by (simp add: prefill_enabled_def)
  have s: "sent (snd (dispatch lib now openai_req st)) =
             sent st @ [(the (browser_ws st), RequestMessage ?rid p)]"
    using ms r q cv p cr(2,3) c5
    by (simp add: dispatch_def Let_def send_text_def)
  from s d x t e c5(1) show ?thesis
    by auto
qed

lemma chat_completions_payload:
  assumes "json_body request' = Object openai_req"
      and "fst (chat_completions lib now request' st) = Inr d"
  shows "\<exists>p msgs mode' target n.
           sent (snd (chat_completions lib now request' st)) =
             sent st @ [(the (browser_ws st), RequestMessage (uuid4 lib (entropy st)) p)]
           \<and> prefill_of d = assistant_prefill p
           \<and> extract_prefill (prefill_enabled (received now st))
                (map normalize_role (req_messages openai_req)) = Some (msgs, assistant_prefill p)
           \<and> message_templates p =
               map (set_position mode' target) (translated lib (CONFIG (received now st)) n msgs)"
proof -
  let ?S = "received now st"
  obtain e st1 where c: "check_api_key now request' openai_req ?S = (e, st1)"
    by (cases "check_api_key now request' openai_req ?S") auto
  have c1: "CONFIG st1 = CONFIG ?S" "sent st1 = sent st" "browser_ws st1 = browser_ws st"
    "entropy st1 = entropy st"
    using check_api_key_io [of now request' openai_req ?S] c
    by (simp_all add: received_io received_frame)
  from assms c have d: "fst (dispatch lib now openai_req st1) = Inr d"
    and s: "snd (chat_completions lib now request' st) = snd (dispatch lib now openai_req st1)"
    unfolding chat_completions_def received_def [symmetric] Let_def
    by (auto split: option.splits if_splits)
  have e: "prefill_enabled st1 = prefill_enabled ?S"
    using c1(1) by (simp add: prefill_enabled_def)
  from dispatch_payload [OF d] show ?thesis
    by (simp add: s c1 e)
qed

lemma normalize_last_assistant:
  assumes "msgs \<noteq> []" and "role (last msgs) = Some (py ''assistant'')"
  shows "map normalize_role msgs \<noteq> []"
    and "last (map normalize_role msgs) = last msgs"
  using assms by (simp_all add: last_map normalize_role_def py_def)

lemmas request_eval =
  chat_completions_def load_config_def serving_example_def keyed_server_def
  initial_server_def bearer_def prefill_request_def check_api_key_def
  get_api_key_from_header_def validate_api_key_def is_global_key_def
  increment_api_key_usage_def save_api_keys_def dispatch_def select_model_def
  resolve_session_def get_current_session_ids_def new_queue_def
  convert_openai_to_lmarena_payload_def extract_prefill_def normalize_role_def
  process_openai_message_def two_pairs_def key_1_def key_used_up_def example_library_def
  str_of_nat.simps py_def Let_def send_text_def empty_config_def or_else_def
  strip_is_empty_def isspace_def lower_def lower_char_def set_position_def update_conv'

lemma prefill_dispatched:
  "fst (chat_completions example_library 7 (bearer ''sk-1'' (Object (prefill_request ''Sure, '')))
          serving_example) = Inr (Streaming (py ''uuid-0'') (py ''model-2'') (Text (py ''Sure, '')))"
  "fst (chat_completions example_library 7 (bearer ''sk-1'' (Object (prefill_request [])))
          serving_example) = Inr (Streaming (py ''uuid-0'') (py ''model-2'') (Text []))"
  "fst (chat_completions example_library 7 (bearer ''sk-1'' (Object (prefill_request ''Sure, '')))
          no_prefill_server) = Inr (Streaming (py ''uuid-0'') (py ''model-2'') (Text []))"
  by (simp_all add: request_eval no_prefill_server_def)

lemma after_dispatch_eval:
  "response_channels (after_dispatch s) = [(py ''uuid-0'', 0)]"
  "queues (after_dispatch s) = [(0, [])]"
  "entropy (after_dispatch s) = 1"
  "CONFIG (after_dispatch s) = empty_config"
  by (simp_all add: after_dispatch_def request_eval)

lemma prefill_request_eval:
  "req_messages (prefill_request s) \<noteq> []"
  "role (last (req_messages (prefill_request s))) = Some (py ''assistant'')"
  "content (last (req_messages (prefill_request s))) = Text (py s)"
  "json_body (bearer k (Object r)) = Object r"
  by (simp_all add: prefill_request_def bearer_def)

text \<open>
  C4, as amended.  Take a chat completion that is dispatched and whose last message
  has the role \<open>assistant\<close> and a text \<open>s\<close> as content.  With the prefill enabled, the
  payload sent to the browser holds \<open>s\<close> as its prefill and the templates of the
  messages before the last one, and the call hands \<open>s\<close> to the response; if \<open>s\<close> is not
  empty, the first chunk of the streaming response is the content chunk with \<open>s\<close>,
  before anything the parser yields, and if \<open>s\<close> is empty the response holds no chunk
  for it.  With the prefill disabled, the payload holds the templates of all messages,
  the last one with the role \<open>user\<close>, and the prefill is empty.
\<close>

theorem prefill_is_first_delta:
  assumes "json_body request' = Object openai_req"
      and "req_messages openai_req \<noteq> []"
      and "role (last (req_messages openai_req)) = Some (py ''assistant'')"
      and "content (last (req_messages openai_req)) = Text s"
      and "fst (chat_completions lib now request' st) = Inr d"
  shows "(\<exists>p mode' target n.
            sent (snd (chat_completions lib now request' st)) =
              sent st @ [(the (browser_ws st), RequestMessage (uuid4 lib (entropy st)) p)]
            \<and> prefill_of d = assistant_prefill p
            \<and> (prefill_enabled (received now st) \<longrightarrow>
                 assistant_prefill p = Text s
                 \<and> message_templates p =
                     map (set_position mode' target)
                       (translated lib (CONFIG (received now st)) n
                          (butlast (map normalize_role (req_messages openai_req)))))
            \<and> (\<not> prefill_enabled (received now st) \<longrightarrow>
                 assistant_prefill p = Text []
                 \<and> message_templates p =
                     map (set_position mode' target)
                       (translated lib (CONFIG (received now st)) n
                          (butlast (map normalize_role (req_messages openai_req))
                           @ [(last (req_messages openai_req))\<lparr> role := Some (py ''user'') \<rparr>]))))
       \<and> (prefill_enabled (received now st) \<and> s \<noteq> [] \<longrightarrow>
            (\<exists>rest. fst (stream_generator lib now' request_id model_name (prefill_of d) st')
               = OpenAIChunk (py ''chatcmpl-'' @ uuid4 lib (entropy st')) model_name (Text s) # rest))
       \<and> (prefill_enabled (received now st) \<and> s = [] \<longrightarrow>
            fst (stream_generator lib now' request_id model_name (prefill_of d) st')
              = (case process_lmarena_stream lib now' request_id (Some model_name)
                        (st'\<lparr> entropy := entropy st' + 1 \<rparr>) of
                   (events, ended, st'') \<Rightarrow>
                     stream_events model_name (py ''chatcmpl-'' @ uuid4 lib (entropy st'))
                       (py ''stop'') events ended))"
proof -
  let ?msgs = "map normalize_role (req_messages openai_req)"
  note n = normalize_last_assistant [OF assms(2,3)]
  have en: "extract_prefill True ?msgs = Some (butlast ?msgs, Text s)"
    using n assms(3,4) by (simp add: extract_prefill_def)
  have dis: "extract_prefill False ?msgs =
      Some (butlast ?msgs @ [(last (req_messages openai_req))\<lparr> role := Some (py ''user'') \<rparr>], Text [])"
    using n assms(3) by (simp add: extract_prefill_def)
  from chat_completions_payload [OF assms(1,5)] obtain p msgs mode' target n' where
    s: "sent (snd (chat_completions lib now request' st)) =
          sent st @ [(the (browser_ws st), RequestMessage (uuid4 lib (entropy st)) p)]"
    and d: "prefill_of d = assistant_prefill p"
    and x: "extract_prefill (prefill_enabled (received now st)) ?msgs = Some (msgs, assistant_prefill p)"
    and t: "message_templates p =
              map (set_position mode' target) (translated lib (CONFIG (received now st)) n' msgs)"
    by blast
  have p1: "assistant_prefill p = Text s \<and> msgs = butlast ?msgs"
    if "prefill_enabled (received now st)"
    using x that en by simp
  have p2: "assistant_prefill p = Text []
      \<and> msgs = butlast ?msgs @ [(last (req_messages openai_req))\<lparr> role := Some (py ''user'') \<rparr>]"
    if "\<not> prefill_enabled (received now st)"
    using x that dis by simp
  have g1: "\<exists>rest. fst (stream_generator lib now' request_id model_name (Text s) st')
      = OpenAIChunk (py ''chatcmpl-'' @ uuid4 lib (entropy st')) model_name (Text s) # rest"
    if "s \<noteq> []"
    using that
    by (simp add: stream_generator_def Let_def format_openai_chunk_def split: prod.splits)
  have g2: "fst (stream_generator lib now' request_id model_name (Text []) st')
      = (case process_lmarena_stream lib now' request_id (Some model_name)
                 (st'\<lparr> entropy := entropy st' + 1 \<rparr>) of
           (events, ended, st'') \<Rightarrow>
             stream_events model_name (py ''chatcmpl-'' @ uuid4 lib (entropy st'))
               (py ''stop'') events ended)"
    by (simp add: stream_generator_def Let_def split: prod.splits)
  have first: "\<exists>p mode' target n.
            sent (snd (chat_completions lib now request' st)) =
              sent st @ [(the (browser_ws st), RequestMessage (uuid4 lib (entropy st)) p)]
            \<and> prefill_of d = assistant_prefill p
            \<and> (prefill_enabled (received now st) \<longrightarrow>
                 assistant_prefill p = Text s
                 \<and> message_templates p =
                     map (set_position mode' target)
                       (translated lib (CONFIG (received now st)) n (butlast ?msgs)))
            \<and> (\<not> prefill_enabled (received now st) \<longrightarrow>
                 assistant_prefill p = Text []
                 \<and> message_templates p =
                     map (set_position mode' target)
                       (translated lib (CONFIG (received now st)) n
                          (butlast ?msgs
                           @ [(last (req_messages openai_req))\<lparr> role := Some (py ''user'') \<rparr>])))"
    using s d t p1 p2 by blast
  have second: "\<exists>rest. fst (stream_generator lib now' request_id model_name (prefill_of d) st')
               = OpenAIChunk (py ''chatcmpl-'' @ uuid4 lib (entropy st')) model_name (Text s) # rest"
    if "prefill_enabled (received now st) \<and> s \<noteq> []"
    using that g1 p1 d by simp
  have third: "fst (stream_generator lib now' request_id model_name (prefill_of d) st')
              = (case process_lmarena_stream lib now' request_id (Some model_name)
                        (st'\<lparr> entropy := entropy st' + 1 \<rparr>) of
                   (events, ended, st'') \<Rightarrow>
                     stream_events model_name (py ''chatcmpl-'' @ uuid4 lib (entropy st'))
                       (py ''stop'') events ended)"
    if "prefill_enabled (received now st) \<and> s = []"
    using that g2 p1 d by simp
  from first second third show ?thesis
    by blast
qed

lemma set_position_keeps:
  "template_role (set_position mode' target msg) = template_role msg"
  "template_content (set_position mode' target msg) = template_content msg"
  by (simp_all add: set_position_def)

lemma no_prefill_server_eval:
  "sent no_prefill_server = []"
  "browser_ws no_prefill_server = Some 1"
  "entropy no_prefill_server = 0"
  "sent serving_example = []"
  "browser_ws serving_example = Some 1"
  "entropy serving_example = 0"
  "CONFIG (received now no_prefill_server) = empty_config\<lparr> assistant_prefill_enabled := Some False \<rparr>"
  by (simp_all add: no_prefill_server_def serving_example_def keyed_server_def initial_server_def
      received_def load_config_def)

lemma translated_eval:
  "translated example_library (CONFIG (received 7 serving_example)) k
     (butlast (map normalize_role (req_messages (prefill_request ''Sure, ''))))
   = [\<lparr> template_role = Some (py ''user''), template_content = py ''hi'',
        attachments = [], participantPosition = None \<rparr>]"
  "translated example_library (CONFIG (received 7 no_prefill_server)) k
     (butlast (map normalize_role (req_messages (prefill_request ''Sure, '')))
      @ [(last (req_messages (prefill_request ''Sure, '')))\<lparr> role := Some (py ''user'') \<rparr>])
   = [\<lparr> template_role = Some (py ''user''), template_content = py ''hi'',
        attachments = [], participantPosition = None \<rparr>,
      \<lparr> template_role = Some (py ''user''), template_content = py ''Sure, '',
        attachments = [], participantPosition = None \<rparr>]"
  by (simp_all add: translated_def serving_example_eval no_prefill_server_eval empty_config_def
      prefill_request_def normalize_role_def process_openai_message_def strip_is_empty_def
      isspace_def py_def)

text \<open>The request ends with the assistant message \<open>Sure, \<close>.  With the prefill enabled
  the browser receives the user message alone, with the prefill \<open>Sure, \<close>, and the
  stream of the request opens with it; with the prefill disabled the browser receives
  both messages, the last one as a user message, and an empty prefill.\<close>

theorem prefill_is_first_delta_witness:
  "fst (chat_completions example_library 7 (bearer ''sk-1'' (Object (prefill_request ''Sure, '')))
          serving_example) = Inr (Streaming (py ''uuid-0'') (py ''model-2'') (Text (py ''Sure, '')))
   \<and> prefill_enabled (received 7 serving_example)
   \<and> (\<exists>p. sent (after_dispatch ''Sure, '') = [(1, RequestMessage (py ''uuid-0'') p)]
         \<and> assistant_prefill p = Text (py ''Sure, '')
         \<and> map (\<lambda>t. (template_role t, template_content t)) (message_templates p)
             = [(Some (py ''user''), py ''hi'')])
   \<and> (\<exists>rest. fst (stream_generator example_library 8 (py ''uuid-0'') (py ''model-2'')
                     (Text (py ''Sure, '')) (after_dispatch ''Sure, ''))
         = OpenAIChunk (py ''chatcmpl-uuid-1'') (py ''model-2'') (Text (py ''Sure, '')) # rest)
   \<and> fst (chat_completions example_library 7 (bearer ''sk-1'' (Object (prefill_request ''Sure, '')))
          no_prefill_server) = Inr (Streaming (py ''uuid-0'') (py ''model-2'') (Text []))
   \<and> \<not> prefill_enabled (received 7 no_prefill_server)
   \<and> (\<exists>p. sent (snd (chat_completions example_library 7
                    (bearer ''sk-1'' (Object (prefill_request ''Sure, ''))) no_prefill_server))
           = [(1, RequestMessage (py ''uuid-0'') p)]
         \<and> assistant_prefill p = Text []
         \<and> map (\<lambda>t. (template_role t, template_content t)) (message_templates p)
             = [(Some (py ''user''), py ''hi''), (Some (py ''user''), py ''Sure, '')])"
proof -
  have e: "prefill_enabled (received 7 serving_example)"
    by (simp add: prefill_enabled_def serving_example_eval empty_config_def)
  have n: "\<not> prefill_enabled (received 7 no_prefill_server)"
    by (simp add: prefill_enabled_def no_prefill_server_eval)
  have ne: "py ''Sure, '' \<noteq> []"
    by (simp add: py_def)
  have u: "uuid4 example_library (entropy (after_dispatch ''Sure, '')) = py ''uuid-1''"
    "uuid4 example_library 0 = py ''uuid-0''"
    by (simp_all add: after_dispatch_eval example_library_def str_of_nat.simps py_def)
  note a = prefill_is_first_delta [OF prefill_request_eval(4) prefill_request_eval(1,2,3)
      prefill_dispatched(1), where now' = 8 and request_id = "py ''uuid-0''"
      and model_name = "py ''model-2''" and st' = "after_dispatch ''Sure, ''"]
  note b = prefill_is_first_delta [OF prefill_request_eval(4) prefill_request_eval(1,2,3)
      prefill_dispatched(3), where now' = 8 and request_id = "py ''uuid-0''"
      and model_name = "py ''model-2''" and st' = "after_dispatch ''Sure, ''"]
  from a [THEN conjunct1] e obtain p mode' target k where
    p: "sent (after_dispatch ''Sure, '') = [(1, RequestMessage (py ''uuid-0'') p)]"
      "assistant_prefill p = Text (py ''Sure, '')"
      "message_templates p = map (set_position mode' target)
         (translated example_library (CONFIG (received 7 serving_example)) k
            (butlast (map normalize_role (req_messages (prefill_request ''Sure, '')))))"
    by (auto simp: after_dispatch_def no_prefill_server_eval u)
  have "map (\<lambda>t. (template_role t, template_content t)) (message_templates p)
             = [(Some (py ''user''), py ''hi'')]"
    unfolding p(3) translated_eval by (simp add: set_position_keeps)
  with p(1,2) have c0: "\<exists>p. sent (after_dispatch ''Sure, '') = [(1, RequestMessage (py ''uuid-0'') p)]
         \<and> assistant_prefill p = Text (py ''Sure, '')
         \<and> map (\<lambda>t. (template_role t, template_content t)) (message_templates p)
             = [(Some (py ''user''), py ''hi'')]"
    by (intro exI [where x = p] conjI)
  from a [THEN conjunct2, THEN conjunct1] e ne
  have c1: "\<exists>rest. fst (stream_generator example_library 8 (py ''uuid-0'') (py ''model-2'')
                     (Text (py ''Sure, '')) (after_dispatch ''Sure, ''))
         = OpenAIChunk (py ''chatcmpl-uuid-1'') (py ''model-2'') (Text (py ''Sure, '')) # rest"
    by (simp add: u prefill_dispatched) (simp add: py_def)
  let ?D = "snd (chat_completions example_library 7
                    (bearer ''sk-1'' (Object (prefill_request ''Sure, ''))) no_prefill_server)"
  from b [THEN conjunct1] n obtain q mode'' target' k' where
    q: "sent ?D = [(1, RequestMessage (py ''uuid-0'') q)]"
      "assistant_prefill q = Text []"
      "message_templates q = map (set_position mode'' target')
         (translated example_library (CONFIG (received 7 no_prefill_server)) k'
            (butlast (map normalize_role (req_messages (prefill_request ''Sure, '')))
             @ [(last (req_messages (prefill_request ''Sure, '')))\<lparr> role := Some (py ''user'') \<rparr>]))"
    by (auto simp: no_prefill_server_eval u)
  have "map (\<lambda>t. (template_role t, template_content t)) (message_templates q)
             = [(Some (py ''user''), py ''hi''), (Some (py ''user''), py ''Sure, '')]"
    unfolding q(3) translated_eval by (simp add: set_position_keeps)
  with q(1,2) have c2: "\<exists>p. sent ?D = [(1, RequestMessage (py ''uuid-0'') p)]
         \<and> assistant_prefill p = Text []
         \<and> map (\<lambda>t. (template_role t, template_content t)) (message_templates p)
             = [(Some (py ''user''), py ''hi''), (Some (py ''user''), py ''Sure, '')]"
    by (intro exI [where x = q] conjI)
  from prefill_dispatched(1) e c0 c1 prefill_dispatched(3) n c2 show ?thesis
    by (intro conjI)
qed

text \<open>
  C4 as stated fails for an empty prefill: the request ends with an assistant message
  whose text is empty, the call is dispatched with the empty prefill, and the first
  delta of the stream is the first content of the browser, not the prefill.
\<close>

theorem empty_prefill_is_not_a_delta:
  "fst (chat_completions example_library 7 (bearer ''sk-1'' (Object (prefill_request [])))
          serving_example) = Inr (Streaming (py ''uuid-0'') (py ''model-2'') (Text []))
   \<and> queues (after_reply []) = [(0, [content_frame ''Hel'', done_frame])]
   \<and> fst (stream_generator example_library 8 (py ''uuid-0'') (py ''model-2'') (Text [])
         (after_reply []))
     = [OpenAIChunk (py ''chatcmpl-uuid-1'') (py ''model-2'') (Text (py ''Hel'')),
        OpenAIFinishChunk (py ''chatcmpl-uuid-1'') (py ''model-2'') (py ''stop'')]"
proof -
  have q: "map_of (response_channels (after_reply [])) (py ''uuid-0'') = Some 0"
    "queues (after_reply []) = [(0, [content_frame ''Hel'', done_frame])]"
    "entropy (after_reply []) = 1"
    "CONFIG (after_reply []) = empty_config"
    by (simp_all add: after_reply_def websocket_receive_def put_def queue_items_def
        after_dispatch_eval py_def)
  have "fst (stream_generator example_library 8 (py ''uuid-0'') (py ''model-2'') (Text [])
         (after_reply []))
     = [OpenAIChunk (py ''chatcmpl-uuid-1'') (py ''model-2'') (Text (py ''Hel'')),
        OpenAIFinishChunk (py ''chatcmpl-uuid-1'') (py ''model-2'') (py ''stop'')]"
    by (simp add: generator_eval q example_frames)
       (simp add: example_library_def str_of_nat.simps py_def Let_def)
  with prefill_dispatched(2) q(2) show ?thesis
    by (intro conjI)
qed

end
